theory Spec2Isabelle
  imports Complex_Main
begin

section \<open>JavaScript values used by the services\<close>

text \<open>
  A JavaScript string is a sequence of UTF-16 code units; the regular expressions and
  the length test of the phone extractor work on code units, and the status texts of
  the sync service are Cyrillic. A string is therefore a list of code units, and
  \<open>js\<close> embeds an ASCII literal.
\<close>

type_synonym jstring = "nat list"

definition js :: "string \<Rightarrow> jstring" where
  "js s = map of_char s"

text \<open>Truthiness of an optional string field: \<open>undefined\<close>, \<open>null\<close> and \<open>''\<close> are falsy.\<close>

fun truthy :: "jstring option \<Rightarrow> bool" where
  "truthy None = False"
| "truthy (Some s) = (s \<noteq> [])"

text \<open>\<open>x || d\<close> on an optional string.\<close>

fun or_else :: "jstring option \<Rightarrow> jstring \<Rightarrow> jstring" where
  "or_else None d = d"
| "or_else (Some s) d = (if s = [] then d else s)"

text \<open>
  A JavaScript number is a binary64 value: \<open>NaN\<close>, an infinity (\<open>Infinity True\<close> is
  the positive one), the negative zero, or a finite value, given as the rational it
  denotes (\<open>Num 0\<close> is the positive zero). A numeric field of an upstream record is
  absent (or falsy), or carries the number \<open>parseFloat\<close> reads from it.
\<close>

datatype jsnum = NaN | Infinity bool | NegZero | Num rat

text \<open>
  Rounding to binary64, to the nearest value and to the even one of two nearest. For a
  positive rational \<open>a\<close>, \<open>floor_log2 a\<close> is the exponent \<open>e\<close> with
  \<open>2 ^ e \<le> a < 2 ^ (e + 1)\<close>; the values near \<open>a\<close> are the multiples of
  \<open>2 ^ (e - 52)\<close>, and of \<open>2 ^ (- 1074)\<close> below the normal range; a result of
  \<open>2 ^ 1024\<close> or more is an infinity (\<open>None\<close> in \<open>round_magnitude\<close>).
\<close>

definition pow2 :: "int \<Rightarrow> rat" where
  "pow2 e = (if 0 \<le> e then 2 ^ nat e else 1 / 2 ^ nat (- e))"

fun ilog2 :: "nat \<Rightarrow> nat" where
  "ilog2 n = (if n < 2 then 0 else 1 + ilog2 (n div 2))"

declare ilog2.simps [simp del]

definition floor_log2 :: "rat \<Rightarrow> int" where
  "floor_log2 a =
     (if 1 \<le> a then int (ilog2 (nat \<lfloor>a\<rfloor>)) else - int (ilog2 (nat \<lceil>1 / a\<rceil> - 1)) - 1)"

definition round_half_even :: "rat \<Rightarrow> int" where
  "round_half_even x =
     (let f = \<lfloor>x\<rfloor>; r = x - of_int f
      in if r < 1 / 2 then f else if 1 / 2 < r then f + 1 else if even f then f else f + 1)"

definition round_magnitude :: "rat \<Rightarrow> rat option" where
  "round_magnitude a =
     (if a = 0 then Some 0
      else
        let q = max (floor_log2 a - 52) (- 1074);
            v = of_int (round_half_even (a / pow2 q)) * pow2 q
        in if 2 ^ 1024 \<le> v then None else Some v)"

text \<open>The binary64 value of a sign and a magnitude.\<close>

definition round_b64 :: "bool \<Rightarrow> rat \<Rightarrow> jsnum" where
  "round_b64 negative a =
     (case round_magnitude a of
        None \<Rightarrow> Infinity (\<not> negative)
      | Some v \<Rightarrow> if \<not> negative then Num v else if v = 0 then NegZero else Num (- v))"

fun is_negative :: "jsnum \<Rightarrow> bool" where
  "is_negative NaN = False"
| "is_negative (Infinity s) = (\<not> s)"
| "is_negative NegZero = True"
| "is_negative (Num a) = (a < 0)"

text \<open>The magnitude of a finite number.\<close>

fun magnitude :: "jsnum \<Rightarrow> rat option" where
  "magnitude (Num a) = Some \<bar>a\<bar>"
| "magnitude NegZero = Some 0"
| "magnitude _ = None"

text \<open>The operators \<open>*\<close>, \<open>/\<close>, \<open>+\<close>, unary and binary \<open>-\<close>, and \<open>Math.floor\<close>.\<close>

fun jmul :: "jsnum \<Rightarrow> jsnum \<Rightarrow> jsnum" where
  "jmul NaN y = NaN"
| "jmul x NaN = NaN"
| "jmul x y =
     (case (magnitude x, magnitude y) of
        (Some a, Some b) \<Rightarrow> round_b64 (is_negative x \<noteq> is_negative y) (a * b)
      | (Some a, None) \<Rightarrow> if a = 0 then NaN else Infinity (is_negative x = is_negative y)
      | (None, Some b) \<Rightarrow> if b = 0 then NaN else Infinity (is_negative x = is_negative y)
      | (None, None) \<Rightarrow> Infinity (is_negative x = is_negative y))"

fun jdiv :: "jsnum \<Rightarrow> jsnum \<Rightarrow> jsnum" where
  "jdiv NaN y = NaN"
| "jdiv x NaN = NaN"
| "jdiv x y =
     (case (magnitude x, magnitude y) of
        (Some a, Some b) \<Rightarrow>
          if b = 0 then (if a = 0 then NaN else Infinity (is_negative x = is_negative y))
          else round_b64 (is_negative x \<noteq> is_negative y) (a / b)
      | (Some a, None) \<Rightarrow> if is_negative x = is_negative y then Num 0 else NegZero
      | (None, Some b) \<Rightarrow> Infinity (is_negative x = is_negative y)
      | (None, None) \<Rightarrow> NaN)"

fun jadd :: "jsnum \<Rightarrow> jsnum \<Rightarrow> jsnum" where
  "jadd NaN y = NaN"
| "jadd x NaN = NaN"
| "jadd (Infinity s) (Infinity t) = (if s = t then Infinity s else NaN)"
| "jadd (Infinity s) y = Infinity s"
| "jadd x (Infinity t) = Infinity t"
| "jadd NegZero y = y"
| "jadd x NegZero = x"
| "jadd (Num a) (Num b) = (if a + b = 0 then Num 0 else round_b64 (a + b < 0) \<bar>a + b\<bar>)"

fun jneg :: "jsnum \<Rightarrow> jsnum" where
  "jneg NaN = NaN"
| "jneg (Infinity s) = Infinity (\<not> s)"
| "jneg NegZero = Num 0"
| "jneg (Num a) = (if a = 0 then NegZero else Num (- a))"

definition jsub :: "jsnum \<Rightarrow> jsnum \<Rightarrow> jsnum" where
  "jsub x y = jadd x (jneg y)"

fun jfloor :: "jsnum \<Rightarrow> jsnum" where
  "jfloor (Num a) = Num (of_int \<lfloor>a\<rfloor>)"
| "jfloor x = x"

declare jmul.simps [simp del] jdiv.simps [simp del] jadd.simps [simp del]

text \<open>\<open>parseFloat(x || '0')\<close> for a field \<open>x\<close>.\<close>

fun parseFloat_or0 :: "jsnum option \<Rightarrow> jsnum" where
  "parseFloat_or0 None = Num 0"
| "parseFloat_or0 (Some v) = v"

text \<open>The awaited outcome of a promise: it rejects with an error message or resolves.\<close>

datatype 'a outcome = Rejects jstring | Resolves 'a

section \<open>Upstream records\<close>

text \<open>
  One P2P order as the exchange sends it (\<open>any\<close> in the source). Only the fields the
  services read are kept. \<open>createDate\<close> carries what \<open>parseInt\<close> reads from the field
  (\<open>None\<close> when the field is absent or falsy, \<open>Some None\<close> for \<open>NaN\<close>); a text
  of digits too long for binary64, which reads as \<open>Infinity\<close>, is given by its
  integer, beyond the range of a Date like \<open>Infinity\<close>.
\<close>

record raw_trade =
  rt_id :: "jstring option"
  rt_orderId :: "jstring option"
  rt_side :: "int option"
  rt_status :: "int option"
  rt_tokenId :: "jstring option"
  rt_price :: "jsnum option"
  rt_amount :: "jsnum option"
  rt_notifyTokenQuantity :: "jsnum option"
  rt_targetNickName :: "jstring option"
  rt_createDate :: "int option option"

text \<open>One chat message of an order.\<close>

record chat_message =
  contentType :: "jstring option"
  message :: "jstring option"

datatype api_result =
    ResultObject "nat option" "raw_trade list option"
  | ResultArray "chat_message list"

record api_response =
  ret_code :: "int option"
  ret_msg :: "jstring option"
  result :: "api_result option"

section \<open>The exchange client (bybit.ts)\<close>

record parser =
  apiKey :: "jstring option"
  apiSecret :: "jstring option"
  baseUrl :: jstring
  timeOffset :: jsnum
  recvWindow :: int
  timeSyncComplete :: bool

text \<open>The constructor; \<open>testnet\<close> defaults to false and \<open>recvWindow\<close> to 5000.\<close>

definition BybitP2PParser :: "jstring option \<Rightarrow> jstring option \<Rightarrow> bool \<Rightarrow> int \<Rightarrow> parser" where
  "BybitP2PParser key secret testnet rw =
     \<lparr>apiKey = key, apiSecret = secret,
      baseUrl = (if testnet then js ''https://api-testnet.bybit.com'' else js ''https://api.bybit.com''),
      timeOffset = Num 0, recvWindow = rw, timeSyncComplete = False\<rparr>"

text \<open>
  The answer to \<open>GET /v5/market/time\<close>: the request rejects, or it resolves without a
  truthy \<open>data.result.timeNano\<close>, or with one, of which \<open>Number(timeNano)\<close> is given.
\<close>

datatype time_response = TimeRejects jstring | TimeNoNano | TimeNano jsnum

text \<open>
  \<open>syncTime\<close>: the body of the \<open>try\<close>, then the \<open>catch\<close> that resets the offset.
  \<open>now\<close> is \<open>Date.now()\<close>, a whole number of milliseconds. \<open>Inl\<close> is a thrown
  error.
\<close>

definition syncTime_body :: "time_response \<Rightarrow> int \<Rightarrow> parser \<Rightarrow> jstring + parser" where
  "syncTime_body r now p =
     (case r of
        TimeRejects m \<Rightarrow> Inl m
      | TimeNoNano \<Rightarrow> Inr p
      | TimeNano timeNano \<Rightarrow>
          let serverTime = jfloor (jdiv timeNano (Num 1000000));
              localTime = Num (of_int now)
          in Inr (p\<lparr>timeOffset := jsub serverTime localTime, timeSyncComplete := True\<rparr>))"

definition syncTime :: "time_response \<Rightarrow> int \<Rightarrow> parser \<Rightarrow> jstring + parser" where
  "syncTime r now p =
     (case syncTime_body r now p of
        Inl m \<Rightarrow> Inr (p\<lparr>timeOffset := Num 0\<rparr>)
      | Inr p' \<Rightarrow> Inr p')"

definition getTimestamp :: "int \<Rightarrow> parser \<Rightarrow> jsnum" where
  "getTimestamp now p = jadd (Num (of_int now)) (timeOffset p)"

datatype http_method = GET | POST

record order_params =
  op_page :: nat
  op_size :: nat
  op_tokenId :: "jstring option"
  op_side :: "int list option"
  op_status :: "int list option"
  op_beginTime :: "int option"
  op_endTime :: "int option"

datatype req_params = OrderListParams order_params | ChatParams "jstring option" jstring

text \<open>
  A signed request as it leaves the client. The value of the HMAC signature is not
  modelled; the key and the timestamp it is computed from are kept.
\<close>

record request =
  req_method :: http_method
  req_endpoint :: jstring
  req_key :: "jstring option"
  req_timestamp :: jsnum
  req_params :: req_params

datatype net_call = TimeCall | ApiCall request

text \<open>
  The network: what the time endpoint answers and what a signed request is answered
  (\<open>None\<close> is the body \<open>null\<close>).
\<close>

record net_env =
  server_time :: time_response
  respond :: "request \<Rightarrow> api_response option outcome"

definition time_sync_required :: jstring where
  "time_sync_required =
     js ''Time synchronization required before making API requests. Call syncTime() first.''"

text \<open>
  \<open>generateSignature\<close> passes the secret to \<open>crypto.createHmac\<close>, which throws a
  TypeError when the secret is \<open>undefined\<close> or \<open>null\<close> (here \<open>None\<close>); this is its
  message for \<open>undefined\<close>, in the wording of Node.
\<close>

definition hmac_key_error :: jstring where
  "hmac_key_error =
     js ''The '' @ [34] @ js ''key'' @ [34]
       @ js '' argument must be of type string or an instance of ArrayBuffer, Buffer, ''
       @ js ''TypedArray, DataView, KeyObject, or CryptoKey. Received undefined''"

text \<open>
  \<open>makeRequest\<close> returns what the call throws or returns, and the network calls it made.
  The signature is computed before the request is sent.
\<close>

definition makeRequest ::
  "net_env \<Rightarrow> int \<Rightarrow> parser \<Rightarrow> jstring \<Rightarrow> http_method \<Rightarrow> req_params
     \<Rightarrow> (jstring + api_response option) \<times> net_call list" where
  "makeRequest env now p endpoint method params =
     (if \<not> timeSyncComplete p then (Inl time_sync_required, [])
      else if apiSecret p = None then (Inl hmac_key_error, [])
      else
        let req = \<lparr>req_method = method, req_endpoint = endpoint, req_key = apiKey p,
                   req_timestamp = getTimestamp now p, req_params = params\<rparr>
        in (case respond env req of
              Rejects m \<Rightarrow> (Inl m, [ApiCall req])
            | Resolves d \<Rightarrow> (Inr d, [ApiCall req])))"

text \<open>\<open>getAllOrders\<close>: an optional filter is sent only when it is truthy.\<close>

definition getAllOrders ::
  "net_env \<Rightarrow> int \<Rightarrow> parser \<Rightarrow> nat \<Rightarrow> nat \<Rightarrow> jstring option \<Rightarrow> int list option \<Rightarrow> int list option
     \<Rightarrow> int option \<Rightarrow> int option \<Rightarrow> (jstring + api_response option) \<times> net_call list" where
  "getAllOrders env now p page sz tokenId side status beginTime endTime =
     makeRequest env now p (js ''/v5/p2p/order/simplifyList'') POST
       (OrderListParams
         \<lparr>op_page = page, op_size = sz,
          op_tokenId = (if truthy tokenId then tokenId else None),
          op_side = side, op_status = status,
          op_beginTime = (if beginTime = Some 0 then None else beginTime),
          op_endTime = (if endTime = Some 0 then None else endTime)\<rparr>)"

text \<open>
  \<open>processTransactions\<close>: the per-side and per-coin statistics are not read by the sync
  service and are left out; the count and the list are kept.
\<close>

record processed_data =
  totalCount :: nat
  transactions :: "raw_trade list"

definition processTransactions :: "raw_trade list \<Rightarrow> processed_data" where
  "processTransactions txs =
     (if txs = [] then \<lparr>totalCount = 0, transactions = []\<rparr>
      else \<lparr>totalCount = length txs, transactions = txs\<rparr>)"

record process_result =
  success :: bool
  data :: "processed_data option"
  pr_message :: "jstring option"

text \<open>
  The messages of the errors the engine itself raises, in the wording of V8 (another
  engine words them otherwise): the TypeError of reading a property of \<open>null\<close>, which
  names the property, and the RangeError of \<open>toISOString\<close> on an invalid Date.
\<close>

definition type_error_message :: "jstring \<Rightarrow> jstring" where
  "type_error_message property =
     js ''Cannot read properties of null (reading '' @ [39] @ property @ [39] @ js '')''"

definition invalid_time_value :: jstring where
  "invalid_time_value = js ''Invalid time value''"

text \<open>
  A Date holds a time value of at most 8.64e15 milliseconds in magnitude; \<open>new Date\<close>
  of a number beyond that is an invalid Date.
\<close>

definition date_out_of_range :: "int \<Rightarrow> bool" where
  "date_out_of_range t = (8640000000000000 < \<bar>t\<bar>)"

fun result_items :: "api_result option \<Rightarrow> raw_trade list" where
  "result_items (Some (ResultObject c (Some xs))) = xs"
| "result_items _ = []"

definition getAndProcessAllOrders ::
  "net_env \<Rightarrow> int \<Rightarrow> parser \<Rightarrow> nat \<Rightarrow> nat \<Rightarrow> jstring option \<Rightarrow> int list option \<Rightarrow> int list option
     \<Rightarrow> int option \<Rightarrow> int option \<Rightarrow> process_result \<times> net_call list" where
  "getAndProcessAllOrders env now p page sz tokenId side status beginTime endTime =
     (case getAllOrders env now p page sz tokenId side status beginTime endTime of
        (Inl m, calls) \<Rightarrow> (\<lparr>success = False, data = None, pr_message = Some m\<rparr>, calls)
      | (Inr None, calls) \<Rightarrow>
          (\<lparr>success = False, data = None,
            pr_message = Some (type_error_message (js ''ret_code''))\<rparr>, calls)
      | (Inr (Some r), calls) \<Rightarrow>
          (if ret_code r = Some 0
           then (\<lparr>success = True, data = Some (processTransactions (result_items (result r))),
                  pr_message = None\<rparr>, calls)
           else (\<lparr>success = False, data = None,
                  pr_message = Some (or_else (ret_msg r) (js ''Failed to fetch P2P orders''))\<rparr>,
                 calls)))"

text \<open>
  \<open>p2pRequest\<close>: an unsynchronized client synchronizes first and then signs and sends
  the request whatever the synchronization gave. It returns what the call throws or
  returns, the client afterwards and the network calls made.
\<close>

definition p2pRequest ::
  "net_env \<Rightarrow> int \<Rightarrow> parser \<Rightarrow> http_method \<Rightarrow> jstring \<Rightarrow> req_params
     \<Rightarrow> (jstring + api_response option) \<times> parser \<times> net_call list" where
  "p2pRequest env now p method endpoint params =
     (case (if \<not> timeSyncComplete p
            then map_sum id (\<lambda>q. (q, [TimeCall])) (syncTime (server_time env) now p)
            else Inr (p, [])) of
        Inl m \<Rightarrow> (Inl m, p, [TimeCall])
      | Inr (p1, calls) \<Rightarrow>
          if apiSecret p1 = None then (Inl hmac_key_error, p1, calls)
          else
            let req = \<lparr>req_method = method, req_endpoint = endpoint, req_key = apiKey p1,
                       req_timestamp = getTimestamp now p1, req_params = params\<rparr>
            in (case respond env req of
                  Rejects m \<Rightarrow> (Inl m, p1, calls @ [ApiCall req])
                | Resolves d \<Rightarrow> (Inr d, p1, calls @ [ApiCall req])))"

section \<open>Status texts\<close>

text \<open>\<open>exportToMatchingFormat\<close> (bybit.ts): the \<open>switch\<close> on the status code.\<close>

definition export_status :: "int option \<Rightarrow> jstring" where
  "export_status c =
     (if c = Some 5 then js ''Waiting for chain''
      else if c = Some 10 then js ''Waiting for payment''
      else if c = Some 20 then js ''Waiting for release''
      else if c = Some 30 then js ''Appealing''
      else if c = Some 40 then js ''Cancelled''
      else if c = Some 50 then js ''Completed''
      else if c = Some 60 then js ''Paying''
      else if c = Some 70 then js ''Payment failed''
      else if c = Some 80 then js ''Exception cancelled''
      else if c = Some 90 then js ''Waiting selection''
      else if c = Some 100 then js ''Objecting''
      else if c = Some 110 then js ''Waiting objection''
      else js ''Unknown'')"

text \<open>\<open>transformCabinetTransactionToDbFormat\<close>: the \<open>switch\<close> on the status code.\<close>

definition cabinet_status :: "int option \<Rightarrow> jstring" where
  "cabinet_status c =
     (if c = Some 40 then js ''CANCELED''
      else if c = Some 50 then js ''COMPLETED''
      else if c = Some 30 then js ''COMPLETED''
      else if c = Some 20 then js ''PENDING''
      else if c = Some 0 then js ''PENDING''
      else js ''UNKNOWN'')"

text \<open>The status codes the two \<open>switch\<close> statements have a case for.\<close>

definition export_codes :: "int list" where
  "export_codes = [5, 10, 20, 30, 40, 50, 60, 70, 80, 90, 100, 110]"

definition cabinet_codes :: "int list" where
  "cabinet_codes = [40, 50, 30, 20, 0]"

text \<open>The decimal text of a count, as a template literal prints it.\<close>

fun decimal :: "nat \<Rightarrow> jstring" where
  "decimal n = (if n < 10 then [48 + n] else decimal (n div 10) @ [48 + n mod 10])"

declare decimal.simps [simp del]

text \<open>
  The account status texts of the sync service, in code units:
  \<^item> \<open>status_no_new\<close> is the Russian text for "No new transactions found";
  \<^item> \<open>status_saved n\<close> is the Russian text for "Success. Saved n new transactions";
  \<^item> \<open>status_error m\<close> is the Russian word for "Error", a colon, a space and \<open>m\<close>.
\<close>

definition status_no_new :: jstring where
  "status_no_new =
     [1053, 1086, 1074, 1099, 1093, 32, 1090, 1088, 1072, 1085, 1079, 1072, 1082, 1094, 1080,
      1081, 32, 1085, 1077, 32, 1085, 1072, 1081, 1076, 1077, 1085, 1086]"

definition status_saved :: "nat \<Rightarrow> jstring" where
  "status_saved n =
     [1059, 1089, 1087, 1077, 1096, 1085, 1086, 46, 32, 1057, 1086, 1093, 1088, 1072, 1085,
      1077, 1085, 1086, 32] @ decimal n @
     [32, 1085, 1086, 1074, 1099, 1093, 32, 1090, 1088, 1072, 1085, 1079, 1072, 1082, 1094,
      1080, 1081]"

definition status_error :: "jstring \<Rightarrow> jstring" where
  "status_error m = [1054, 1096, 1080, 1073, 1082, 1072, 58, 32] @ m"

text \<open>
  The cabinet status texts: "ERROR: " with the Russian for "API keys are missing",
  "ERROR: " with a message, the Russian default for "Error getting data", "SUCCESS: "
  with the Russian for "No new transactions", and "SUCCESS: " with the Russian for
  "Added/updated n transactions".
\<close>

definition cabinet_no_keys :: jstring where
  "cabinet_no_keys =
     js ''ERROR: '' @ [1054, 1090, 1089, 1091, 1090, 1089, 1090, 1074, 1091, 1102, 1090, 32]
       @ js ''API '' @ [1082, 1083, 1102, 1095, 1080]"

definition cabinet_error :: "jstring \<Rightarrow> jstring" where
  "cabinet_error m = js ''ERROR: '' @ m"

definition cabinet_fetch_default :: jstring where
  "cabinet_fetch_default =
     [1054, 1096, 1080, 1073, 1082, 1072, 32, 1087, 1086, 1083, 1091, 1095, 1077, 1085, 1080,
      1103, 32, 1076, 1072, 1085, 1085, 1099, 1093]"

definition cabinet_none :: jstring where
  "cabinet_none =
     js ''SUCCESS: '' @ [1053, 1077, 1090, 32, 1085, 1086, 1074, 1099, 1093, 32, 1090, 1088,
       1072, 1085, 1079, 1072, 1082, 1094, 1080, 1081]"

definition cabinet_saved :: "nat \<Rightarrow> jstring" where
  "cabinet_saved n =
     js ''SUCCESS: '' @ [1044, 1086, 1073, 1072, 1074, 1083, 1077, 1085, 1086, 47, 1086, 1073,
       1085, 1086, 1074, 1083, 1077, 1085, 1086, 32] @ decimal n @
     [32, 1090, 1088, 1072, 1085, 1079, 1072, 1082, 1094, 1080, 1081]"

section \<open>The store\<close>

record user =
  u_id :: nat
  bybitApiToken :: "jstring option"
  bybitApiSecret :: "jstring option"
  bybitApiKey :: "jstring option"
  u_lastBybitSyncAt :: "int option"
  u_lastBybitSyncStatus :: "jstring option"

record cabinet =
  cab_id :: nat
  cab_bybitApiToken :: "jstring option"
  cab_bybitApiSecret :: "jstring option"
  cab_lastBybitSyncAt :: "int option"
  cab_lastBybitSyncStatus :: "jstring option"
  cab_updatedAt :: "int option"

text \<open>A row of \<open>bybitTransaction\<close>. The store gives the id; the rest is what \<open>create\<close> is given.\<close>

record bybit_transaction =
  bt_id :: nat
  bt_orderNo :: jstring
  bt_counterparty :: jstring
  bt_status :: jstring
  bt_userId :: nat
  bt_amount :: jsnum
  bt_asset :: jstring
  bt_dateTime :: int
  bt_originalData :: raw_trade
  bt_totalPrice :: jsnum
  bt_type :: jstring
  bt_unitPrice :: jsnum
  bt_updatedAt :: int
  bt_processed :: bool
  bt_lastAttemptError :: "jstring option"

text \<open>A row of \<open>bybitTransactionFromCabinet\<close>.\<close>

record cabinet_transaction =
  ct_id :: nat
  ct_orderNo :: "jstring option"
  ct_counterparty :: jstring
  ct_status :: jstring
  ct_amount :: jsnum
  ct_asset :: jstring
  ct_dateTime :: int
  ct_totalPrice :: jsnum
  ct_type :: jstring
  ct_unitPrice :: jsnum
  ct_originalData :: raw_trade
  ct_cabinetId :: nat
  ct_processed :: bool
  ct_extractedPhones :: "jstring list"
  ct_createdAt :: int
  ct_updatedAt :: int
  ct_lastAttemptError :: "jstring option"

record order_info =
  oi_orderNo :: jstring
  oi_userId :: nat
  oi_phoneNumbers :: "jstring list"
  oi_bybitTransactionId :: "nat option"

text \<open>
  The tables, and a journal of the account status writes the store accepted (table,
  account id, status text, time), in order.
\<close>

datatype account_kind = UserAccount | CabinetAccount

record db =
  bybitTransaction :: "bybit_transaction list"
  bybitTransactionFromCabinet :: "cabinet_transaction list"
  bybitOrderInfo :: "order_info list"
  user_table :: "user list"
  bybitCabinet :: "cabinet list"
  status_writes :: "(account_kind \<times> nat \<times> jstring \<times> int) list"

text \<open>
  Every store call can reject. \<open>db_error\<close> gives, for a call, the message it rejects
  with, if it does.
\<close>

datatype db_op =
    FindTransaction jstring nat
  | CreateTransaction jstring nat
  | UpdateTransaction nat
  | RecordTransactionError nat
  | CreateOrderInfo jstring nat
  | UpdateUser nat
  | FindCabinetTransaction "jstring option"
  | CreateCabinetTransaction "jstring option"
  | UpdateCabinetTransaction nat
  | RecordCabinetTransactionError nat
  | UpdateCabinet nat
  | FindUnprocessed account_kind

type_synonym store_env = "db_op \<Rightarrow> jstring option"

text \<open>
  Modelled from the spec: the schema of the store is not among the sources. The store
  numbers the rows of a table upwards; this is the next id of a table whose rows have
  the given ids. A new row is not yet enriched and carries no error (the lifecycle of a
  Transaction in the spec), which is what the two row builders below put in the fields
  that the syncs do not give.
\<close>

definition fresh_id :: "nat list \<Rightarrow> nat" where
  "fresh_id ids = Suc (fold max ids 0)"

section \<open>The per-user sync (sync-service.ts)\<close>

text \<open>
  The sync is modelled against the awaited outcomes of the calls it makes on the client
  and on the store: what \<open>parser.syncTime()\<close> gives, what the page fetch
  \<open>parser.getAndProcessAllOrders\<close> gives for a strategy and a page, and which store
  calls reject. File logging and the pacing delays are left out. The \<open>syncTime\<close> of
  bybit.ts always returns, so the outer \<open>catch\<close> is reached from it only with another
  client; the model keeps the branch.
\<close>

datatype strategy = TimeWindowed | Unwindowed

record sync_env =
  se_syncTime :: "unit outcome"
  se_fetch :: "strategy \<Rightarrow> nat \<Rightarrow> process_result outcome"
  se_db_error :: store_env

text \<open>
  The test of a fetched page,
  \<open>result.success && result.data && result.data.transactions.length > 0\<close>: the
  transactions of a page that passes it. A call that throws is caught and ends the
  strategy as a failed page does.
\<close>

fun page_transactions :: "process_result outcome \<Rightarrow> raw_trade list option" where
  "page_transactions (Rejects m) = None"
| "page_transactions (Resolves r) =
     (if success r then
        (case data r of
           None \<Rightarrow> None
         | Some d \<Rightarrow> (if transactions d \<noteq> [] then Some (transactions d) else None))
      else None)"

record fetch_state =
  allCompletedTransactions :: "raw_trade list"
  hasSuccess :: bool
  page_requests :: "(strategy \<times> nat) list"

text \<open>The loop \<open>for (let page = 1; page <= 10; page++)\<close> of one strategy, from \<open>page\<close> on.\<close>

function fetch_pages :: "(strategy \<Rightarrow> nat \<Rightarrow> process_result outcome) \<Rightarrow> strategy \<Rightarrow> nat
    \<Rightarrow> fetch_state \<Rightarrow> fetch_state" where
  "fetch_pages fetch s page st =
     (if page \<le> 10 then
        (let st1 = st\<lparr>page_requests := page_requests st @ [(s, page)]\<rparr> in
         case page_transactions (fetch s page) of
           Some txs \<Rightarrow>
             fetch_pages fetch s (page + 1)
               (st1\<lparr>allCompletedTransactions := allCompletedTransactions st1 @ txs,
                    hasSuccess := True\<rparr>)
         | None \<Rightarrow> st1)
      else st)"
  by pat_completeness auto
termination
  by (relation "measure (\<lambda>(fetch, s, page, st). 11 - page)") auto

declare fetch_pages.simps [simp del]

text \<open>Strategy 1, and strategy 2 when strategy 1 had no page that passed the test.\<close>

definition fetch_strategies :: "(strategy \<Rightarrow> nat \<Rightarrow> process_result outcome) \<Rightarrow> fetch_state" where
  "fetch_strategies fetch =
     (let st1 = fetch_pages fetch TimeWindowed 1
                  \<lparr>allCompletedTransactions = [], hasSuccess = False, page_requests = []\<rparr>
      in if \<not> hasSuccess st1 then fetch_pages fetch Unwindowed 1 st1 else st1)"

text \<open>
  \<open>updateUserSyncStatus\<close>: the update of the user row; a rejected update (also of a
  user that is not in the table) is caught and logged.
\<close>

definition updateUserSyncStatus :: "store_env \<Rightarrow> int \<Rightarrow> nat \<Rightarrow> jstring \<Rightarrow> db \<Rightarrow> db" where
  "updateUserSyncStatus dbe now userId st d =
     (if dbe (UpdateUser userId) \<noteq> None \<or> userId \<notin> set (map u_id (user_table d)) then d
      else d\<lparr>user_table :=
               map (\<lambda>u. if u_id u = userId
                         then u\<lparr>u_lastBybitSyncAt := Some now, u_lastBybitSyncStatus := Some st\<rparr>
                         else u) (user_table d),
             status_writes := status_writes d @ [(UserAccount, userId, st, now)]\<rparr>)"

text \<open>The pair (order number, account) of a row, in each of the two tables.\<close>

definition tx_key :: "bybit_transaction \<Rightarrow> jstring \<times> nat" where
  "tx_key r = (bt_orderNo r, bt_userId r)"

definition cabinet_tx_key :: "cabinet_transaction \<Rightarrow> jstring option \<times> nat" where
  "cabinet_tx_key r = (ct_orderNo r, ct_cabinetId r)"

text \<open>\<open>prisma.bybitTransaction.findFirst({where: {orderNo, userId}})\<close>.\<close>

definition findFirst_transaction :: "jstring \<Rightarrow> nat \<Rightarrow> db \<Rightarrow> bybit_transaction option" where
  "findFirst_transaction orderNo userId d =
     List.find (\<lambda>r. bt_orderNo r = orderNo \<and> bt_userId r = userId) (bybitTransaction d)"

text \<open>The date of a record: \<open>parseInt(transaction.createDate || '0')\<close> when positive, else now.\<close>

fun user_dateTime :: "int option option \<Rightarrow> int \<Rightarrow> int" where
  "user_dateTime (Some (Some t)) now = (if t > 0 then t else now)"
| "user_dateTime _ now = now"

text \<open>Whether that date is an invalid Date: only one made from the record can be.\<close>

fun user_date_invalid :: "int option option \<Rightarrow> bool" where
  "user_date_invalid (Some (Some t)) = (t > 0 \<and> date_out_of_range t)"
| "user_date_invalid _ = False"

text \<open>
  The row the sync creates for a record that passed the filter, with its order number.
  The sync gives neither \<open>processed\<close> nor \<open>lastAttemptError\<close>; they are the store's.
\<close>

definition user_row :: "raw_trade \<Rightarrow> jstring \<Rightarrow> nat \<Rightarrow> int \<Rightarrow> nat \<Rightarrow> bybit_transaction" where
  "user_row t orderNo userId now new_id =
     (let amount = parseFloat_or0 (rt_amount t);
          unitPrice = parseFloat_or0 (rt_price t);
          totalPrice = jmul amount unitPrice
      in \<lparr>bt_id = new_id,
          bt_orderNo = orderNo,
          bt_counterparty = or_else (rt_targetNickName t) (js ''Unknown''),
          bt_status = js ''Completed'',
          bt_userId = userId,
          bt_amount = amount,
          bt_asset = or_else (rt_tokenId t) (js ''USDT''),
          bt_dateTime = user_dateTime (rt_createDate t) now,
          bt_originalData = t,
          bt_totalPrice = totalPrice,
          bt_type = js ''Sell'',
          bt_unitPrice = unitPrice,
          bt_updatedAt = now,
          bt_processed = False,
          bt_lastAttemptError = None\<rparr>)"

text \<open>The order number of a record: \<open>transaction.id || transaction.orderId || ''\<close>.\<close>

definition trade_orderNo :: "raw_trade \<Rightarrow> jstring" where
  "trade_orderNo t = or_else (rt_id t) (or_else (rt_orderId t) [])"

text \<open>
  One turn of the save loop: the filter, the order number, the lookup, the date, the
  creation. The log line before the creation prints \<open>dateTime.toISOString()\<close>, which
  throws on an invalid Date. That error, and a store call that rejects, is caught and
  logged, and the loop goes on. The state is the store and \<open>savedCount\<close>.
\<close>

definition save_transaction :: "store_env \<Rightarrow> int \<Rightarrow> nat \<Rightarrow> raw_trade \<Rightarrow> db \<times> nat \<Rightarrow> db \<times> nat" where
  "save_transaction dbe now userId t st =
     (let d = fst st; savedCount = snd st in
      if rt_side t \<noteq> Some 1 \<or> rt_status t \<noteq> Some 50 then st
      else
        let orderNo = trade_orderNo t in
        if orderNo = [] then st
        else if dbe (FindTransaction orderNo userId) \<noteq> None then st
        else if findFirst_transaction orderNo userId d \<noteq> None then st
        else if user_date_invalid (rt_createDate t) then st
        else if dbe (CreateTransaction orderNo userId) \<noteq> None then st
        else
          (d\<lparr>bybitTransaction :=
                bybitTransaction d
                  @ [user_row t orderNo userId now (fresh_id (map bt_id (bybitTransaction d)))]\<rparr>,
           Suc savedCount))"

definition save_transactions :: "store_env \<Rightarrow> int \<Rightarrow> nat \<Rightarrow> raw_trade list \<Rightarrow> db \<times> nat \<Rightarrow> db \<times> nat" where
  "save_transactions dbe now userId ts st = fold (save_transaction dbe now userId) ts st"

text \<open>
  The body of the outer \<open>try\<close>: \<open>Inl\<close> is an error thrown to the outer \<open>catch\<close>. The
  result is the store and the page requests made.
\<close>

definition syncUser_body :: "sync_env \<Rightarrow> int \<Rightarrow> user \<Rightarrow> db \<Rightarrow> jstring + db \<times> (strategy \<times> nat) list" where
  "syncUser_body env now u d =
     (case se_syncTime env of
        Rejects m \<Rightarrow> Inl m
      | Resolves x \<Rightarrow>
          let st = fetch_strategies (se_fetch env) in
          if \<not> hasSuccess st then
            Inr (updateUserSyncStatus (se_db_error env) now (u_id u) status_no_new d, page_requests st)
          else if allCompletedTransactions st = [] then
            Inr (updateUserSyncStatus (se_db_error env) now (u_id u) status_no_new d, page_requests st)
          else
            let r = save_transactions (se_db_error env) now (u_id u) (allCompletedTransactions st) (d, 0)
            in Inr (updateUserSyncStatus (se_db_error env) now (u_id u) (status_saved (snd r)) (fst r),
                    page_requests st))"

text \<open>\<open>syncUserTransactions\<close>: the credentials check, the body, the outer \<open>catch\<close>.\<close>

definition syncUserTransactions :: "sync_env \<Rightarrow> int \<Rightarrow> user \<Rightarrow> db \<Rightarrow> db \<times> (strategy \<times> nat) list" where
  "syncUserTransactions env now u d =
     (if \<not> truthy (bybitApiToken u) \<or> \<not> truthy (bybitApiSecret u) then (d, [])
      else
        (case syncUser_body env now u d of
           Inl m \<Rightarrow> (updateUserSyncStatus (se_db_error env) now (u_id u) (status_error m) d, [])
         | Inr r \<Rightarrow> r))"

text \<open>
  The page fetch of the sync on the client of bybit.ts: strategy 1 asks for pages of 20
  in the window of the last three days, strategy 2 for pages of 10 without a window,
  both filtered to status 50.
\<close>

definition client_fetch :: "net_env \<Rightarrow> int \<Rightarrow> parser \<Rightarrow> strategy \<Rightarrow> nat \<Rightarrow> process_result outcome" where
  "client_fetch net now p s page =
     (case s of
        TimeWindowed \<Rightarrow>
          Resolves (fst (getAndProcessAllOrders net now p page 20 None None (Some [50])
                           (Some (now - 3 * 24 * 60 * 60 * 1000)) (Some now)))
      | Unwindowed \<Rightarrow>
          Resolves (fst (getAndProcessAllOrders net now p page 10 None None (Some [50]) None None)))"

section \<open>The cabinet sync\<close>

record cabinet_env =
  ce_syncTime :: "unit outcome"
  ce_fetch :: "process_result outcome"
  ce_db_error :: store_env

text \<open>
  \<open>updateCabinetSyncStatus\<close>: as for a user, with the cabinet's \<open>updatedAt\<close>.
\<close>

definition updateCabinetSyncStatus :: "store_env \<Rightarrow> int \<Rightarrow> nat \<Rightarrow> jstring \<Rightarrow> db \<Rightarrow> db" where
  "updateCabinetSyncStatus dbe now cabinetId st d =
     (if dbe (UpdateCabinet cabinetId) \<noteq> None \<or> cabinetId \<notin> set (map cab_id (bybitCabinet d)) then d
      else d\<lparr>bybitCabinet :=
               map (\<lambda>c. if cab_id c = cabinetId
                         then c\<lparr>cab_lastBybitSyncAt := Some now, cab_lastBybitSyncStatus := Some st,
                                cab_updatedAt := Some now\<rparr>
                         else c) (bybitCabinet d),
             status_writes := status_writes d @ [(CabinetAccount, cabinetId, st, now)]\<rparr>)"

text \<open>
  The date of a cabinet record: \<open>parseInt(transaction.createDate || '0', 10)\<close> unless
  it is \<open>NaN\<close> or 0, else now.
\<close>

fun cabinet_dateTime :: "int option option \<Rightarrow> int \<Rightarrow> int" where
  "cabinet_dateTime (Some (Some t)) now = (if t = 0 then now else t)"
| "cabinet_dateTime _ now = now"

text \<open>Whether that date is an invalid Date: only one made from the record can be.\<close>

fun cabinet_date_invalid :: "int option option \<Rightarrow> bool" where
  "cabinet_date_invalid (Some (Some t)) = (t \<noteq> 0 \<and> date_out_of_range t)"
| "cabinet_date_invalid _ = False"

text \<open>
  The object \<open>transformCabinetTransactionToDbFormat\<close> returns. The id and
  \<open>lastAttemptError\<close> are the store's: the id is set when the row is created.
\<close>

definition cabinet_row :: "raw_trade \<Rightarrow> nat \<Rightarrow> int \<Rightarrow> cabinet_transaction" where
  "cabinet_row t cabinetId now =
     \<lparr>ct_id = 0,
      ct_orderNo = rt_id t,
      ct_counterparty = or_else (rt_targetNickName t) (js ''Unknown''),
      ct_status = cabinet_status (rt_status t),
      ct_amount = parseFloat_or0 (rt_notifyTokenQuantity t),
      ct_asset = or_else (rt_tokenId t) (js ''Unknown''),
      ct_dateTime = cabinet_dateTime (rt_createDate t) now,
      ct_totalPrice = parseFloat_or0 (rt_amount t),
      ct_type = (if rt_side t = Some 0 then js ''BUY'' else js ''SELL''),
      ct_unitPrice = parseFloat_or0 (rt_price t),
      ct_originalData = t,
      ct_cabinetId = cabinetId,
      ct_processed = False,
      ct_extractedPhones = [],
      ct_createdAt = now,
      ct_updatedAt = now,
      ct_lastAttemptError = None\<rparr>"

text \<open>
  \<open>transformCabinetTransactionToDbFormat\<close>: before it returns the object it prints
  \<open>dateTime.toISOString()\<close>, outside its \<open>try\<close>, which throws on an invalid Date
  (\<open>Inl\<close>).
\<close>

definition transformCabinetTransactionToDbFormat ::
  "raw_trade \<Rightarrow> nat \<Rightarrow> int \<Rightarrow> jstring + cabinet_transaction" where
  "transformCabinetTransactionToDbFormat t cabinetId now =
     (if cabinet_date_invalid (rt_createDate t) then Inl invalid_time_value
      else Inr (cabinet_row t cabinetId now))"

text \<open>\<open>prisma.bybitTransactionFromCabinet.findUnique({where: {orderNo}})\<close>.\<close>

definition findUnique_cabinet_transaction :: "jstring option \<Rightarrow> db \<Rightarrow> cabinet_transaction option" where
  "findUnique_cabinet_transaction orderNo d =
     List.find (\<lambda>r. ct_orderNo r = orderNo) (bybitTransactionFromCabinet d)"

text \<open>
  One turn of the loop over the filtered records: create the row when the order number
  is not stored, else update the status when it differs. No call is caught here: the
  normalizer when it throws, and a store call that rejects, throw to the outer
  \<open>catch\<close> (\<open>Inl\<close>, with the store as it is then).
\<close>

definition save_cabinet_transaction :: "store_env \<Rightarrow> int \<Rightarrow> nat \<Rightarrow> raw_trade \<Rightarrow> db \<Rightarrow> jstring \<times> db + db" where
  "save_cabinet_transaction dbe now cabinetId tx d =
     (case transformCabinetTransactionToDbFormat tx cabinetId now of
        Inl m \<Rightarrow> Inl (m, d)
      | Inr dbRecord \<Rightarrow>
          (case dbe (FindCabinetTransaction (ct_orderNo dbRecord)) of
             Some m \<Rightarrow> Inl (m, d)
           | None \<Rightarrow>
               (case findUnique_cabinet_transaction (ct_orderNo dbRecord) d of
                  None \<Rightarrow>
                    (case dbe (CreateCabinetTransaction (ct_orderNo dbRecord)) of
                       Some m \<Rightarrow> Inl (m, d)
                     | None \<Rightarrow>
                         Inr (d\<lparr>bybitTransactionFromCabinet :=
                                  bybitTransactionFromCabinet d
                                    @ [dbRecord\<lparr>ct_id := fresh_id (map ct_id (bybitTransactionFromCabinet d))\<rparr>]\<rparr>))
                | Some existingTransaction \<Rightarrow>
                    (if ct_status existingTransaction \<noteq> ct_status dbRecord then
                       (case dbe (UpdateCabinetTransaction (ct_id existingTransaction)) of
                          Some m \<Rightarrow> Inl (m, d)
                        | None \<Rightarrow>
                            Inr (d\<lparr>bybitTransactionFromCabinet :=
                                     map (\<lambda>r. if ct_id r = ct_id existingTransaction
                                               then r\<lparr>ct_status := ct_status dbRecord, ct_updatedAt := now\<rparr>
                                               else r) (bybitTransactionFromCabinet d)\<rparr>))
                     else Inr d))))"

fun save_cabinet_transactions :: "store_env \<Rightarrow> int \<Rightarrow> nat \<Rightarrow> raw_trade list \<Rightarrow> db \<Rightarrow> jstring \<times> db + db" where
  "save_cabinet_transactions dbe now cabinetId [] d = Inr d"
| "save_cabinet_transactions dbe now cabinetId (tx # txs) d =
     (case save_cabinet_transaction dbe now cabinetId tx d of
        Inl e \<Rightarrow> Inl e
      | Inr d' \<Rightarrow> save_cabinet_transactions dbe now cabinetId txs d')"

text \<open>The bounds \<open>new Date('2020-01-01').getTime()\<close> and \<open>new Date('2025-12-31').getTime()\<close>.\<close>

definition minTimestamp :: int where
  "minTimestamp = 1577836800000"

definition maxTimestamp :: int where
  "maxTimestamp = 1767139200000"

text \<open>
  The body of the \<open>try\<close> of \<open>syncCabinetTransactions\<close>. \<open>apiBeginTime\<close> and
  \<open>apiEndTime\<close> are the bounds the source computes from the local calendar date (three
  days back at midnight, and the end of today); the calendar is not modelled and they
  are inputs. \<open>Inl\<close> is an error thrown to the \<open>catch\<close>, with the store as it is then.
\<close>

definition syncCabinet_body :: "cabinet_env \<Rightarrow> int \<Rightarrow> int \<Rightarrow> int \<Rightarrow> cabinet \<Rightarrow> db \<Rightarrow> jstring \<times> db + db" where
  "syncCabinet_body env now apiBeginTime apiEndTime c d =
     (if \<not> truthy (cab_bybitApiToken c) \<or> \<not> truthy (cab_bybitApiSecret c) then
        Inr (updateCabinetSyncStatus (ce_db_error env) now (cab_id c) cabinet_no_keys d)
      else
        (case ce_syncTime env of
           Rejects m \<Rightarrow> Inl (m, d)
         | Resolves x \<Rightarrow>
             if apiBeginTime < minTimestamp \<or> apiBeginTime > maxTimestamp then Inr d
             else if apiEndTime < minTimestamp \<or> apiEndTime > maxTimestamp then Inr d
             else
               (case ce_fetch env of
                  Rejects m \<Rightarrow> Inl (m, d)
                | Resolves r \<Rightarrow>
                    if \<not> success r \<or> data r = None then
                      Inr (updateCabinetSyncStatus (ce_db_error env) now (cab_id c)
                             (cabinet_error (or_else (pr_message r) cabinet_fetch_default)) d)
                    else
                      let txs = (case data r of Some pd \<Rightarrow> transactions pd | None \<Rightarrow> []);
                          count = length txs
                      in if count = 0 then
                           Inr (updateCabinetSyncStatus (ce_db_error env) now (cab_id c) cabinet_none d)
                         else
                           let completedTransactions =
                                 filter (\<lambda>tx. rt_side tx = Some 1)
                                   (filter (\<lambda>tx. rt_status tx = Some 50) txs)
                           in (case save_cabinet_transactions (ce_db_error env) now (cab_id c)
                                       completedTransactions d of
                                 Inl e \<Rightarrow> Inl e
                               | Inr d' \<Rightarrow>
                                   Inr (updateCabinetSyncStatus (ce_db_error env) now (cab_id c)
                                          (cabinet_saved count) d')))))"

definition syncCabinetTransactions :: "cabinet_env \<Rightarrow> int \<Rightarrow> int \<Rightarrow> int \<Rightarrow> cabinet \<Rightarrow> db \<Rightarrow> db" where
  "syncCabinetTransactions env now apiBeginTime apiEndTime c d =
     (case syncCabinet_body env now apiBeginTime apiEndTime c d of
        Inl e \<Rightarrow> updateCabinetSyncStatus (ce_db_error env) now (cab_id c) (cabinet_error (fst e)) (snd e)
      | Inr d' \<Rightarrow> d')"

section \<open>The phone extractor\<close>

text \<open>
  The five patterns are sequences of three kinds of item: one character of a class, an
  optional character of a class (\<open>?\<close>, greedy), and a capture group of a fixed number
  of digits (\<open>(\d{n})\<close>). \<open>\d\<close> is an ASCII digit; \<open>\s\<close> is the white space of
  ECMAScript.
\<close>

definition is_digit :: "nat \<Rightarrow> bool" where
  "is_digit c = (48 \<le> c \<and> c \<le> 57)"

definition is_space :: "nat \<Rightarrow> bool" where
  "is_space c =
     (c \<in> {9, 10, 11, 12, 13, 32, 160, 5760, 8232, 8233, 8239, 8287, 12288, 65279}
      \<or> (8192 \<le> c \<and> c \<le> 8202))"

datatype char_class = Lit nat | WhiteSpace | WhiteSpaceOrDash

fun in_class :: "char_class \<Rightarrow> nat \<Rightarrow> bool" where
  "in_class (Lit a) c = (c = a)"
| "in_class WhiteSpace c = is_space c"
| "in_class WhiteSpaceOrDash c = (is_space c \<or> c = 45)"

datatype item = One char_class | Opt char_class | Digits nat

text \<open>
  A match of a pattern at the start of a text: the capture groups and the length of the
  match. An optional item first takes its character and, when the rest then fails, is
  tried empty, as the backtracking matcher does.
\<close>

fun match_here :: "item list \<Rightarrow> jstring \<Rightarrow> (jstring list \<times> nat) option" where
  "match_here [] s = Some ([], 0)"
| "match_here (One c # its) s =
     (case s of
        [] \<Rightarrow> None
      | x # xs \<Rightarrow>
          if in_class c x
          then (case match_here its xs of None \<Rightarrow> None | Some (g, n) \<Rightarrow> Some (g, Suc n))
          else None)"
| "match_here (Opt c # its) s =
     (case s of
        [] \<Rightarrow> match_here its s
      | x # xs \<Rightarrow>
          if in_class c x
          then (case match_here its xs of
                  Some (g, n) \<Rightarrow> Some (g, Suc n)
                | None \<Rightarrow> match_here its s)
          else match_here its s)"
| "match_here (Digits k # its) s =
     (if k \<le> length s \<and> list_all is_digit (take k s)
      then (case match_here its (drop k s) of
              None \<Rightarrow> None
            | Some (g, n) \<Rightarrow> Some (take k s # g, k + n))
      else None)"

text \<open>
  The loop \<open>while ((match = pattern.exec(messageText)) !== null)\<close> of a global pattern:
  the matches from left to right, each search starting where the last match ended. The
  first argument counts the characters of the last match still to pass. A match of the
  five patterns has at least eleven characters; a pattern that matched the empty text
  would keep the source in its loop, and is outside this model.
\<close>

fun exec_all :: "item list \<Rightarrow> nat \<Rightarrow> jstring \<Rightarrow> (jstring \<times> jstring list) list" where
  "exec_all its k [] = []"
| "exec_all its k (x # xs) =
     (if k = 0 then
        (case match_here its (x # xs) of
           Some (g, n) \<Rightarrow> (take n (x # xs), g) # exec_all its (n - 1) xs
         | None \<Rightarrow> exec_all its 0 xs)
      else exec_all its (k - 1) xs)"

definition phonePatterns :: "item list list" where
  "phonePatterns =
     [[One (Lit 43), One (Lit 55), Opt WhiteSpace, Opt (Lit 40), Digits 3, Opt (Lit 41),
       Opt WhiteSpaceOrDash, Digits 3, Opt WhiteSpaceOrDash, Digits 2, Opt WhiteSpaceOrDash, Digits 2],
      [One (Lit 43), One (Lit 55), Opt WhiteSpace, Digits 3, Digits 3, Digits 2, Digits 2],
      [One (Lit 56), Opt WhiteSpace, Opt (Lit 40), Digits 3, Opt (Lit 41),
       Opt WhiteSpaceOrDash, Digits 3, Opt WhiteSpaceOrDash, Digits 2, Opt WhiteSpaceOrDash, Digits 2],
      [One (Lit 56), Opt WhiteSpace, Digits 3, Digits 3, Digits 2, Digits 2],
      [Digits 3, Opt WhiteSpaceOrDash, Digits 3, Opt WhiteSpaceOrDash, Digits 2,
       Opt WhiteSpaceOrDash, Digits 2]]"

text \<open>\<open>match[i]\<close> for a capture group; a group the pattern does not have prints as undefined.\<close>

definition capture :: "jstring list \<Rightarrow> nat \<Rightarrow> jstring" where
  "capture g i = (if i < length g then g ! i else js ''undefined'')"

definition startsWith :: "jstring \<Rightarrow> jstring \<Rightarrow> bool" where
  "startsWith s p = (take (length p) s = p)"

text \<open>
  The number a match gives: the three branches on the start of the match build the same
  text; then everything but digits and \<open>+\<close> is removed.
\<close>

definition phone_of_match :: "jstring \<times> jstring list \<Rightarrow> jstring" where
  "phone_of_match m =
     (let g = snd m;
          phoneNumber =
            (if startsWith (fst m) (js ''+7'') then
               js ''+7'' @ capture g 0 @ capture g 1 @ capture g 2 @ capture g 3
             else if startsWith (fst m) (js ''8'') then
               js ''+7'' @ capture g 0 @ capture g 1 @ capture g 2 @ capture g 3
             else
               js ''+7'' @ capture g 0 @ capture g 1 @ capture g 2 @ capture g 3)
      in filter (\<lambda>c. is_digit c \<or> c = 43) phoneNumber)"

text \<open>\<open>Set.add\<close>, on the list of the set's elements in insertion order.\<close>

definition set_add :: "jstring \<Rightarrow> jstring list \<Rightarrow> jstring list" where
  "set_add x xs = (if x \<in> set xs then xs else xs @ [x])"

definition add_match :: "jstring \<times> jstring list \<Rightarrow> jstring list \<Rightarrow> jstring list" where
  "add_match m phoneNumbers =
     (let phoneNumber = phone_of_match m in
      if length phoneNumber = 12 then set_add phoneNumber phoneNumbers else phoneNumbers)"

definition scan_pattern :: "jstring \<Rightarrow> item list \<Rightarrow> jstring list \<Rightarrow> jstring list" where
  "scan_pattern messageText pattern phoneNumbers =
     fold add_match (exec_all pattern 0 messageText) phoneNumbers"

definition scan_message :: "chat_message \<Rightarrow> jstring list \<Rightarrow> jstring list" where
  "scan_message msg phoneNumbers =
     (case message msg of
        None \<Rightarrow> phoneNumbers
      | Some messageText \<Rightarrow>
          if contentType msg = Some (js ''str'') \<and> messageText \<noteq> []
          then fold (scan_pattern messageText) phonePatterns phoneNumbers
          else phoneNumbers)"

definition extractPhoneNumbers :: "chat_message list \<Rightarrow> jstring list" where
  "extractPhoneNumbers messages = fold scan_message messages []"

section \<open>The enrichment passes\<close>

text \<open>
  \<open>getChatMessages\<close>: a new client, the chat request through \<open>p2pRequest\<close>, and the
  messages when the answer has \<open>ret_code\<close> 0 and an array as result; everything else,
  a thrown error too, gives no messages. \<open>token\<close> and \<open>secret\<close> are what
  \<open>user.bybitApiToken\<close> and \<open>user.bybitApiSecret\<close> are on the argument.
\<close>

definition getChatMessages ::
  "net_env \<Rightarrow> int \<Rightarrow> jstring option \<Rightarrow> jstring option \<Rightarrow> jstring option \<Rightarrow> chat_message list" where
  "getChatMessages net now orderId token secret =
     (case fst (p2pRequest net now (BybitP2PParser token secret False 5000) POST
                  (js ''/v5/p2p/order/message/listpage'') (ChatParams orderId (js ''100''))) of
        Inl m \<Rightarrow> []
      | Inr None \<Rightarrow> []
      | Inr (Some r) \<Rightarrow>
          (if ret_code r = Some 0
           then (case result r of Some (ResultArray ms) \<Rightarrow> ms | _ \<Rightarrow> [])
           else []))"

text \<open>The message of the store when the row of an update does not exist.\<close>

definition record_not_found :: jstring where
  "record_not_found = js ''Record to update not found.''"

text \<open>An update of one row of \<open>bybitTransactionFromCabinet\<close> by id; \<open>Inl\<close> when it rejects.\<close>

definition update_cabinet_transaction ::
  "store_env \<Rightarrow> db_op \<Rightarrow> nat \<Rightarrow> (cabinet_transaction \<Rightarrow> cabinet_transaction) \<Rightarrow> db \<Rightarrow> jstring + db" where
  "update_cabinet_transaction dbe opn i f d =
     (case dbe opn of
        Some m \<Rightarrow> Inl m
      | None \<Rightarrow>
          if i \<notin> set (map ct_id (bybitTransactionFromCabinet d)) then Inl record_not_found
          else Inr (d\<lparr>bybitTransactionFromCabinet :=
                        map (\<lambda>r. if ct_id r = i then f r else r) (bybitTransactionFromCabinet d)\<rparr>))"

definition update_transaction ::
  "store_env \<Rightarrow> db_op \<Rightarrow> nat \<Rightarrow> (bybit_transaction \<Rightarrow> bybit_transaction) \<Rightarrow> db \<Rightarrow> jstring + db" where
  "update_transaction dbe opn i f d =
     (case dbe opn of
        Some m \<Rightarrow> Inl m
      | None \<Rightarrow>
          if i \<notin> set (map bt_id (bybitTransaction d)) then Inl record_not_found
          else Inr (d\<lparr>bybitTransaction :=
                        map (\<lambda>r. if bt_id r = i then f r else r) (bybitTransaction d)\<rparr>))"

definition create_order_info :: "store_env \<Rightarrow> order_info \<Rightarrow> db \<Rightarrow> jstring + db" where
  "create_order_info dbe oi d =
     (case dbe (CreateOrderInfo (oi_orderNo oi) (oi_userId oi)) of
        Some m \<Rightarrow> Inl m
      | None \<Rightarrow> Inr (d\<lparr>bybitOrderInfo := bybitOrderInfo d @ [oi]\<rparr>))"

subsection \<open>Cabinet transactions\<close>

text \<open>
  The \<open>try\<close> of one turn of \<open>processUnprocessedCabinetTransactions\<close>. The chat is asked
  for with an object that has \<open>bybitApiKey\<close> and \<open>bybitApiSecret\<close>, so the
  \<open>bybitApiToken\<close> that \<open>getChatMessages\<close> reads is undefined.
\<close>

definition enrich_cabinet_try ::
  "net_env \<Rightarrow> store_env \<Rightarrow> int \<Rightarrow> cabinet_transaction \<Rightarrow> db \<Rightarrow> jstring + db" where
  "enrich_cabinet_try net dbe now tx d =
     (case List.find (\<lambda>c. cab_id c = ct_cabinetId tx) (bybitCabinet d) of
        None \<Rightarrow> Inl (type_error_message (js ''bybitApiToken''))
      | Some c \<Rightarrow>
          if \<not> truthy (cab_bybitApiToken c) \<or> \<not> truthy (cab_bybitApiSecret c) then Inr d
          else
            let chatMessages = getChatMessages net now (ct_orderNo tx) None (cab_bybitApiSecret c) in
            if chatMessages \<noteq> [] then
              update_cabinet_transaction dbe (UpdateCabinetTransaction (ct_id tx)) (ct_id tx)
                (\<lambda>r. r\<lparr>ct_extractedPhones := extractPhoneNumbers chatMessages,
                        ct_processed := True, ct_updatedAt := now\<rparr>) d
            else
              update_cabinet_transaction dbe (UpdateCabinetTransaction (ct_id tx)) (ct_id tx)
                (\<lambda>r. r\<lparr>ct_processed := True, ct_updatedAt := now\<rparr>) d)"

text \<open>
  One turn with its \<open>catch\<close>, which stores the message on the row and does not mark it.
  When that update rejects too, the error leaves the loop (\<open>Inl\<close>).
\<close>

definition enrich_cabinet_transaction ::
  "net_env \<Rightarrow> store_env \<Rightarrow> int \<Rightarrow> cabinet_transaction \<Rightarrow> db \<Rightarrow> jstring + db" where
  "enrich_cabinet_transaction net dbe now tx d =
     (case enrich_cabinet_try net dbe now tx d of
        Inr d' \<Rightarrow> Inr d'
      | Inl m \<Rightarrow>
          update_cabinet_transaction dbe (RecordCabinetTransactionError (ct_id tx)) (ct_id tx)
            (\<lambda>r. r\<lparr>ct_lastAttemptError := Some m, ct_updatedAt := now\<rparr>) d)"

fun enrich_cabinet_loop ::
  "net_env \<Rightarrow> store_env \<Rightarrow> int \<Rightarrow> cabinet_transaction list \<Rightarrow> db \<Rightarrow> db" where
  "enrich_cabinet_loop net dbe now [] d = d"
| "enrich_cabinet_loop net dbe now (tx # txs) d =
     (case enrich_cabinet_transaction net dbe now tx d of
        Inl m \<Rightarrow> d
      | Inr d' \<Rightarrow> enrich_cabinet_loop net dbe now txs d')"

definition processUnprocessedCabinetTransactions :: "net_env \<Rightarrow> store_env \<Rightarrow> int \<Rightarrow> db \<Rightarrow> db" where
  "processUnprocessedCabinetTransactions net dbe now d =
     (if dbe (FindUnprocessed CabinetAccount) \<noteq> None then d
      else enrich_cabinet_loop net dbe now
             (filter (\<lambda>r. \<not> ct_processed r) (bybitTransactionFromCabinet d)) d)"

subsection \<open>User transactions, in the service that has the cabinets\<close>

text \<open>
  \<open>processUnprocessedTransactions\<close> of the service file with the cabinet sync: a row is
  pending while \<open>processed\<close> is false. The credentials test reads \<open>user.bybitApiKey\<close>.
  In the \<open>try\<close> of one turn, \<open>Inl\<close> is a thrown error with the store as it is then.
\<close>

definition enrich_transaction_try ::
  "net_env \<Rightarrow> store_env \<Rightarrow> int \<Rightarrow> bybit_transaction \<Rightarrow> db \<Rightarrow> jstring \<times> db + db" where
  "enrich_transaction_try net dbe now tx d =
     (case List.find (\<lambda>u. u_id u = bt_userId tx) (user_table d) of
        None \<Rightarrow> Inl (type_error_message (js ''bybitApiKey''), d)
      | Some u \<Rightarrow>
          if \<not> truthy (bybitApiKey u) \<or> \<not> truthy (bybitApiSecret u) then Inr d
          else
            let chatMessages = getChatMessages net now (Some (bt_orderNo tx)) None (bybitApiSecret u);
                phoneNumbers = (if chatMessages \<noteq> [] then extractPhoneNumbers chatMessages else [])
            in (case create_order_info dbe
                        \<lparr>oi_orderNo = bt_orderNo tx, oi_userId = bt_userId tx,
                         oi_phoneNumbers = phoneNumbers, oi_bybitTransactionId = None\<rparr> d of
                  Inl m \<Rightarrow> Inl (m, d)
                | Inr d1 \<Rightarrow>
                    (case update_transaction dbe (UpdateTransaction (bt_id tx)) (bt_id tx)
                            (\<lambda>r. r\<lparr>bt_processed := True, bt_updatedAt := now\<rparr>) d1 of
                       Inl m \<Rightarrow> Inl (m, d1)
                     | Inr d2 \<Rightarrow> Inr d2)))"

text \<open>
  One turn with its \<open>catch\<close>, which stores the message on the row and does not mark it.
  When that update rejects too, the error leaves the loop (\<open>Inl\<close>).
\<close>

definition enrich_transaction ::
  "net_env \<Rightarrow> store_env \<Rightarrow> int \<Rightarrow> bybit_transaction \<Rightarrow> db \<Rightarrow> jstring \<times> db + db" where
  "enrich_transaction net dbe now tx d =
     (case enrich_transaction_try net dbe now tx d of
        Inr d' \<Rightarrow> Inr d'
      | Inl e \<Rightarrow>
          (case update_transaction dbe (RecordTransactionError (bt_id tx)) (bt_id tx)
                  (\<lambda>r. r\<lparr>bt_lastAttemptError := Some (fst e), bt_updatedAt := now\<rparr>) (snd e) of
             Inl m \<Rightarrow> Inl (m, snd e)
           | Inr d' \<Rightarrow> Inr d'))"

fun enrich_transaction_loop ::
  "net_env \<Rightarrow> store_env \<Rightarrow> int \<Rightarrow> bybit_transaction list \<Rightarrow> db \<Rightarrow> db" where
  "enrich_transaction_loop net dbe now [] d = d"
| "enrich_transaction_loop net dbe now (tx # txs) d =
     (case enrich_transaction net dbe now tx d of
        Inl e \<Rightarrow> snd e
      | Inr d' \<Rightarrow> enrich_transaction_loop net dbe now txs d')"

definition processUnprocessedTransactions :: "net_env \<Rightarrow> store_env \<Rightarrow> int \<Rightarrow> db \<Rightarrow> db" where
  "processUnprocessedTransactions net dbe now d =
     (if dbe (FindUnprocessed UserAccount) \<noteq> None then d
      else enrich_transaction_loop net dbe now
             (filter (\<lambda>r. \<not> bt_processed r) (bybitTransaction d)) d)"

subsection \<open>User transactions, in the service without cabinets\<close>

text \<open>
  \<open>processUnprocessedTransactions\<close> of the service file without the cabinet sync: a row
  is pending while no order info refers to it. A row without chat messages, or without
  a phone number in them, is passed over; an error is caught and logged.
\<close>

definition has_order_info :: "db \<Rightarrow> bybit_transaction \<Rightarrow> bool" where
  "has_order_info d tx = (\<exists>oi \<in> set (bybitOrderInfo d). oi_bybitTransactionId oi = Some (bt_id tx))"

definition link_order_info :: "net_env \<Rightarrow> store_env \<Rightarrow> int \<Rightarrow> bybit_transaction \<Rightarrow> db \<Rightarrow> db" where
  "link_order_info net dbe now tx d =
     (case List.find (\<lambda>u. u_id u = bt_userId tx) (user_table d) of
        None \<Rightarrow> d
      | Some u \<Rightarrow>
          if \<not> truthy (bybitApiToken u) \<or> \<not> truthy (bybitApiSecret u) then d
          else
            let chatMessages =
                  getChatMessages net now (Some (bt_orderNo tx)) (bybitApiToken u) (bybitApiSecret u)
            in if chatMessages = [] then d
               else
                 let phoneNumbers = extractPhoneNumbers chatMessages in
                 if phoneNumbers = [] then d
                 else
                   (case create_order_info dbe
                           \<lparr>oi_orderNo = bt_orderNo tx, oi_userId = bt_userId tx,
                            oi_phoneNumbers = phoneNumbers,
                            oi_bybitTransactionId = Some (bt_id tx)\<rparr> d of
                      Inl m \<Rightarrow> d
                    | Inr d' \<Rightarrow> d'))"

definition processUnprocessedTransactions_orderInfo :: "net_env \<Rightarrow> store_env \<Rightarrow> int \<Rightarrow> db \<Rightarrow> db" where
  "processUnprocessedTransactions_orderInfo net dbe now d =
     (if dbe (FindUnprocessed UserAccount) \<noteq> None then d
      else fold (link_order_info net dbe now)
             (filter (\<lambda>r. \<not> has_order_info d r) (bybitTransaction d)) d)"

section \<open>Notions used in the statements\<close>

text \<open>The store after a body that may throw: the store at the throw, or at the end.\<close>

definition store_after :: "jstring \<times> db + db \<Rightarrow> db" where
  "store_after r = (case r of Inl e \<Rightarrow> snd e | Inr d \<Rightarrow> d)"

text \<open>Two cabinet rows that differ at most in \<open>status\<close> and \<open>updatedAt\<close>.\<close>

definition same_but_status :: "cabinet_transaction \<Rightarrow> cabinet_transaction \<Rightarrow> bool" where
  "same_but_status r r' = (r'\<lparr>ct_status := ct_status r, ct_updatedAt := ct_updatedAt r\<rparr> = r)"

text \<open>An order number is settled in a table when the row found for it is completed.\<close>

definition settled :: "cabinet_transaction list \<Rightarrow> jstring option \<Rightarrow> bool" where
  "settled rows orderNo =
     (case List.find (\<lambda>r. ct_orderNo r = orderNo) rows of
        None \<Rightarrow> False
      | Some r \<Rightarrow> ct_status r = js ''COMPLETED'')"

text \<open>The transactions of a fetch result that has them; none otherwise.\<close>

definition fetched_transactions :: "process_result outcome \<Rightarrow> raw_trade list" where
  "fetched_transactions r =
     (case r of
        Rejects m \<Rightarrow> []
      | Resolves pr \<Rightarrow>
          if success pr then (case data pr of None \<Rightarrow> [] | Some pd \<Rightarrow> transactions pd) else [])"

text \<open>When the cabinet sync reaches its loop over the fetched records.\<close>

definition cabinet_loop_runs :: "cabinet_env \<Rightarrow> int \<Rightarrow> int \<Rightarrow> cabinet \<Rightarrow> bool" where
  "cabinet_loop_runs env apiBeginTime apiEndTime c =
     (truthy (cab_bybitApiToken c) \<and> truthy (cab_bybitApiSecret c)
      \<and> ce_syncTime env = Resolves ()
      \<and> \<not> (apiBeginTime < minTimestamp \<or> apiBeginTime > maxTimestamp)
      \<and> \<not> (apiEndTime < minTimestamp \<or> apiEndTime > maxTimestamp)
      \<and> fetched_transactions (ce_fetch env) \<noteq> [])"

text \<open>When the per-user sync reaches its save loop.\<close>

definition user_loop_runs :: "sync_env \<Rightarrow> user \<Rightarrow> bool" where
  "user_loop_runs env u =
     (truthy (bybitApiToken u) \<and> truthy (bybitApiSecret u)
      \<and> se_syncTime env = Resolves ()
      \<and> hasSuccess (fetch_strategies (se_fetch env)))"






definition first_occurrences :: "'a list \<Rightarrow> 'a list" where
  "first_occurrences xs = rev (remdups (rev xs))"

section \<open>Sample data\<close>

text \<open>
  The records the examples below run on: a completed sale of 1.5 units at a price of
  30000 (with 2 as \<open>notifyTokenQuantity\<close>), the same order as a purchase, a user and a
  cabinet with credentials, and a store that holds just these two accounts.
\<close>

definition sample_trade :: raw_trade where
  "sample_trade =
     \<lparr>rt_id = Some (js ''1001''), rt_orderId = None, rt_side = Some 1, rt_status = Some 50,
      rt_tokenId = Some (js ''USDT''), rt_price = Some (Num 30000), rt_amount = Some (Num 1.5),
      rt_notifyTokenQuantity = Some (Num 2), rt_targetNickName = Some (js ''alice''),
      rt_createDate = Some (Some 1700000000000)\<rparr>"

definition sample_buy :: raw_trade where
  "sample_buy = sample_trade\<lparr>rt_side := Some 0\<rparr>"

definition sample_user :: user where
  "sample_user =
     \<lparr>u_id = 1, bybitApiToken = Some (js ''key''), bybitApiSecret = Some (js ''secret''),
      bybitApiKey = Some (js ''key''), u_lastBybitSyncAt = None, u_lastBybitSyncStatus = None\<rparr>"

definition sample_cabinet :: cabinet where
  "sample_cabinet =
     \<lparr>cab_id = 7, cab_bybitApiToken = Some (js ''key''), cab_bybitApiSecret = Some (js ''secret''),
      cab_lastBybitSyncAt = None, cab_lastBybitSyncStatus = None, cab_updatedAt = None\<rparr>"

definition sample_db :: db where
  "sample_db =
     \<lparr>bybitTransaction = [], bybitTransactionFromCabinet = [], bybitOrderInfo = [],
      user_table = [sample_user], bybitCabinet = [sample_cabinet], status_writes = []\<rparr>"

text \<open>A fetch result with the given transactions.\<close>

definition page_of :: "raw_trade list \<Rightarrow> process_result" where
  "page_of txs = \<lparr>success = True, data = Some (processTransactions txs), pr_message = None\<rparr>"

text \<open>
  An upstream whose time-windowed query has one page with the given transactions and
  nothing after it, and a store that accepts every call.
\<close>

definition sample_env :: "raw_trade list \<Rightarrow> sync_env" where
  "sample_env txs =
     \<lparr>se_syncTime = Resolves (),
      se_fetch = (\<lambda>s page. if s = TimeWindowed \<and> page = 1 then Resolves (page_of txs)
                            else Resolves (page_of [])),
      se_db_error = (\<lambda>opn. None)\<rparr>"

definition sample_cabinet_env :: "raw_trade list \<Rightarrow> cabinet_env" where
  "sample_cabinet_env txs =
     \<lparr>ce_syncTime = Resolves (), ce_fetch = Resolves (page_of txs), ce_db_error = (\<lambda>opn. None)\<rparr>"

text \<open>
  Two text messages with one number: the Russian word for "Call" followed by
  \<open>8 (999) 123-45-67\<close>, and \<open>+7 999 123 45 67\<close>. And a network that answers every
  chat request with the given messages.
\<close>

definition sample_call_message :: chat_message where
  "sample_call_message =
     \<lparr>contentType = Some (js ''str''),
      message = Some ([1047, 1074, 1086, 1085, 1080, 1090, 1077, 32] @ js ''8 (999) 123-45-67'')\<rparr>"

definition sample_plus7_message :: chat_message where
  "sample_plus7_message =
     \<lparr>contentType = Some (js ''str''), message = Some (js ''+7 999 123 45 67'')\<rparr>"

definition sample_net :: "chat_message list \<Rightarrow> net_env" where
  "sample_net msgs =
     \<lparr>server_time = TimeNano (Num 1700000000000000000),
      respond = (\<lambda>r. Resolves (Some \<lparr>ret_code = Some 0, ret_msg = None,
                                      result = Some (ResultArray msgs)\<rparr>))\<rparr>"

text \<open>
  The rows the two syncs store for the sample sale, and the stores that hold them, not
  yet enriched.
\<close>

definition sample_user_row :: bybit_transaction where
  "sample_user_row = user_row sample_trade (js ''1001'') 1 1700000005000 1"

definition sample_cabinet_row :: cabinet_transaction where
  "sample_cabinet_row = (cabinet_row sample_trade 7 1700000005000)\<lparr>ct_id := 1\<rparr>"

definition sample_user_db :: db where
  "sample_user_db = sample_db\<lparr>bybitTransaction := [sample_user_row]\<rparr>"

definition sample_cabinet_db :: db where
  "sample_cabinet_db = sample_db\<lparr>bybitTransactionFromCabinet := [sample_cabinet_row]\<rparr>"

text \<open>
  The sample upstream with a store that rejects the creation of the row of the sample
  sale for user 1. And a store whose cabinet table holds one row, of cabinet 8, with the
  order number of the sample sale and not yet completed.
\<close>

definition sample_env_rejecting :: "raw_trade list \<Rightarrow> sync_env" where
  "sample_env_rejecting txs =
     (sample_env txs)
       \<lparr>se_db_error := (\<lambda>opn. if opn = CreateTransaction (js ''1001'') 1
                               then Some (js ''rejected'') else None)\<rparr>"

definition sample_foreign_row :: cabinet_transaction where
  "sample_foreign_row =
     (cabinet_row (sample_trade\<lparr>rt_status := Some 20\<rparr>) 8 1690000000000)\<lparr>ct_id := 1\<rparr>"

definition sample_foreign_db :: db where
  "sample_foreign_db = sample_db\<lparr>bybitTransactionFromCabinet := [sample_foreign_row]\<rparr>"

section \<open>Properties of the numbers\<close>

lemma ilog2_bounds: "0 < n \<Longrightarrow> 2 ^ ilog2 n \<le> n \<and> n < 2 ^ (ilog2 n + 1)"
proof (induction n rule: ilog2.induct)
  case (1 n)
  show ?case
  proof (cases "n < 2")
    case True
    with "1.prems" have "n = 1" by simp
    then show ?thesis by (simp add: ilog2.simps)
  next
    case False
    then have h: "0 < n div 2" by simp
    from "1.IH" [OF False h] have a: "2 ^ ilog2 (n div 2) \<le> n div 2"
      and b: "n div 2 < 2 ^ (ilog2 (n div 2) + 1)" by simp_all
    have e: "ilog2 n = 1 + ilog2 (n div 2)" using False by (subst ilog2.simps) simp
    have "2 * 2 ^ ilog2 (n div 2) \<le> n" using a by simp
    moreover have "n < 2 * 2 ^ (ilog2 (n div 2) + 1)" using b by simp
    ultimately show ?thesis unfolding e by simp
  qed
qed

lemma round_half_even_int [simp]: "round_half_even (of_int k) = k"
  by (simp add: round_half_even_def)

text \<open>A whole number below \<open>2 ^ 53\<close> is a binary64 value: rounding leaves it as it is.\<close>

lemma round_magnitude_nat:
  assumes "n < 2 ^ 53"
  shows "round_magnitude (of_nat n) = Some (of_nat n)"
proof (cases "n = 0")
  case True
  then show ?thesis by (simp add: round_magnitude_def)
next
  case False
  then have pos: "0 < n" by simp
  define e where "e = ilog2 n"
  from ilog2_bounds [OF pos] have lo: "2 ^ e \<le> n" and hi: "n < 2 ^ (e + 1)" by (simp_all add: e_def)
  have "(2::nat) ^ e < 2 ^ 53" using lo assms by (rule le_less_trans)
  then have "e < 53" by (simp only: power_strict_increasing_iff rel_simps)
  then have e52: "e \<le> 52" by simp
  define k where "k = 52 - e"
  have fl: "floor_log2 (of_nat n) = int e"
    using pos by (simp add: floor_log2_def e_def)
  have q: "max (floor_log2 (of_nat n :: rat) - 52) (- 1074) = - int k"
    unfolding fl k_def using e52 by simp
  have p: "pow2 (- int k) = 1 / 2 ^ k"
    by (cases "k = 0") (simp_all add: pow2_def)
  have i: "(of_nat n :: rat) / (1 / 2 ^ k) = of_int (int (n * 2 ^ k))"
    by simp
  have v: "of_int (round_half_even ((of_nat n :: rat) / pow2 (- int k))) * pow2 (- int k)
             = (of_nat n :: rat)"
    unfolding p i round_half_even_int by simp
  have small: "\<not> (2::rat) ^ 1024 \<le> of_nat n"
  proof -
    have "(of_nat n :: rat) < of_nat (2 ^ 53)" using assms by (simp only: of_nat_less_iff)
    also have "\<dots> \<le> 2 ^ 1024" by simp
    finally show ?thesis by simp
  qed
  show ?thesis
    using False small by (simp add: round_magnitude_def Let_def q v)
qed

lemma jmul_exact:
  assumes "a * b = of_nat n" and "n < 2 ^ 53" and "0 \<le> a" and "0 \<le> b"
  shows "jmul (Num a) (Num b) = Num (of_nat n)"
proof -
  have "\<bar>a\<bar> * \<bar>b\<bar> = of_nat n" using assms by simp
  then show ?thesis
    using assms(3,4) by (simp add: jmul.simps round_b64_def round_magnitude_nat [OF assms(2)])
qed

lemma jadd_zero_exact:
  assumes "n < 2 ^ 53"
  shows "jadd (Num (of_nat n)) (Num 0) = Num (of_nat n)"
  by (simp add: jadd.simps round_b64_def round_magnitude_nat [OF assms])

text \<open>The products of the sample sale.\<close>

lemma jmul_sample:
  "jmul (Num 1.5) (Num 30000) = Num 45000"
  "jmul (Num 2) (Num 30000) = Num 60000"
  using jmul_exact [of "1.5" 30000 45000] jmul_exact [of 2 30000 60000] by simp_all

text \<open>
  A product that binary64 rounds: 3 times the number nearest to 0.1 is not the number
  nearest to 0.3 but the next one above it.
\<close>

lemma jmul_rounds:
  "jmul (Num (3602879701896397 / 36028797018963968)) (Num 3)
     = Num (1351079888211149 / 4503599627370496)"
proof -
  have c: "\<lceil>36028797018963968 / 10808639105689191 :: rat\<rceil> = 4"
    by (simp add: ceiling_eq_iff)
  have f: "floor_log2 (10808639105689191 / 36028797018963968) = - 2"
    by (simp add: floor_log2_def c ilog2.simps)
  have g: "(10808639105689191 :: rat) / (36028797018963968 * pow2 (- 54)) = 10808639105689191 / 2"
    by (simp add: pow2_def)
  have b: "\<lfloor>10808639105689191 / 2 :: rat\<rfloor> = 5404319552844595"
    by (simp add: floor_eq_iff)
  have h: "round_half_even (10808639105689191 / 2) = 5404319552844596"
    by (simp add: round_half_even_def Let_def b)
  have r: "round_magnitude (10808639105689191 / 36028797018963968)
             = Some (1351079888211149 / 4503599627370496)"
    unfolding round_magnitude_def Let_def f
    by (simp add: g h) (simp add: pow2_def)
  show ?thesis by (simp add: jmul.simps round_b64_def r)
qed

section \<open>Properties of the exchange client\<close>

lemma syncTime_returns: "\<exists>p'. syncTime r now p = Inr p'"
  by (cases r) (simp_all add: syncTime_def syncTime_body_def)

text \<open>
  Claim C10, as the code has it. \<open>syncTime\<close> never throws, whatever the time request
  gives. When the request rejects, the offset is set to 0 and \<open>timeSyncComplete\<close> is
  left as it was; when the answer has no \<open>timeNano\<close>, neither field is touched. So a
  client that has never synchronized (the state the constructor gives, and the only
  state in which the services call \<open>syncTime\<close>) is, after a failed synchronization,
  still in that state: \<open>timeSyncComplete\<close> false and the offset 0. On that client the
  failure shows in a next call that goes through \<open>makeRequest\<close>: it throws the
  time-synchronization error without a network call, and so does \<open>getAllOrders\<close>,
  while \<open>getAndProcessAllOrders\<close> returns a failed result with that message. It does
  not show in a next call that goes through \<open>p2pRequest\<close>: that call asks for the
  time again and then, on a client that has a secret to sign with, sends its request
  and gives what the network answers to it.
\<close>

theorem syncTime_failure_modes:
  "(\<exists>p'. syncTime r now p = Inr p')
   \<and> syncTime (TimeRejects m) now p = Inr (p\<lparr>timeOffset := Num 0\<rparr>)
   \<and> syncTime TimeNoNano now p = Inr p
   \<and> syncTime (TimeRejects m) now (BybitP2PParser k s tn rw) = Inr (BybitP2PParser k s tn rw)
   \<and> syncTime TimeNoNano now (BybitP2PParser k s tn rw) = Inr (BybitP2PParser k s tn rw)
   \<and> \<not> timeSyncComplete (BybitP2PParser k s tn rw)
   \<and> timeOffset (BybitP2PParser k s tn rw) = Num 0
   \<and> makeRequest env now' (BybitP2PParser k s tn rw) endpoint method params
       = (Inl time_sync_required, [])
   \<and> getAllOrders env now' (BybitP2PParser k s tn rw) page sz tokenId side status beginTime endTime
       = (Inl time_sync_required, [])
   \<and> getAndProcessAllOrders env now' (BybitP2PParser k s tn rw) page sz tokenId side status
         beginTime endTime
       = (\<lparr>success = False, data = None, pr_message = Some time_sync_required\<rparr>, [])
   \<and> (\<exists>p1. syncTime (server_time env) now' (BybitP2PParser k (Some sk) tn rw) = Inr p1
         \<and> p2pRequest env now' (BybitP2PParser k (Some sk) tn rw) method endpoint params
             = (case respond env \<lparr>req_method = method, req_endpoint = endpoint,
                                   req_key = apiKey p1, req_timestamp = getTimestamp now' p1,
                                   req_params = params\<rparr> of
                  Rejects e \<Rightarrow> Inl e | Resolves a \<Rightarrow> Inr a,
                p1,
                [TimeCall,
                 ApiCall \<lparr>req_method = method, req_endpoint = endpoint, req_key = apiKey p1,
                          req_timestamp = getTimestamp now' p1, req_params = params\<rparr>]))"
proof -
  define P where "P = BybitP2PParser k s tn rw"
  have a: "\<exists>p'. syncTime r now p = Inr p'" by (rule syncTime_returns)
  have b: "syncTime (TimeRejects m) now p = Inr (p\<lparr>timeOffset := Num 0\<rparr>)"
    and c: "syncTime TimeNoNano now p = Inr p" for p
    by (simp_all add: syncTime_def syncTime_body_def)
  have st: "\<not> timeSyncComplete P" "timeOffset P = Num 0"
    by (simp_all add: P_def BybitP2PParser_def)
  have d: "syncTime (TimeRejects m) now P = Inr P"
    unfolding b using st(2) by (cases P) simp
  have mr: "makeRequest env now' P ep me ps = (Inl time_sync_required, [])" for ep me ps
    using st(1) by (simp add: makeRequest_def)
  have ga: "getAllOrders env now' P page sz tokenId side status beginTime endTime
        = (Inl time_sync_required, [])"
    by (simp add: getAllOrders_def mr)
  have gp: "getAndProcessAllOrders env now' P page sz tokenId side status beginTime endTime
        = (\<lparr>success = False, data = None, pr_message = Some time_sync_required\<rparr>, [])"
    by (simp add: getAndProcessAllOrders_def ga)
  define Q where "Q = BybitP2PParser k (Some sk) tn rw"
  have sq: "\<not> timeSyncComplete Q" by (simp add: Q_def BybitP2PParser_def)
  obtain p1 where p1: "syncTime (server_time env) now' Q = Inr p1"
    using syncTime_returns by blast
  have "apiSecret p1 = apiSecret Q"
    using p1 by (auto simp add: syncTime_def syncTime_body_def Let_def split: time_response.splits)
  then have sec: "apiSecret p1 \<noteq> None" by (simp add: Q_def BybitP2PParser_def)
  have pr: "p2pRequest env now' Q method endpoint params
             = (case respond env \<lparr>req_method = method, req_endpoint = endpoint,
                                   req_key = apiKey p1, req_timestamp = getTimestamp now' p1,
                                   req_params = params\<rparr> of
                  Rejects e \<Rightarrow> Inl e | Resolves a \<Rightarrow> Inr a,
                p1,
                [TimeCall,
                 ApiCall \<lparr>req_method = method, req_endpoint = endpoint, req_key = apiKey p1,
                          req_timestamp = getTimestamp now' p1, req_params = params\<rparr>])"
    using sq p1 sec by (simp add: p2pRequest_def Let_def split: outcome.splits)
  have e: "\<exists>p1. syncTime (server_time env) now' Q = Inr p1
         \<and> p2pRequest env now' Q method endpoint params
             = (case respond env \<lparr>req_method = method, req_endpoint = endpoint,
                                   req_key = apiKey p1, req_timestamp = getTimestamp now' p1,
                                   req_params = params\<rparr> of
                  Rejects e \<Rightarrow> Inl e | Resolves a \<Rightarrow> Inr a,
                p1,
                [TimeCall,
                 ApiCall \<lparr>req_method = method, req_endpoint = endpoint, req_key = apiKey p1,
                          req_timestamp = getTimestamp now' p1, req_params = params\<rparr>])"
    using p1 pr by blast
  show ?thesis
    using a b [of p] c [of p] d c [of P] st mr ga gp e unfolding P_def Q_def by (intro conjI)
qed

text \<open>
  Claim C10 as stated fails in its last part: after a failed synchronization the first
  authenticated call need not fail. On a new client, \<open>syncTime\<close> with a rejected time
  request returns and leaves the client unsynchronized; the chat fetch that follows,
  with the time endpoint still rejecting, sends its request through \<open>p2pRequest\<close>
  and returns the message the network answers with.
\<close>

theorem failed_sync_then_chat_counterexample:
  "syncTime (TimeRejects (js ''timeout'')) 1700000000000
       (BybitP2PParser (Some (js ''key'')) (Some (js ''secret'')) False 5000)
     = Inr (BybitP2PParser (Some (js ''key'')) (Some (js ''secret'')) False 5000)
   \<and> \<not> timeSyncComplete (BybitP2PParser (Some (js ''key'')) (Some (js ''secret'')) False 5000)
   \<and> fst (p2pRequest
            \<lparr>server_time = TimeRejects (js ''timeout''),
             respond = (\<lambda>r. Resolves (Some \<lparr>ret_code = Some 0, ret_msg = None,
                                             result = Some (ResultArray [sample_call_message])\<rparr>))\<rparr>
            1700000000500
            (BybitP2PParser (Some (js ''key'')) (Some (js ''secret'')) False 5000)
            POST (js ''/v5/p2p/order/message/listpage'') (ChatParams (Some (js ''1001'')) (js ''100'')))
       = Inr (Some \<lparr>ret_code = Some 0, ret_msg = None,
                    result = Some (ResultArray [sample_call_message])\<rparr>)
   \<and> getChatMessages
        \<lparr>server_time = TimeRejects (js ''timeout''),
         respond = (\<lambda>r. Resolves (Some \<lparr>ret_code = Some 0, ret_msg = None,
                                         result = Some (ResultArray [sample_call_message])\<rparr>))\<rparr>
        1700000000500 (Some (js ''1001'')) (Some (js ''key'')) (Some (js ''secret''))
       = [sample_call_message]"
  by (simp add: getChatMessages_def p2pRequest_def syncTime_def syncTime_body_def
        BybitP2PParser_def Let_def)

text \<open>
  Claim C7, as the code has it. On a client whose clock is not synchronized,
  \<open>makeRequest\<close> throws the time-synchronization error without a network call, and so
  does the trade-page fetch \<open>getAllOrders\<close>; \<open>getAndProcessAllOrders\<close> catches it and
  returns a failed result with that message. \<open>p2pRequest\<close>, which the chat fetch uses,
  does not fail so: it calls the time endpoint and then, on a client that has a secret
  to sign with, sends the request and gives what the network answers; on a client
  without a secret the signing throws once the time endpoint has been called, and no
  request is sent.
\<close>

theorem unsynced_client_calls:
  assumes "\<not> timeSyncComplete p"
  shows "makeRequest env now p endpoint method params = (Inl time_sync_required, [])
    \<and> getAllOrders env now p page sz tokenId side status beginTime endTime
        = (Inl time_sync_required, [])
    \<and> getAndProcessAllOrders env now p page sz tokenId side status beginTime endTime
        = (\<lparr>success = False, data = None, pr_message = Some time_sync_required\<rparr>, [])
    \<and> (\<exists>p1. syncTime (server_time env) now p = Inr p1
          \<and> fst (snd (p2pRequest env now p method endpoint params)) = p1
          \<and> (apiSecret p \<noteq> None \<longrightarrow>
                snd (snd (p2pRequest env now p method endpoint params))
                  = [TimeCall,
                     ApiCall \<lparr>req_method = method, req_endpoint = endpoint, req_key = apiKey p1,
                              req_timestamp = getTimestamp now p1, req_params = params\<rparr>]
                \<and> fst (p2pRequest env now p method endpoint params)
                  = (case respond env \<lparr>req_method = method, req_endpoint = endpoint,
                                        req_key = apiKey p1, req_timestamp = getTimestamp now p1,
                                        req_params = params\<rparr> of
                       Rejects m \<Rightarrow> Inl m | Resolves d \<Rightarrow> Inr d))
          \<and> (apiSecret p = None \<longrightarrow>
                p2pRequest env now p method endpoint params = (Inl hmac_key_error, p1, [TimeCall])))"
proof -
  have a: "makeRequest env now p ep me ps = (Inl time_sync_required, [])" for ep me ps
    using assms by (simp add: makeRequest_def)
  have b: "getAllOrders env now p page sz tokenId side status beginTime endTime
        = (Inl time_sync_required, [])"
    by (simp add: getAllOrders_def a)
  have c: "getAndProcessAllOrders env now p page sz tokenId side status beginTime endTime
        = (\<lparr>success = False, data = None, pr_message = Some time_sync_required\<rparr>, [])"
    by (simp add: getAndProcessAllOrders_def b)
  obtain p1 where p1: "syncTime (server_time env) now p = Inr p1"
    using syncTime_returns by blast
  define req where "req = \<lparr>req_method = method, req_endpoint = endpoint, req_key = apiKey p1,
                          req_timestamp = getTimestamp now p1, req_params = params\<rparr>"
  have sec: "apiSecret p1 = apiSecret p"
    using p1 by (auto simp add: syncTime_def syncTime_body_def Let_def split: time_response.splits)
  have d: "p2pRequest env now p method endpoint params =
      (if apiSecret p = None then (Inl hmac_key_error, p1, [TimeCall])
       else (case respond env req of
               Rejects m \<Rightarrow> (Inl m, p1, [TimeCall, ApiCall req])
             | Resolves d \<Rightarrow> (Inr d, p1, [TimeCall, ApiCall req])))"
    using assms p1 sec by (simp add: p2pRequest_def Let_def req_def split: outcome.splits)
  have e: "fst (snd (p2pRequest env now p method endpoint params)) = p1
          \<and> (apiSecret p \<noteq> None \<longrightarrow>
                snd (snd (p2pRequest env now p method endpoint params)) = [TimeCall, ApiCall req]
                \<and> fst (p2pRequest env now p method endpoint params)
                  = (case respond env req of Rejects m \<Rightarrow> Inl m | Resolves d \<Rightarrow> Inr d))
          \<and> (apiSecret p = None \<longrightarrow>
                p2pRequest env now p method endpoint params = (Inl hmac_key_error, p1, [TimeCall]))"
    by (simp add: d split: outcome.splits)
  show ?thesis
    using a b c p1 e unfolding req_def by (intro conjI exI [of _ p1]) blast+
qed

theorem unsynced_client_calls_witness:
  "\<not> timeSyncComplete (BybitP2PParser (Some (js ''key'')) (Some (js ''secret'')) False 5000)
   \<and> apiSecret (BybitP2PParser (Some (js ''key'')) (Some (js ''secret'')) False 5000) \<noteq> None
   \<and> getAndProcessAllOrders \<lparr>server_time = TimeNoNano, respond = (\<lambda>r. Rejects [])\<rparr> 1700000000000
        (BybitP2PParser (Some (js ''key'')) (Some (js ''secret'')) False 5000)
        1 20 None None (Some [50]) None None
      = (\<lparr>success = False, data = None, pr_message = Some time_sync_required\<rparr>, [])
   \<and> fst (p2pRequest \<lparr>server_time = TimeNoNano, respond = (\<lambda>r. Rejects [])\<rparr> 1700000000000
        (BybitP2PParser (Some (js ''key'')) (Some (js ''secret'')) False 5000)
        POST (js ''/v5/p2p/order/message/listpage'') (ChatParams (Some (js ''42'')) (js ''100'')))
      = Inl []
   \<and> \<not> timeSyncComplete (BybitP2PParser (Some (js ''key'')) None False 5000)
   \<and> apiSecret (BybitP2PParser (Some (js ''key'')) None False 5000) = None
   \<and> p2pRequest \<lparr>server_time = TimeNoNano, respond = (\<lambda>r. Rejects [])\<rparr> 1700000000000
        (BybitP2PParser (Some (js ''key'')) None False 5000)
        POST (js ''/v5/p2p/order/message/listpage'') (ChatParams (Some (js ''42'')) (js ''100''))
      = (Inl hmac_key_error, BybitP2PParser (Some (js ''key'')) None False 5000, [TimeCall])"
proof -
  let ?env = "\<lparr>server_time = TimeNoNano, respond = (\<lambda>r. Rejects [])\<rparr>"
  let ?P = "BybitP2PParser (Some (js ''key'')) (Some (js ''secret'')) False 5000"
  let ?Q = "BybitP2PParser (Some (js ''key'')) None False 5000"
  have h: "\<not> timeSyncComplete ?P" and s: "apiSecret ?P \<noteq> None"
    and h': "\<not> timeSyncComplete ?Q" and s': "apiSecret ?Q = None"
    by (simp_all add: BybitP2PParser_def)
  have t: "syncTime (server_time ?env) 1700000000000 ?Q = Inr ?Q"
    by (simp add: syncTime_def syncTime_body_def)
  from unsynced_client_calls [OF h, where env = ?env and now = 1700000000000 and page = 1
      and sz = 20 and tokenId = None and side = None and status = "Some [50]"
      and beginTime = None and endTime = None]
  have g: "getAndProcessAllOrders ?env 1700000000000 ?P 1 20 None None (Some [50]) None None
      = (\<lparr>success = False, data = None, pr_message = Some time_sync_required\<rparr>, [])"
    by blast
  from unsynced_client_calls [OF h, of ?env 1700000000000 "js ''/v5/p2p/order/message/listpage''"
      POST "ChatParams (Some (js ''42'')) (js ''100'')"] s
  have r: "fst (p2pRequest ?env 1700000000000 ?P POST (js ''/v5/p2p/order/message/listpage'')
                  (ChatParams (Some (js ''42'')) (js ''100''))) = Inl []"
    by auto
  from unsynced_client_calls [OF h', of ?env 1700000000000 "js ''/v5/p2p/order/message/listpage''"
      POST "ChatParams (Some (js ''42'')) (js ''100'')"] s' t
  have q: "p2pRequest ?env 1700000000000 ?Q POST (js ''/v5/p2p/order/message/listpage'')
             (ChatParams (Some (js ''42'')) (js ''100'')) = (Inl hmac_key_error, ?Q, [TimeCall])"
    by auto
  show ?thesis using h s g r h' s' q by (intro conjI)
qed

text \<open>
  Claim C7 as stated fails for the chat fetch: on a client that is not synchronized, and
  stays so because the time answer has no \<open>timeNano\<close>, \<open>p2pRequest\<close> sends the chat
  request and returns the answer of the network.
\<close>

theorem p2pRequest_unsynced_counterexample:
  "p2pRequest
     \<lparr>server_time = TimeNoNano,
      respond = (\<lambda>r. Resolves (Some \<lparr>ret_code = Some 0, ret_msg = None, result = Some (ResultArray [])\<rparr>))\<rparr>
     1700000000000
     (BybitP2PParser (Some (js ''key'')) (Some (js ''secret'')) False 5000)
     POST (js ''/v5/p2p/order/message/listpage'') (ChatParams (Some (js ''42'')) (js ''100''))
   = (Inr (Some \<lparr>ret_code = Some 0, ret_msg = None, result = Some (ResultArray [])\<rparr>),
      BybitP2PParser (Some (js ''key'')) (Some (js ''secret'')) False 5000,
      [TimeCall,
       ApiCall \<lparr>req_method = POST, req_endpoint = js ''/v5/p2p/order/message/listpage'',
                req_key = Some (js ''key''), req_timestamp = Num 1700000000000,
                req_params = ChatParams (Some (js ''42'')) (js ''100'')\<rparr>])
   \<and> \<not> timeSyncComplete (BybitP2PParser (Some (js ''key'')) (Some (js ''secret'')) False 5000)"
  using jadd_zero_exact [of 1700000000000]
  by (simp add: p2pRequest_def syncTime_def syncTime_body_def BybitP2PParser_def getTimestamp_def)

section \<open>Properties of the status texts\<close>

text \<open>
  Claim C4, as the code has it. Each mapping is a function of the status code alone. In
  the export of user trades, code 50 gives "Completed", code 40 gives "Cancelled" and a
  code without a case gives "Unknown". In the cabinet normalizer the texts are others:
  code 50 gives "COMPLETED", code 40 gives "CANCELED" and a code without a case gives
  "UNKNOWN".
\<close>

theorem status_texts:
  "export_status (Some 50) = js ''Completed''
   \<and> export_status (Some 40) = js ''Cancelled''
   \<and> (c \<notin> Some ` set export_codes \<longrightarrow> export_status c = js ''Unknown'')
   \<and> cabinet_status (Some 50) = js ''COMPLETED''
   \<and> cabinet_status (Some 40) = js ''CANCELED''
   \<and> (c \<notin> Some ` set cabinet_codes \<longrightarrow> cabinet_status c = js ''UNKNOWN'')"
  by (simp add: export_status_def cabinet_status_def export_codes_def cabinet_codes_def)

theorem status_texts_witness:
  "Some 7 \<notin> Some ` set export_codes \<and> export_status (Some 7) = js ''Unknown''
   \<and> Some 7 \<notin> Some ` set cabinet_codes \<and> cabinet_status (Some 7) = js ''UNKNOWN''"
proof -
  have a: "Some 7 \<notin> Some ` set export_codes" by (simp add: export_codes_def)
  have b: "Some 7 \<notin> Some ` set cabinet_codes" by (simp add: cabinet_codes_def)
  from status_texts [of "Some 7"] a b show ?thesis by blast
qed

text \<open>
  Claim C4 as stated fails in the cabinet normalizer: codes 50, 40 and 7 do not give
  "Completed", "Cancelled" and "Unknown" there, and the two normalizers differ on 50.
\<close>

theorem cabinet_status_counterexample:
  "cabinet_status (Some 50) \<noteq> js ''Completed''
   \<and> cabinet_status (Some 40) \<noteq> js ''Cancelled''
   \<and> cabinet_status (Some 7) \<noteq> js ''Unknown''
   \<and> cabinet_status (Some 50) \<noteq> export_status (Some 50)"
  by (simp add: cabinet_status_def export_status_def js_def)

section \<open>The save loop of the per-user sync\<close>

lemma save_transaction_cases:
  "save_transaction dbe now uid t (d, n) = (d, n)
   \<or> (rt_side t = Some 1 \<and> rt_status t = Some 50
       \<and> trade_orderNo t \<noteq> []
       \<and> dbe (FindTransaction (trade_orderNo t) uid) = None
       \<and> dbe (CreateTransaction (trade_orderNo t) uid) = None
       \<and> findFirst_transaction (trade_orderNo t) uid d = None
       \<and> \<not> user_date_invalid (rt_createDate t)
       \<and> save_transaction dbe now uid t (d, n) =
           (d\<lparr>bybitTransaction := bybitTransaction d
                @ [user_row t (trade_orderNo t) uid now
                     (fresh_id (map bt_id (bybitTransaction d)))]\<rparr>, Suc n))"
  by (simp add: save_transaction_def Let_def)

lemma save_transaction_skip:
  "rt_side t \<noteq> Some 1 \<or> rt_status t \<noteq> Some 50 \<or> trade_orderNo t = []
     \<or> dbe (FindTransaction (trade_orderNo t) uid) \<noteq> None
     \<or> dbe (CreateTransaction (trade_orderNo t) uid) \<noteq> None
     \<or> findFirst_transaction (trade_orderNo t) uid d \<noteq> None
     \<or> user_date_invalid (rt_createDate t)
   \<Longrightarrow> save_transaction dbe now uid t (d, n) = (d, n)"
  by (auto simp add: save_transaction_def Let_def)

lemma save_transactions_Cons:
  "save_transactions dbe now uid (t # ts) st
     = save_transactions dbe now uid ts (save_transaction dbe now uid t st)"
  by (simp add: save_transactions_def)

lemma save_transactions_Nil: "save_transactions dbe now uid [] st = st"
  by (simp add: save_transactions_def)

lemma findFirst_transaction_None:
  "findFirst_transaction orderNo uid d = None
     \<longleftrightarrow> (orderNo, uid) \<notin> set (map tx_key (bybitTransaction d))"
  by (auto simp add: findFirst_transaction_def find_None_iff tx_key_def)

lemma tx_key_user_row [simp]: "tx_key (user_row t orderNo uid now i) = (orderNo, uid)"
  by (simp add: tx_key_def user_row_def Let_def)

text \<open>
  The loop only appends rows: each appended row is the row of a fetched record that has
  side 1, status 50, an order number and a valid date, the count is the number of
  appended rows, and the pairs (order number, user) of the appended rows differ from one
  another and from the pairs that were in the table.
\<close>

lemma save_transactions_shape:
  "\<exists>rows. save_transactions dbe now uid ts (d, n)
            = (d\<lparr>bybitTransaction := bybitTransaction d @ rows\<rparr>, n + length rows)
      \<and> (\<forall>r \<in> set rows. \<exists>t \<in> set ts. \<exists>i.
             rt_side t = Some 1 \<and> rt_status t = Some 50 \<and> trade_orderNo t \<noteq> []
             \<and> \<not> user_date_invalid (rt_createDate t)
             \<and> r = user_row t (trade_orderNo t) uid now i)
      \<and> distinct (map tx_key rows)
      \<and> set (map tx_key rows) \<inter> set (map tx_key (bybitTransaction d)) = {}"
proof (induction ts arbitrary: d n)
  case Nil
  show ?case by (rule exI [of _ "[]"]) (simp add: save_transactions_Nil)
next
  case (Cons t ts)
  from save_transaction_cases [of dbe now uid t d n] show ?case
  proof
    assume skip: "save_transaction dbe now uid t (d, n) = (d, n)"
    from Cons.IH [of d n] obtain rows where
      r: "save_transactions dbe now uid ts (d, n)
            = (d\<lparr>bybitTransaction := bybitTransaction d @ rows\<rparr>, n + length rows)"
      and p: "\<forall>r \<in> set rows. \<exists>t \<in> set ts. \<exists>i.
             rt_side t = Some 1 \<and> rt_status t = Some 50 \<and> trade_orderNo t \<noteq> []
             \<and> \<not> user_date_invalid (rt_createDate t)
             \<and> r = user_row t (trade_orderNo t) uid now i"
      and k: "distinct (map tx_key rows)"
        "set (map tx_key rows) \<inter> set (map tx_key (bybitTransaction d)) = {}"
      by blast
    have e: "save_transactions dbe now uid (t # ts) (d, n)
            = (d\<lparr>bybitTransaction := bybitTransaction d @ rows\<rparr>, n + length rows)"
      using r skip by (simp add: save_transactions_Cons)
    have q: "\<forall>r \<in> set rows. \<exists>t' \<in> set (t # ts). \<exists>i.
             rt_side t' = Some 1 \<and> rt_status t' = Some 50 \<and> trade_orderNo t' \<noteq> []
             \<and> \<not> user_date_invalid (rt_createDate t')
             \<and> r = user_row t' (trade_orderNo t') uid now i"
      using p by auto
    show ?thesis
      by (rule exI [of _ rows]) (use e q k in blast)
  next
    assume ins: "rt_side t = Some 1 \<and> rt_status t = Some 50
       \<and> trade_orderNo t \<noteq> []
       \<and> dbe (FindTransaction (trade_orderNo t) uid) = None
       \<and> dbe (CreateTransaction (trade_orderNo t) uid) = None
       \<and> findFirst_transaction (trade_orderNo t) uid d = None
       \<and> \<not> user_date_invalid (rt_createDate t)
       \<and> save_transaction dbe now uid t (d, n) =
           (d\<lparr>bybitTransaction := bybitTransaction d
                @ [user_row t (trade_orderNo t) uid now
                     (fresh_id (map bt_id (bybitTransaction d)))]\<rparr>, Suc n)"
    define row where "row = user_row t (trade_orderNo t) uid now
                     (fresh_id (map bt_id (bybitTransaction d)))"
    define d1 where "d1 = d\<lparr>bybitTransaction := bybitTransaction d @ [row]\<rparr>"
    from Cons.IH [of d1 "Suc n"] obtain rows where
      r: "save_transactions dbe now uid ts (d1, Suc n)
            = (d1\<lparr>bybitTransaction := bybitTransaction d1 @ rows\<rparr>, Suc n + length rows)"
      and p: "\<forall>r \<in> set rows. \<exists>t \<in> set ts. \<exists>i.
             rt_side t = Some 1 \<and> rt_status t = Some 50 \<and> trade_orderNo t \<noteq> []
             \<and> \<not> user_date_invalid (rt_createDate t)
             \<and> r = user_row t (trade_orderNo t) uid now i"
      and k: "distinct (map tx_key rows)"
        "set (map tx_key rows) \<inter> set (map tx_key (bybitTransaction d1)) = {}"
      by blast
    have s: "save_transaction dbe now uid t (d, n) = (d1, Suc n)"
      using ins by (simp add: d1_def row_def)
    have e: "save_transactions dbe now uid (t # ts) (d, n)
            = (d\<lparr>bybitTransaction := bybitTransaction d @ (row # rows)\<rparr>, n + length (row # rows))"
      by (simp add: save_transactions_Cons s r) (simp add: d1_def)
    have q: "\<forall>r \<in> set (row # rows). \<exists>t' \<in> set (t # ts). \<exists>i.
             rt_side t' = Some 1 \<and> rt_status t' = Some 50 \<and> trade_orderNo t' \<noteq> []
             \<and> \<not> user_date_invalid (rt_createDate t')
             \<and> r = user_row t' (trade_orderNo t') uid now i"
      using p ins row_def by auto
    have new: "tx_key row \<notin> set (map tx_key (bybitTransaction d))"
      using ins by (simp add: row_def findFirst_transaction_None)
    have k1: "distinct (map tx_key (row # rows))"
      using k by (auto simp add: d1_def)
    have k2: "set (map tx_key (row # rows)) \<inter> set (map tx_key (bybitTransaction d)) = {}"
      using k(2) new by (auto simp add: d1_def)
    show ?thesis
      by (rule exI [of _ "row # rows"]) (use e q k1 k2 in blast)
  qed
qed

text \<open>A run of the loop keeps the pairs (order number, user) of the table distinct.\<close>

lemma save_transactions_distinct:
  assumes "distinct (map tx_key (bybitTransaction d))"
  shows "distinct (map tx_key (bybitTransaction (fst (save_transactions dbe now uid ts (d, n)))))"
proof -
  from save_transactions_shape [of dbe now uid ts d n] obtain rows where
    "save_transactions dbe now uid ts (d, n)
       = (d\<lparr>bybitTransaction := bybitTransaction d @ rows\<rparr>, n + length rows)"
    and "distinct (map tx_key rows)"
    and "set (map tx_key rows) \<inter> set (map tx_key (bybitTransaction d)) = {}"
    by blast
  with assms show ?thesis by auto
qed

lemma save_transactions_keys_mono:
  "set (map tx_key (bybitTransaction d))
     \<subseteq> set (map tx_key (bybitTransaction (fst (save_transactions dbe now uid ts (d, n)))))"
proof -
  from save_transactions_shape [of dbe now uid ts d n] obtain rows where
    "save_transactions dbe now uid ts (d, n)
       = (d\<lparr>bybitTransaction := bybitTransaction d @ rows\<rparr>, n + length rows)"
    by blast
  then show ?thesis by auto
qed

text \<open>
  After the loop, every fetched record that the filter, the date and the store let
  through has its pair in the table.
\<close>

lemma save_transactions_covers:
  assumes "t \<in> set ts"
    and "rt_side t = Some 1" and "rt_status t = Some 50" and "trade_orderNo t \<noteq> []"
    and "\<not> user_date_invalid (rt_createDate t)"
    and "dbe (FindTransaction (trade_orderNo t) uid) = None"
    and "dbe (CreateTransaction (trade_orderNo t) uid) = None"
  shows "(trade_orderNo t, uid)
           \<in> set (map tx_key (bybitTransaction (fst (save_transactions dbe now uid ts (d, n)))))"
  using assms(1)
proof (induction ts arbitrary: d n)
  case Nil
  then show ?case by simp
next
  case (Cons a ts)
  obtain d1 n1 where s: "save_transaction dbe now uid a (d, n) = (d1, n1)"
    by (cases "save_transaction dbe now uid a (d, n)") blast
  show ?case
  proof (cases "t = a")
    case True
    have "(trade_orderNo t, uid) \<in> set (map tx_key (bybitTransaction d1))"
    proof (cases "findFirst_transaction (trade_orderNo t) uid d = None")
      case found: False
      then have "save_transaction dbe now uid a (d, n) = (d, n)"
        using True by (intro save_transaction_skip) simp
      with s found show ?thesis by (simp add: findFirst_transaction_None)
    next
      case none: True
      then have "d1 = d\<lparr>bybitTransaction := bybitTransaction d
                @ [user_row t (trade_orderNo t) uid now
                     (fresh_id (map bt_id (bybitTransaction d)))]\<rparr>"
        using s True assms(2-7) by (simp add: save_transaction_def Let_def)
      then show ?thesis by simp
    qed
    then show ?thesis
      using save_transactions_keys_mono [of d1 dbe now uid ts n1]
      by (auto simp add: save_transactions_Cons s)
  next
    case False
    with Cons.prems have "t \<in> set ts" by simp
    from Cons.IH [OF this, of d1 n1] show ?thesis by (simp add: save_transactions_Cons s)
  qed
qed

text \<open>On a table that has those pairs already, the loop changes nothing.\<close>

lemma save_transactions_stable:
  assumes "\<forall>t \<in> set ts.
             rt_side t = Some 1 \<and> rt_status t = Some 50 \<and> trade_orderNo t \<noteq> []
             \<and> \<not> user_date_invalid (rt_createDate t)
             \<longrightarrow> (trade_orderNo t, uid) \<in> set (map tx_key (bybitTransaction d))"
  shows "save_transactions dbe now uid ts (d, n) = (d, n)"
  using assms
proof (induction ts)
  case Nil
  show ?case by (simp add: save_transactions_Nil)
next
  case (Cons a ts)
  have "save_transaction dbe now uid a (d, n) = (d, n)"
    using Cons.prems by (intro save_transaction_skip) (auto simp add: findFirst_transaction_None)
  with Cons show ?case by (simp add: save_transactions_Cons)
qed

text \<open>
  The loop run again, by a store that may answer otherwise, on the table that a run in
  which the store accepted every call left: it changes nothing.
\<close>

lemma save_transactions_twice:
  assumes "bybitTransaction d2
             = bybitTransaction (fst (save_transactions (\<lambda>opn. None) now uid ts (d, n)))"
  shows "save_transactions dbe2 now2 uid ts (d2, m) = (d2, m)"
proof (rule save_transactions_stable, intro ballI impI)
  fix t
  assume "t \<in> set ts"
    and "rt_side t = Some 1 \<and> rt_status t = Some 50 \<and> trade_orderNo t \<noteq> []
         \<and> \<not> user_date_invalid (rt_createDate t)"
  then show "(trade_orderNo t, uid) \<in> set (map tx_key (bybitTransaction d2))"
    using save_transactions_covers [of t ts "\<lambda>opn. None" uid now d n] assms by simp
qed

section \<open>The page loops of the per-user sync\<close>

text \<open>
  From page \<open>page\<close> on, a strategy asks for consecutive pages, stops at page 10, and asks
  for a further page only after a page that passed the test.
\<close>

lemma fetch_pages_requests:
  "page \<le> 11 \<Longrightarrow>
   \<exists>k. page + k \<le> 11
     \<and> page_requests (fetch_pages fetch s page st) = page_requests st @ map (Pair s) [page ..< page + k]
     \<and> (\<forall>j. page \<le> j \<and> Suc j < page + k \<longrightarrow> page_transactions (fetch s j) \<noteq> None)
     \<and> (page \<le> 10 \<longrightarrow> 1 \<le> k)
     \<and> hasSuccess (fetch_pages fetch s page st)
         = (hasSuccess st \<or> (page \<le> 10 \<and> page_transactions (fetch s page) \<noteq> None))"
proof (induction fetch s page st rule: fetch_pages.induct)
  case (1 fetch s page st)
  show ?case
  proof (cases "page \<le> 10")
    case False
    with "1.prems" have "fetch_pages fetch s page st = st"
      by (subst fetch_pages.simps) simp
    with False "1.prems" show ?thesis by (intro exI [of _ 0]) auto
  next
    case le: True
    define st1 where "st1 = st\<lparr>page_requests := page_requests st @ [(s, page)]\<rparr>"
    show ?thesis
    proof (cases "page_transactions (fetch s page)")
      case None
      then have "fetch_pages fetch s page st = st1"
        using le by (subst fetch_pages.simps) (simp add: st1_def)
      with None le show ?thesis by (intro exI [of _ 1]) (auto simp add: st1_def)
    next
      case (Some txs)
      define st2 where "st2 = st1\<lparr>allCompletedTransactions := allCompletedTransactions st1 @ txs,
                                   hasSuccess := True\<rparr>"
      have unfold: "fetch_pages fetch s page st = fetch_pages fetch s (page + 1) st2"
        using le Some by (subst fetch_pages.simps) (simp add: st1_def st2_def)
      have "page + 1 \<le> 11" using le by simp
      from "1.IH" [OF le st1_def Some this, folded st2_def] obtain k where
        k: "page + 1 + k \<le> 11"
        and rq: "page_requests (fetch_pages fetch s (page + 1) st2)
                   = page_requests st2 @ map (Pair s) [page + 1 ..< page + 1 + k]"
        and ok: "\<forall>j. page + 1 \<le> j \<and> Suc j < page + 1 + k \<longrightarrow> page_transactions (fetch s j) \<noteq> None"
        and hs: "hasSuccess (fetch_pages fetch s (page + 1) st2)
                   = (hasSuccess st2 \<or> (page + 1 \<le> 10 \<and> page_transactions (fetch s (page + 1)) \<noteq> None))"
        by blast
      have upt: "[page ..< page + Suc k] = page # [page + 1 ..< page + 1 + k]"
        by (simp add: upt_conv_Cons)
      have a: "page_requests (fetch_pages fetch s page st)
                 = page_requests st @ map (Pair s) [page ..< page + Suc k]"
        unfolding unfold rq upt by (simp add: st2_def st1_def)
      have b: "\<forall>j. page \<le> j \<and> Suc j < page + Suc k \<longrightarrow> page_transactions (fetch s j) \<noteq> None"
      proof (intro allI impI)
        fix j assume j: "page \<le> j \<and> Suc j < page + Suc k"
        show "page_transactions (fetch s j) \<noteq> None"
        proof (cases "j = page")
          case True
          with Some show ?thesis by simp
        next
          case False
          with j have "page + 1 \<le> j \<and> Suc j < page + 1 + k" by simp
          with ok show ?thesis by blast
        qed
      qed
      have c: "hasSuccess (fetch_pages fetch s page st)" 
        unfolding unfold hs by (simp add: st2_def)
      show ?thesis
        by (intro exI [of _ "Suc k"]) (use k a b c Some le in simp)
    qed
  qed
qed

lemma filter_strategy_requests:
  "map snd (filter (\<lambda>r. fst r = s') (map (Pair s) ps)) = (if s = s' then ps else [])"
  by (induction ps) auto

lemma strategy_pages:
  "map snd (filter (\<lambda>r. fst r = s) (map (Pair TimeWindowed) xs @ map (Pair Unwindowed) ys))
     = (case s of TimeWindowed \<Rightarrow> xs | Unwindowed \<Rightarrow> ys)"
proof -
  have "map snd (filter (\<lambda>r. fst r = s) (map (Pair TimeWindowed) xs @ map (Pair Unwindowed) ys))
          = map snd (filter (\<lambda>r. fst r = s) (map (Pair TimeWindowed) xs))
            @ map snd (filter (\<lambda>r. fst r = s) (map (Pair Unwindowed) ys))"
    by simp
  also have "\<dots> = (if TimeWindowed = s then xs else []) @ (if Unwindowed = s then ys else [])"
    by (simp only: filter_strategy_requests)
  also have "\<dots> = (case s of TimeWindowed \<Rightarrow> xs | Unwindowed \<Rightarrow> ys)"
    by (cases s) simp_all
  finally show ?thesis .
qed

lemma fetch_pages_from_1:
  "\<exists>k. 1 \<le> k \<and> k \<le> 10
     \<and> page_requests (fetch_pages fetch s 1 st) = page_requests st @ map (Pair s) [1 ..< Suc k]
     \<and> (\<forall>j. 1 \<le> j \<and> j < k \<longrightarrow> page_transactions (fetch s j) \<noteq> None)
     \<and> hasSuccess (fetch_pages fetch s 1 st)
         = (hasSuccess st \<or> page_transactions (fetch s 1) \<noteq> None)"
proof -
  have "(1::nat) \<le> 11" by simp
  from fetch_pages_requests [OF this, of fetch s st] obtain k where
    k: "1 + k \<le> 11
     \<and> page_requests (fetch_pages fetch s 1 st) = page_requests st @ map (Pair s) [1 ..< 1 + k]
     \<and> (\<forall>j. 1 \<le> j \<and> Suc j < 1 + k \<longrightarrow> page_transactions (fetch s j) \<noteq> None)
     \<and> ((1::nat) \<le> 10 \<longrightarrow> 1 \<le> k)
     \<and> hasSuccess (fetch_pages fetch s 1 st)
         = (hasSuccess st \<or> ((1::nat) \<le> 10 \<and> page_transactions (fetch s 1) \<noteq> None))"
    by blast
  have a: "1 \<le> k \<and> k \<le> 10" using k by simp
  have b: "page_requests (fetch_pages fetch s 1 st) = page_requests st @ map (Pair s) [1 ..< Suc k]"
    using k by simp
  have c: "\<forall>j. 1 \<le> j \<and> j < k \<longrightarrow> page_transactions (fetch s j) \<noteq> None"
    using k by simp
  have d: "hasSuccess (fetch_pages fetch s 1 st)
         = (hasSuccess st \<or> page_transactions (fetch s 1) \<noteq> None)"
    using k by simp
  show ?thesis using a b c d by blast
qed

lemma fetch_strategies_requests:
  "\<exists>k1 k2. 1 \<le> k1 \<and> k1 \<le> 10 \<and> k2 \<le> 10
     \<and> page_requests (fetch_strategies fetch)
         = map (Pair TimeWindowed) [1 ..< Suc k1] @ map (Pair Unwindowed) [1 ..< Suc k2]
     \<and> (\<forall>j. 1 \<le> j \<and> j < k1 \<longrightarrow> page_transactions (fetch TimeWindowed j) \<noteq> None)
     \<and> (\<forall>j. 1 \<le> j \<and> j < k2 \<longrightarrow> page_transactions (fetch Unwindowed j) \<noteq> None)
     \<and> (page_transactions (fetch TimeWindowed 1) = None \<longrightarrow> 1 \<le> k2)
     \<and> (page_transactions (fetch TimeWindowed 1) \<noteq> None \<longrightarrow> k2 = 0)
     \<and> hasSuccess (fetch_strategies fetch)
         = (page_transactions (fetch TimeWindowed 1) \<noteq> None
            \<or> page_transactions (fetch Unwindowed 1) \<noteq> None)"
proof -
  define st0 where "st0 = \<lparr>allCompletedTransactions = [], hasSuccess = False, page_requests = []\<rparr>"
  define st1 where "st1 = fetch_pages fetch TimeWindowed 1 st0"
  have st0: "page_requests st0 = []" "\<not> hasSuccess st0" by (simp_all add: st0_def)
  from fetch_pages_from_1 [of fetch TimeWindowed st0, folded st1_def] obtain k1 where
    k1: "1 \<le> k1 \<and> k1 \<le> 10
     \<and> page_requests st1 = page_requests st0 @ map (Pair TimeWindowed) [1 ..< Suc k1]
     \<and> (\<forall>j. 1 \<le> j \<and> j < k1 \<longrightarrow> page_transactions (fetch TimeWindowed j) \<noteq> None)
     \<and> hasSuccess st1 = (hasSuccess st0 \<or> page_transactions (fetch TimeWindowed 1) \<noteq> None)"
    by (elim exE)
  have r1: "page_requests st1 = map (Pair TimeWindowed) [1 ..< Suc k1]"
    using k1 st0 by (simp del: upt_Suc)
  have hs1: "hasSuccess st1 = (page_transactions (fetch TimeWindowed 1) \<noteq> None)"
    using k1 st0 by (simp del: upt_Suc)
  have ok1: "\<forall>j. 1 \<le> j \<and> j < k1 \<longrightarrow> page_transactions (fetch TimeWindowed j) \<noteq> None"
    using k1 by blast
  have b1: "1 \<le> k1" "k1 \<le> 10" using k1 by blast+
  show ?thesis
  proof (cases "hasSuccess st1")
    case True
    then have fs: "fetch_strategies fetch = st1"
      by (simp add: fetch_strategies_def st1_def st0_def Let_def)
    have rq: "page_requests (fetch_strategies fetch)
         = map (Pair TimeWindowed) [1 ..< Suc k1] @ map (Pair Unwindowed) [1 ..< Suc 0]"
      unfolding fs r1 by (simp del: upt_Suc)
    have hs: "hasSuccess (fetch_strategies fetch)
         = (page_transactions (fetch TimeWindowed 1) \<noteq> None
            \<or> page_transactions (fetch Unwindowed 1) \<noteq> None)"
      unfolding fs using True hs1 by blast
    have tw: "page_transactions (fetch TimeWindowed 1) \<noteq> None" using True hs1 by blast
    show ?thesis
    proof (intro exI conjI)
      show "1 \<le> k1" by (rule b1)
      show "k1 \<le> 10" by (rule b1)
      show "(0::nat) \<le> 10" by simp
      show "page_requests (fetch_strategies fetch)
         = map (Pair TimeWindowed) [1 ..< Suc k1] @ map (Pair Unwindowed) [1 ..< Suc 0]"
        by (rule rq)
      show "\<forall>j. 1 \<le> j \<and> j < k1 \<longrightarrow> page_transactions (fetch TimeWindowed j) \<noteq> None"
        by (rule ok1)
      show "\<forall>j. 1 \<le> j \<and> j < (0::nat) \<longrightarrow> page_transactions (fetch Unwindowed j) \<noteq> None"
        by simp
      show "page_transactions (fetch TimeWindowed 1) = None \<longrightarrow> 1 \<le> (0::nat)"
        using tw by simp
      show "page_transactions (fetch TimeWindowed 1) \<noteq> None \<longrightarrow> (0::nat) = 0"
        by simp
      show "hasSuccess (fetch_strategies fetch)
         = (page_transactions (fetch TimeWindowed 1) \<noteq> None
            \<or> page_transactions (fetch Unwindowed 1) \<noteq> None)"
        by (rule hs)
    qed
  next
    case False
    then have fs: "fetch_strategies fetch = fetch_pages fetch Unwindowed 1 st1"
      by (simp add: fetch_strategies_def st1_def st0_def Let_def)
    from fetch_pages_from_1 [of fetch Unwindowed st1, folded fs] obtain k2 where
      k2: "1 \<le> k2 \<and> k2 \<le> 10
       \<and> page_requests (fetch_strategies fetch)
                 = page_requests st1 @ map (Pair Unwindowed) [1 ..< Suc k2]
       \<and> (\<forall>j. 1 \<le> j \<and> j < k2 \<longrightarrow> page_transactions (fetch Unwindowed j) \<noteq> None)
       \<and> hasSuccess (fetch_strategies fetch)
                 = (hasSuccess st1 \<or> page_transactions (fetch Unwindowed 1) \<noteq> None)"
      by (elim exE)
    have rq: "page_requests (fetch_strategies fetch)
         = map (Pair TimeWindowed) [1 ..< Suc k1] @ map (Pair Unwindowed) [1 ..< Suc k2]"
      using k2 r1 by (simp del: upt_Suc)
    have hs: "hasSuccess (fetch_strategies fetch)
         = (page_transactions (fetch TimeWindowed 1) \<noteq> None
            \<or> page_transactions (fetch Unwindowed 1) \<noteq> None)"
      using k2 hs1 by blast
    have tw: "page_transactions (fetch TimeWindowed 1) = None" using False hs1 by blast
    have b2: "1 \<le> k2" "k2 \<le> 10" using k2 by blast+
    have ok2: "\<forall>j. 1 \<le> j \<and> j < k2 \<longrightarrow> page_transactions (fetch Unwindowed j) \<noteq> None"
      using k2 by blast
    show ?thesis
    proof (intro exI conjI)
      show "1 \<le> k1" by (rule b1)
      show "k1 \<le> 10" by (rule b1)
      show "k2 \<le> 10" by (rule b2)
      show "page_requests (fetch_strategies fetch)
         = map (Pair TimeWindowed) [1 ..< Suc k1] @ map (Pair Unwindowed) [1 ..< Suc k2]"
        by (rule rq)
      show "\<forall>j. 1 \<le> j \<and> j < k1 \<longrightarrow> page_transactions (fetch TimeWindowed j) \<noteq> None"
        by (rule ok1)
      show "\<forall>j. 1 \<le> j \<and> j < k2 \<longrightarrow> page_transactions (fetch Unwindowed j) \<noteq> None"
        by (rule ok2)
      show "page_transactions (fetch TimeWindowed 1) = None \<longrightarrow> 1 \<le> k2"
        using b2 by simp
      show "page_transactions (fetch TimeWindowed 1) \<noteq> None \<longrightarrow> k2 = 0"
        using tw by simp
      show "hasSuccess (fetch_strategies fetch)
         = (page_transactions (fetch TimeWindowed 1) \<noteq> None
            \<or> page_transactions (fetch Unwindowed 1) \<noteq> None)"
        by (rule hs)
    qed
  qed
qed

lemma syncUserTransactions_requests:
  assumes "truthy (bybitApiToken u)" and "truthy (bybitApiSecret u)"
    and "se_syncTime env = Resolves ()"
  shows "snd (syncUserTransactions env now u d) = page_requests (fetch_strategies (se_fetch env))"
  using assms by (simp add: syncUserTransactions_def syncUser_body_def Let_def)

text \<open>
  Claim C2. In a per-user sync that reaches the fetch (credentials present, the clock
  call returned): when the first page of strategy 1 is empty, failed or threw, page 1
  of strategy 2 is requested; when the first page of strategy 1 has transactions,
  strategy 2 is never requested; and for each strategy the pages requested are
  \<open>1, ..., k\<close> for some \<open>k\<close> of at most 10, every requested page but the last having
  passed the test, so nothing is requested after an empty or failed page.
\<close>

theorem fallback_and_pagination:
  assumes "truthy (bybitApiToken u)" and "truthy (bybitApiSecret u)"
    and "se_syncTime env = Resolves ()"
  shows "(page_transactions (se_fetch env TimeWindowed 1) = None
            \<longrightarrow> (Unwindowed, 1) \<in> set (snd (syncUserTransactions env now u d)))
    \<and> (page_transactions (se_fetch env TimeWindowed 1) \<noteq> None
            \<longrightarrow> (\<forall>p. (Unwindowed, p) \<notin> set (snd (syncUserTransactions env now u d))))
    \<and> (\<forall>s. \<exists>k \<le> 10.
          map snd (filter (\<lambda>r. fst r = s) (snd (syncUserTransactions env now u d))) = [1 ..< Suc k]
          \<and> (\<forall>j. 1 \<le> j \<and> j < k \<longrightarrow> page_transactions (se_fetch env s j) \<noteq> None))"
proof -
  from fetch_strategies_requests [of "se_fetch env"] obtain k1 k2 where
    kk: "1 \<le> k1 \<and> k1 \<le> 10 \<and> k2 \<le> 10
     \<and> page_requests (fetch_strategies (se_fetch env))
         = map (Pair TimeWindowed) [1 ..< Suc k1] @ map (Pair Unwindowed) [1 ..< Suc k2]
     \<and> (\<forall>j. 1 \<le> j \<and> j < k1 \<longrightarrow> page_transactions (se_fetch env TimeWindowed j) \<noteq> None)
     \<and> (\<forall>j. 1 \<le> j \<and> j < k2 \<longrightarrow> page_transactions (se_fetch env Unwindowed j) \<noteq> None)
     \<and> (page_transactions (se_fetch env TimeWindowed 1) = None \<longrightarrow> 1 \<le> k2)
     \<and> (page_transactions (se_fetch env TimeWindowed 1) \<noteq> None \<longrightarrow> k2 = 0)
     \<and> hasSuccess (fetch_strategies (se_fetch env))
         = (page_transactions (se_fetch env TimeWindowed 1) \<noteq> None
            \<or> page_transactions (se_fetch env Unwindowed 1) \<noteq> None)"
    by (elim exE)
  have k: "k1 \<le> 10" "k2 \<le> 10" using kk by blast+
  have rq: "page_requests (fetch_strategies (se_fetch env))
         = map (Pair TimeWindowed) [1 ..< Suc k1] @ map (Pair Unwindowed) [1 ..< Suc k2]"
    using kk by blast
  have ok1: "\<forall>j. 1 \<le> j \<and> j < k1 \<longrightarrow> page_transactions (se_fetch env TimeWindowed j) \<noteq> None"
    using kk by blast
  have ok2: "\<forall>j. 1 \<le> j \<and> j < k2 \<longrightarrow> page_transactions (se_fetch env Unwindowed j) \<noteq> None"
    using kk by blast
  have none: "page_transactions (se_fetch env TimeWindowed 1) = None \<longrightarrow> 1 \<le> k2"
    using kk by blast
  have some: "page_transactions (se_fetch env TimeWindowed 1) \<noteq> None \<longrightarrow> k2 = 0"
    using kk by blast
  have reqs: "snd (syncUserTransactions env now u d)
         = map (Pair TimeWindowed) [1 ..< Suc k1] @ map (Pair Unwindowed) [1 ..< Suc k2]"
    using syncUserTransactions_requests [OF assms] rq by simp
  have a: "page_transactions (se_fetch env TimeWindowed 1) = None
            \<longrightarrow> (Unwindowed, 1) \<in> set (snd (syncUserTransactions env now u d))"
  proof
    assume "page_transactions (se_fetch env TimeWindowed 1) = None"
    with none have "1 \<le> k2" by blast
    then have "1 \<in> set [1 ..< Suc k2]" by (auto simp del: upt_Suc)
    then show "(Unwindowed, 1) \<in> set (snd (syncUserTransactions env now u d))"
      unfolding reqs by (simp del: upt_Suc)
  qed
  have b: "page_transactions (se_fetch env TimeWindowed 1) \<noteq> None
            \<longrightarrow> (\<forall>p. (Unwindowed, p) \<notin> set (snd (syncUserTransactions env now u d)))"
  proof
    assume "page_transactions (se_fetch env TimeWindowed 1) \<noteq> None"
    with some have "k2 = 0" by blast
    then show "\<forall>p. (Unwindowed, p) \<notin> set (snd (syncUserTransactions env now u d))"
      unfolding reqs by (auto simp del: upt_Suc)
  qed
  have c: "\<exists>k \<le> 10.
          map snd (filter (\<lambda>r. fst r = s) (snd (syncUserTransactions env now u d))) = [1 ..< Suc k]
          \<and> (\<forall>j. 1 \<le> j \<and> j < k \<longrightarrow> page_transactions (se_fetch env s j) \<noteq> None)" for s
  proof (cases s)
    case TimeWindowed
    have "map snd (filter (\<lambda>r. fst r = s) (snd (syncUserTransactions env now u d))) = [1 ..< Suc k1]"
      unfolding reqs strategy_pages by (simp only: TimeWindowed strategy.case)
    with k ok1 TimeWindowed show ?thesis by blast
  next
    case Unwindowed
    have "map snd (filter (\<lambda>r. fst r = s) (snd (syncUserTransactions env now u d))) = [1 ..< Suc k2]"
      unfolding reqs strategy_pages by (simp only: Unwindowed strategy.case)
    with k ok2 Unwindowed show ?thesis by blast
  qed
  show ?thesis by (intro conjI allI a b c)
qed

theorem fallback_and_pagination_witness:
  "truthy (bybitApiToken sample_user) \<and> truthy (bybitApiSecret sample_user)
   \<and> se_syncTime (sample_env []) = Resolves ()
   \<and> page_transactions (se_fetch (sample_env []) TimeWindowed 1) = None
   \<and> (Unwindowed, 1) \<in> set (snd (syncUserTransactions (sample_env []) 1700000005000 sample_user sample_db))"
proof -
  have h1: "truthy (bybitApiToken sample_user)" by (simp add: sample_user_def js_def)
  have h2: "truthy (bybitApiSecret sample_user)" by (simp add: sample_user_def js_def)
  have h3: "se_syncTime (sample_env []) = Resolves ()" by (simp add: sample_env_def)
  have h4: "page_transactions (se_fetch (sample_env []) TimeWindowed 1) = None"
    by (simp add: sample_env_def page_of_def processTransactions_def)
  from fallback_and_pagination [OF h1 h2 h3, of 1700000005000 sample_db] h4
  have "(Unwindowed, 1) \<in> set (snd (syncUserTransactions (sample_env []) 1700000005000 sample_user sample_db))"
    by blast
  with h1 h2 h3 h4 show ?thesis by blast
qed

section \<open>Properties of the per-user sync\<close>

lemma page_transactions_nonempty: "page_transactions r = Some txs \<Longrightarrow> txs \<noteq> []"
  by (cases r) (auto split: if_splits option.splits)

lemma fetch_pages_collected:
  "(hasSuccess st \<longrightarrow> allCompletedTransactions st \<noteq> [])
   \<Longrightarrow> hasSuccess (fetch_pages fetch s page st)
   \<Longrightarrow> allCompletedTransactions (fetch_pages fetch s page st) \<noteq> []"
proof (induction fetch s page st rule: fetch_pages.induct)
  case (1 fetch s page st)
  show ?case
  proof (cases "page \<le> 10")
    case False
    then have "fetch_pages fetch s page st = st" by (subst fetch_pages.simps) simp
    with "1.prems" show ?thesis by simp
  next
    case le: True
    define st1 where "st1 = st\<lparr>page_requests := page_requests st @ [(s, page)]\<rparr>"
    show ?thesis
    proof (cases "page_transactions (fetch s page)")
      case None
      then have "fetch_pages fetch s page st = st1"
        using le by (subst fetch_pages.simps) (simp add: st1_def)
      with "1.prems" show ?thesis by (simp add: st1_def)
    next
      case (Some txs)
      define st2 where "st2 = st1\<lparr>allCompletedTransactions := allCompletedTransactions st1 @ txs,
                                   hasSuccess := True\<rparr>"
      have unfold: "fetch_pages fetch s page st = fetch_pages fetch s (page + 1) st2"
        using le Some by (subst fetch_pages.simps) (simp add: st1_def st2_def)
      have inv: "hasSuccess st2 \<longrightarrow> allCompletedTransactions st2 \<noteq> []"
        using page_transactions_nonempty [OF Some] by (simp add: st2_def)
      from "1.IH" [OF le st1_def Some, folded st2_def, OF inv] "1.prems"(2)
      show ?thesis unfolding unfold by blast
    qed
  qed
qed

lemma fetch_strategies_collected:
  "hasSuccess (fetch_strategies fetch) \<Longrightarrow> allCompletedTransactions (fetch_strategies fetch) \<noteq> []"
proof -
  define st0 where "st0 = \<lparr>allCompletedTransactions = [], hasSuccess = False, page_requests = []\<rparr>"
  define st1 where "st1 = fetch_pages fetch TimeWindowed 1 st0"
  assume hs: "hasSuccess (fetch_strategies fetch)"
  have i0: "hasSuccess st0 \<longrightarrow> allCompletedTransactions st0 \<noteq> []" by (simp add: st0_def)
  have i1: "hasSuccess st1 \<longrightarrow> allCompletedTransactions st1 \<noteq> []"
    unfolding st1_def using fetch_pages_collected [OF i0] by blast
  show ?thesis
  proof (cases "hasSuccess st1")
    case True
    then have "fetch_strategies fetch = st1"
      by (simp add: fetch_strategies_def st1_def st0_def Let_def)
    with i1 True show ?thesis by simp
  next
    case False
    then have fs: "fetch_strategies fetch = fetch_pages fetch Unwindowed 1 st1"
      by (simp add: fetch_strategies_def st1_def st0_def Let_def)
    from fetch_pages_collected [OF i1, of fetch Unwindowed 1] hs show ?thesis
      unfolding fs by blast
  qed
qed

lemma updateUserSyncStatus_accepted:
  assumes "dbe (UpdateUser uid) = None" and "uid \<in> set (map u_id (user_table d))"
  shows "status_writes (updateUserSyncStatus dbe now uid st d) = status_writes d @ [(UserAccount, uid, st, now)]"
    and "bybitTransaction (updateUserSyncStatus dbe now uid st d) = bybitTransaction d"
    and "\<forall>v \<in> set (user_table (updateUserSyncStatus dbe now uid st d)).
           u_id v = uid \<longrightarrow> u_lastBybitSyncStatus v = Some st \<and> u_lastBybitSyncAt v = Some now"
  using assms by (auto simp add: updateUserSyncStatus_def)

lemma updateUserSyncStatus_table [simp]:
  "bybitTransaction (updateUserSyncStatus dbe now uid st d) = bybitTransaction d"
  by (simp add: updateUserSyncStatus_def)

text \<open>What a sync with credentials does to the store, by the three ways it can end.\<close>

lemma syncUserTransactions_cases:
  assumes "truthy (bybitApiToken u)" and "truthy (bybitApiSecret u)"
  shows "fst (syncUserTransactions env now u d) =
     (case se_syncTime env of
        Rejects m \<Rightarrow> updateUserSyncStatus (se_db_error env) now (u_id u) (status_error m) d
      | Resolves x \<Rightarrow>
          if hasSuccess (fetch_strategies (se_fetch env)) then
            updateUserSyncStatus (se_db_error env) now (u_id u)
              (status_saved (snd (save_transactions (se_db_error env) now (u_id u)
                 (allCompletedTransactions (fetch_strategies (se_fetch env))) (d, 0))))
              (fst (save_transactions (se_db_error env) now (u_id u)
                 (allCompletedTransactions (fetch_strategies (se_fetch env))) (d, 0)))
          else updateUserSyncStatus (se_db_error env) now (u_id u) status_no_new d)"
  using assms fetch_strategies_collected [of "se_fetch env"]
  by (auto simp add: syncUserTransactions_def syncUser_body_def Let_def split: outcome.splits)

lemma save_transactions_count:
  "snd (save_transactions dbe now uid ts (d, 0))
     = length (bybitTransaction (fst (save_transactions dbe now uid ts (d, 0)))) - length (bybitTransaction d)"
  and save_transactions_user_table:
  "user_table (fst (save_transactions dbe now uid ts (d, n))) = user_table d"
  and save_transactions_status_writes:
  "status_writes (fst (save_transactions dbe now uid ts (d, n))) = status_writes d"
  using save_transactions_shape [of dbe now uid ts d 0] save_transactions_shape [of dbe now uid ts d n]
  by auto

lemma syncUserTransactions_status:
  assumes "truthy (bybitApiToken u)" and "truthy (bybitApiSecret u)"
    and "u_id u \<in> set (map u_id (user_table d))"
    and "se_db_error env (UpdateUser (u_id u)) = None"
  shows "\<exists>st.
      status_writes (fst (syncUserTransactions env now u d))
        = status_writes d @ [(UserAccount, u_id u, st, now)]
    \<and> (\<forall>v \<in> set (user_table (fst (syncUserTransactions env now u d))).
          u_id v = u_id u \<longrightarrow> u_lastBybitSyncStatus v = Some st \<and> u_lastBybitSyncAt v = Some now)
    \<and> st = (case se_syncTime env of
               Rejects m \<Rightarrow> status_error m
             | Resolves x \<Rightarrow>
                 if hasSuccess (fetch_strategies (se_fetch env))
                 then status_saved (length (bybitTransaction (fst (syncUserTransactions env now u d)))
                                     - length (bybitTransaction d))
                 else status_no_new)"
proof (cases "se_syncTime env")
  case (Rejects m)
  have e: "fst (syncUserTransactions env now u d)
             = updateUserSyncStatus (se_db_error env) now (u_id u) (status_error m) d"
    using syncUserTransactions_cases [OF assms(1,2), of env now d] Rejects by simp
  show ?thesis
    unfolding e using updateUserSyncStatus_accepted [where dbe = "se_db_error env" and uid = "u_id u" and d = d and now = now and st = "status_error m", OF assms(4,3)] Rejects
    by (intro exI [of _ "status_error m"]) simp
next
  case (Resolves x)
  show ?thesis
  proof (cases "hasSuccess (fetch_strategies (se_fetch env))")
    case False
    have e: "fst (syncUserTransactions env now u d)
             = updateUserSyncStatus (se_db_error env) now (u_id u) status_no_new d"
      using syncUserTransactions_cases [OF assms(1,2), of env now d] Resolves False by simp
    show ?thesis
      unfolding e using updateUserSyncStatus_accepted [where dbe = "se_db_error env" and uid = "u_id u" and d = d and now = now and st = status_no_new, OF assms(4,3)] Resolves False
      by (intro exI [of _ status_no_new]) simp
  next
    case True
    define r where "r = save_transactions (se_db_error env) now (u_id u)
                 (allCompletedTransactions (fetch_strategies (se_fetch env))) (d, 0)"
    have e: "fst (syncUserTransactions env now u d)
             = updateUserSyncStatus (se_db_error env) now (u_id u) (status_saved (snd r)) (fst r)"
      using syncUserTransactions_cases [OF assms(1,2), of env now d] Resolves True
      by (simp add: r_def)
    have ut: "u_id u \<in> set (map u_id (user_table (fst r)))"
      using assms(3) by (simp add: r_def save_transactions_user_table)
    have sw: "status_writes (fst r) = status_writes d"
      by (simp add: r_def save_transactions_status_writes)
    have n: "snd r = length (bybitTransaction (fst r)) - length (bybitTransaction d)"
      unfolding r_def by (rule save_transactions_count)
    show ?thesis
      unfolding e using updateUserSyncStatus_accepted [where dbe = "se_db_error env" and uid = "u_id u" and d = "fst r" and now = now and st = "status_saved (snd r)", OF assms(4) ut]
        Resolves True sw n
      by (intro exI [of _ "status_saved (snd r)"]) simp
  qed
qed

text \<open>
  Claim C9, as the code has it. A sync of a user who has the credentials writes the
  status of the user and the time of the sync exactly once, when the store accepts the
  write: the error text with the message when the clock call threw, the saved text
  with the number of rows the sync inserted when a page was fetched, and the no-new
  text otherwise. The texts are the Russian ones of the code. A sync of a user whose
  token or secret is missing or empty returns at once: it asks for no page and leaves
  the store, and so the status, as it is.
\<close>

theorem sync_status_written_once:
  "(truthy (bybitApiToken u) \<and> truthy (bybitApiSecret u)
      \<and> u_id u \<in> set (map u_id (user_table d))
      \<and> se_db_error env (UpdateUser (u_id u)) = None
    \<longrightarrow> (\<exists>st.
          status_writes (fst (syncUserTransactions env now u d))
            = status_writes d @ [(UserAccount, u_id u, st, now)]
        \<and> (\<forall>v \<in> set (user_table (fst (syncUserTransactions env now u d))).
              u_id v = u_id u \<longrightarrow> u_lastBybitSyncStatus v = Some st \<and> u_lastBybitSyncAt v = Some now)
        \<and> st = (case se_syncTime env of
                   Rejects m \<Rightarrow> status_error m
                 | Resolves x \<Rightarrow>
                     if hasSuccess (fetch_strategies (se_fetch env))
                     then status_saved (length (bybitTransaction (fst (syncUserTransactions env now u d)))
                                         - length (bybitTransaction d))
                     else status_no_new)))
   \<and> (\<not> truthy (bybitApiToken u) \<or> \<not> truthy (bybitApiSecret u)
        \<longrightarrow> syncUserTransactions env now u d = (d, []))"
proof (intro conjI impI)
  assume "truthy (bybitApiToken u) \<and> truthy (bybitApiSecret u)
      \<and> u_id u \<in> set (map u_id (user_table d))
      \<and> se_db_error env (UpdateUser (u_id u)) = None"
  then have h: "truthy (bybitApiToken u)" "truthy (bybitApiSecret u)"
    "u_id u \<in> set (map u_id (user_table d))" "se_db_error env (UpdateUser (u_id u)) = None"
    by blast+
  show "\<exists>st.
          status_writes (fst (syncUserTransactions env now u d))
            = status_writes d @ [(UserAccount, u_id u, st, now)]
        \<and> (\<forall>v \<in> set (user_table (fst (syncUserTransactions env now u d))).
              u_id v = u_id u \<longrightarrow> u_lastBybitSyncStatus v = Some st \<and> u_lastBybitSyncAt v = Some now)
        \<and> st = (case se_syncTime env of
                   Rejects m \<Rightarrow> status_error m
                 | Resolves x \<Rightarrow>
                     if hasSuccess (fetch_strategies (se_fetch env))
                     then status_saved (length (bybitTransaction (fst (syncUserTransactions env now u d)))
                                         - length (bybitTransaction d))
                     else status_no_new)"
    by (rule syncUserTransactions_status [OF h])
next
  assume "\<not> truthy (bybitApiToken u) \<or> \<not> truthy (bybitApiSecret u)"
  then show "syncUserTransactions env now u d = (d, [])"
    by (auto simp add: syncUserTransactions_def)
qed

theorem sync_status_written_once_witness:
  "truthy (bybitApiToken sample_user) \<and> truthy (bybitApiSecret sample_user)
   \<and> u_id sample_user \<in> set (map u_id (user_table sample_db))
   \<and> se_db_error (sample_env [sample_trade]) (UpdateUser (u_id sample_user)) = None
   \<and> status_writes (fst (syncUserTransactions (sample_env [sample_trade]) 1700000005000 sample_user sample_db))
        = [(UserAccount, 1, status_saved 1, 1700000005000)]"
proof -
  have h1: "truthy (bybitApiToken sample_user)" by (simp add: sample_user_def js_def)
  have h2: "truthy (bybitApiSecret sample_user)" by (simp add: sample_user_def js_def)
  have h3: "u_id sample_user \<in> set (map u_id (user_table sample_db))" by (simp add: sample_db_def)
  have h4: "se_db_error (sample_env [sample_trade]) (UpdateUser (u_id sample_user)) = None"
    by (simp add: sample_env_def)
  have rows: "length (bybitTransaction (fst (syncUserTransactions (sample_env [sample_trade]) 1700000005000 sample_user sample_db))) = 1"
    by (simp add: sample_env_def sample_db_def sample_user_def sample_trade_def page_of_def
          processTransactions_def js_def syncUserTransactions_def syncUser_body_def
          fetch_strategies_def fetch_pages.simps Let_def save_transactions_def
          save_transaction_def updateUserSyncStatus_def findFirst_transaction_def
          trade_orderNo_def date_out_of_range_def)
  have hs: "hasSuccess (fetch_strategies (se_fetch (sample_env [sample_trade])))"
    by (simp add: sample_env_def sample_trade_def page_of_def processTransactions_def
          fetch_strategies_def fetch_pages.simps Let_def)
  from sync_status_written_once [of sample_user sample_db "sample_env [sample_trade]" 1700000005000]
    h1 h2 h3 h4
  obtain st where
    "status_writes (fst (syncUserTransactions (sample_env [sample_trade]) 1700000005000 sample_user sample_db))
        = status_writes sample_db @ [(UserAccount, u_id sample_user, st, 1700000005000)]"
    and "st = (case se_syncTime (sample_env [sample_trade]) of
               Rejects m \<Rightarrow> status_error m
             | Resolves x \<Rightarrow>
                 if hasSuccess (fetch_strategies (se_fetch (sample_env [sample_trade])))
                 then status_saved (length (bybitTransaction (fst (syncUserTransactions (sample_env [sample_trade]) 1700000005000 sample_user sample_db)))
                                     - length (bybitTransaction sample_db))
                 else status_no_new)"
    by blast
  then have "status_writes (fst (syncUserTransactions (sample_env [sample_trade]) 1700000005000 sample_user sample_db))
        = [(UserAccount, 1, status_saved 1, 1700000005000)]"
    using rows hs by (simp add: sample_db_def sample_user_def sample_env_def)
  with h1 h2 h3 h4 show ?thesis by blast
qed

text \<open>
  Claim C9 as stated fails for a user without credentials: for a user whose token is
  the empty text the sync returns at once, with a fetchable upstream too, and writes no
  status. And for a user with credentials and an upstream without data, the text
  written is the Russian one, not "No new transactions found".
\<close>

theorem sync_without_credentials_counterexample:
  "syncUserTransactions (sample_env [sample_trade]) 1700000005000
      (sample_user\<lparr>bybitApiToken := Some []\<rparr>)
      (sample_db\<lparr>user_table := [sample_user\<lparr>bybitApiToken := Some []\<rparr>]\<rparr>)
   = (sample_db\<lparr>user_table := [sample_user\<lparr>bybitApiToken := Some []\<rparr>]\<rparr>, [])
   \<and> status_writes (sample_db\<lparr>user_table := [sample_user\<lparr>bybitApiToken := Some []\<rparr>]\<rparr>) = []
   \<and> status_writes (fst (syncUserTransactions (sample_env []) 1700000005000 sample_user sample_db))
       = [(UserAccount, 1, status_no_new, 1700000005000)]
   \<and> status_no_new \<noteq> js ''No new transactions found''"
  by (simp add: syncUserTransactions_def sample_db_def)
     (simp add: sample_env_def sample_user_def page_of_def processTransactions_def js_def
        syncUser_body_def fetch_strategies_def fetch_pages.simps Let_def
        updateUserSyncStatus_def status_no_new_def)

section \<open>The save loop of the cabinet sync\<close>

lemma same_but_status_refl [simp]: "same_but_status r r"
  by (simp add: same_but_status_def)

lemma same_but_status_trans:
  "same_but_status a b \<Longrightarrow> same_but_status b c \<Longrightarrow> same_but_status a c"
  unfolding same_but_status_def by (cases a; cases b; cases c) simp

lemma same_but_status_update [simp]:
  "same_but_status r (r\<lparr>ct_status := s, ct_updatedAt := t\<rparr>)"
  by (simp add: same_but_status_def)

lemma same_but_status_fields:
  "same_but_status r r' \<Longrightarrow>
     ct_id r' = ct_id r \<and> ct_orderNo r' = ct_orderNo r \<and> ct_cabinetId r' = ct_cabinetId r
     \<and> ct_amount r' = ct_amount r \<and> ct_totalPrice r' = ct_totalPrice r
     \<and> ct_unitPrice r' = ct_unitPrice r \<and> ct_type r' = ct_type r
     \<and> ct_originalData r' = ct_originalData r \<and> ct_processed r' = ct_processed r
     \<and> ct_extractedPhones r' = ct_extractedPhones r \<and> ct_counterparty r' = ct_counterparty r
     \<and> ct_asset r' = ct_asset r \<and> ct_dateTime r' = ct_dateTime r \<and> ct_createdAt r' = ct_createdAt r
     \<and> ct_lastAttemptError r' = ct_lastAttemptError r"
  unfolding same_but_status_def by (cases r; cases r') simp

lemma list_all2_same_but_status_refl [simp]: "list_all2 same_but_status rows rows"
  by (simp add: list_all2_refl)

lemma list_all2_same_but_status_trans:
  "list_all2 same_but_status xs ys \<Longrightarrow> list_all2 same_but_status ys zs
   \<Longrightarrow> list_all2 same_but_status xs zs"
  by (rule list_all2_trans [of same_but_status same_but_status same_but_status])
     (auto intro: same_but_status_trans)

lemma list_all2_same_but_status_map:
  "list_all2 same_but_status rows
     (map (\<lambda>r. if ct_id r = i then r\<lparr>ct_status := s, ct_updatedAt := t\<rparr> else r) rows)"
  by (induction rows) auto

lemma cabinet_row_fields [simp]:
  "ct_orderNo (cabinet_row tx cid now) = rt_id tx"
  "ct_status (cabinet_row tx cid now) = cabinet_status (rt_status tx)"
  "ct_cabinetId (cabinet_row tx cid now) = cid"
  by (simp_all add: cabinet_row_def)

text \<open>The normalizer throws on an invalid date and on nothing else.\<close>

lemma transformCabinetTransactionToDbFormat_cases:
  "(cabinet_date_invalid (rt_createDate tx)
      \<and> transformCabinetTransactionToDbFormat tx cid now = Inl invalid_time_value)
   \<or> (\<not> cabinet_date_invalid (rt_createDate tx)
      \<and> transformCabinetTransactionToDbFormat tx cid now = Inr (cabinet_row tx cid now))"
  by (simp add: transformCabinetTransactionToDbFormat_def)

text \<open>The four ways a turn of the loop can end.\<close>

lemma save_cabinet_transaction_cases:
  "(\<exists>m. save_cabinet_transaction dbe now cid tx d = Inl (m, d))
   \<or> save_cabinet_transaction dbe now cid tx d = Inr d
   \<or> (findUnique_cabinet_transaction (rt_id tx) d = None
       \<and> dbe (FindCabinetTransaction (rt_id tx)) = None
       \<and> \<not> cabinet_date_invalid (rt_createDate tx)
       \<and> save_cabinet_transaction dbe now cid tx d
           = Inr (d\<lparr>bybitTransactionFromCabinet :=
                      bybitTransactionFromCabinet d
                        @ [(cabinet_row tx cid now)
                             \<lparr>ct_id := fresh_id (map ct_id (bybitTransactionFromCabinet d))\<rparr>]\<rparr>))
   \<or> (\<exists>ex. findUnique_cabinet_transaction (rt_id tx) d = Some ex
       \<and> dbe (FindCabinetTransaction (rt_id tx)) = None
       \<and> \<not> cabinet_date_invalid (rt_createDate tx)
       \<and> save_cabinet_transaction dbe now cid tx d
           = Inr (d\<lparr>bybitTransactionFromCabinet :=
                      map (\<lambda>r. if ct_id r = ct_id ex
                                then r\<lparr>ct_status := cabinet_status (rt_status tx), ct_updatedAt := now\<rparr>
                                else r) (bybitTransactionFromCabinet d)\<rparr>))"
proof (cases "cabinet_date_invalid (rt_createDate tx)")
  case True
  then have "save_cabinet_transaction dbe now cid tx d = Inl (invalid_time_value, d)"
    by (simp add: save_cabinet_transaction_def transformCabinetTransactionToDbFormat_def)
  then show ?thesis by blast
next
  case False
  then show ?thesis
    by (simp add: save_cabinet_transaction_def transformCabinetTransactionToDbFormat_def
          split: option.splits)
qed

text \<open>
  The loop keeps the rows it found, changing at most their status and \<open>updatedAt\<close>,
  and appends rows; an appended row is, up to status and \<open>updatedAt\<close>, the row the
  normalizer gives for one of the records. The other tables are untouched.
\<close>

lemma save_cabinet_transactions_shape:
  "\<exists>kept rows.
      bybitTransactionFromCabinet (store_after (save_cabinet_transactions dbe now cid txs d)) = kept @ rows
    \<and> list_all2 same_but_status (bybitTransactionFromCabinet d) kept
    \<and> (\<forall>r \<in> set rows. \<exists>tx \<in> set txs. \<exists>i.
          \<not> cabinet_date_invalid (rt_createDate tx)
          \<and> same_but_status ((cabinet_row tx cid now)\<lparr>ct_id := i\<rparr>) r)
    \<and> bybitCabinet (store_after (save_cabinet_transactions dbe now cid txs d)) = bybitCabinet d
    \<and> status_writes (store_after (save_cabinet_transactions dbe now cid txs d)) = status_writes d"
proof (induction txs arbitrary: d)
  case Nil
  show ?case
    by (intro exI [of _ "bybitTransactionFromCabinet d"] exI [of _ "[]"]) (simp add: store_after_def)
next
  case (Cons tx txs)
  define T where "T = bybitTransactionFromCabinet d"
  have step: "(\<exists>m. save_cabinet_transaction dbe now cid tx d = Inl (m, d))
    \<or> (\<exists>d' new. save_cabinet_transaction dbe now cid tx d = Inr d'
          \<and> bybitCabinet d' = bybitCabinet d \<and> status_writes d' = status_writes d
          \<and> (\<exists>kept. bybitTransactionFromCabinet d' = kept @ new \<and> list_all2 same_but_status T kept)
          \<and> (\<forall>r \<in> set new. \<exists>i. \<not> cabinet_date_invalid (rt_createDate tx)
                \<and> r = (cabinet_row tx cid now)\<lparr>ct_id := i\<rparr>))"
    using save_cabinet_transaction_cases [of dbe now cid tx d]
  proof (elim disjE exE conjE)
    fix m assume "save_cabinet_transaction dbe now cid tx d = Inl (m, d)"
    then show ?thesis by blast
  next
    assume a: "save_cabinet_transaction dbe now cid tx d = Inr d"
    have "\<exists>kept. bybitTransactionFromCabinet d = kept @ [] \<and> list_all2 same_but_status T kept"
      by (intro exI [of _ T]) (simp add: T_def)
    with a show ?thesis by (intro disjI2 exI [of _ d] exI [of _ "[]"]) simp
  next
    define row where "row = (cabinet_row tx cid now)
                             \<lparr>ct_id := fresh_id (map ct_id (bybitTransactionFromCabinet d))\<rparr>"
    assume v: "\<not> cabinet_date_invalid (rt_createDate tx)"
    assume a: "save_cabinet_transaction dbe now cid tx d
           = Inr (d\<lparr>bybitTransactionFromCabinet :=
                      bybitTransactionFromCabinet d
                        @ [(cabinet_row tx cid now)
                             \<lparr>ct_id := fresh_id (map ct_id (bybitTransactionFromCabinet d))\<rparr>]\<rparr>)"
    have "\<exists>kept. bybitTransactionFromCabinet (d\<lparr>bybitTransactionFromCabinet := T @ [row]\<rparr>) = kept @ [row]
            \<and> list_all2 same_but_status T kept"
      by (intro exI [of _ T]) simp
    with a v show ?thesis
      by (intro disjI2 exI [of _ "d\<lparr>bybitTransactionFromCabinet := T @ [row]\<rparr>"] exI [of _ "[row]"])
         (auto simp add: T_def row_def)
  next
    fix ex
    define T' where "T' = map (\<lambda>r. if ct_id r = ct_id ex
                                then r\<lparr>ct_status := cabinet_status (rt_status tx), ct_updatedAt := now\<rparr>
                                else r) T"
    assume a: "save_cabinet_transaction dbe now cid tx d
           = Inr (d\<lparr>bybitTransactionFromCabinet :=
                      map (\<lambda>r. if ct_id r = ct_id ex
                                then r\<lparr>ct_status := cabinet_status (rt_status tx), ct_updatedAt := now\<rparr>
                                else r) (bybitTransactionFromCabinet d)\<rparr>)"
    have "list_all2 same_but_status T T'"
      unfolding T'_def by (rule list_all2_same_but_status_map)
    then have "\<exists>kept. bybitTransactionFromCabinet (d\<lparr>bybitTransactionFromCabinet := T'\<rparr>) = kept @ []
            \<and> list_all2 same_but_status T kept"
      by (intro exI [of _ T']) simp
    with a show ?thesis
      by (intro disjI2 exI [of _ "d\<lparr>bybitTransactionFromCabinet := T'\<rparr>"] exI [of _ "[]"])
         (auto simp add: T_def T'_def)
  qed
  from step show ?case
  proof (elim disjE exE conjE)
    fix m assume "save_cabinet_transaction dbe now cid tx d = Inl (m, d)"
    then show ?thesis
      by (intro exI [of _ T] exI [of _ "[]"]) (simp add: store_after_def T_def)
  next
    fix d' new kept
    assume s: "save_cabinet_transaction dbe now cid tx d = Inr d'"
      and cab: "bybitCabinet d' = bybitCabinet d" and sw: "status_writes d' = status_writes d"
      and t': "bybitTransactionFromCabinet d' = kept @ new"
      and k: "list_all2 same_but_status T kept"
      and n: "\<forall>r \<in> set new. \<exists>i. \<not> cabinet_date_invalid (rt_createDate tx)
                \<and> r = (cabinet_row tx cid now)\<lparr>ct_id := i\<rparr>"
    from Cons.IH [of d'] obtain kept2 rows2 where
      e2: "bybitTransactionFromCabinet (store_after (save_cabinet_transactions dbe now cid txs d')) = kept2 @ rows2"
      and k2: "list_all2 same_but_status (bybitTransactionFromCabinet d') kept2"
      and n2: "\<forall>r \<in> set rows2. \<exists>tx \<in> set txs. \<exists>i.
          \<not> cabinet_date_invalid (rt_createDate tx)
          \<and> same_but_status ((cabinet_row tx cid now)\<lparr>ct_id := i\<rparr>) r"
      and cab2: "bybitCabinet (store_after (save_cabinet_transactions dbe now cid txs d')) = bybitCabinet d'"
      and sw2: "status_writes (store_after (save_cabinet_transactions dbe now cid txs d')) = status_writes d'"
      by blast
    have len: "length kept2 = length kept + length new"
      using k2 t' by (simp add: list_all2_lengthD [symmetric])
    define ka where "ka = take (length kept) kept2"
    define kb where "kb = drop (length kept) kept2"
    have split: "kept2 = ka @ kb" by (simp add: ka_def kb_def)
    have "list_all2 same_but_status (kept @ new) (ka @ kb)"
      using k2 t' split by simp
    moreover have "length kept = length ka" using len by (simp add: ka_def)
    ultimately have ka: "list_all2 same_but_status kept ka" and kb: "list_all2 same_but_status new kb"
      by (simp_all add: list_all2_append)
    have k3: "list_all2 same_but_status T ka"
      using list_all2_same_but_status_trans [OF k ka] .
    have n3: "\<forall>r \<in> set (kb @ rows2). \<exists>tx' \<in> set (tx # txs). \<exists>i.
          \<not> cabinet_date_invalid (rt_createDate tx')
          \<and> same_but_status ((cabinet_row tx' cid now)\<lparr>ct_id := i\<rparr>) r"
    proof
      fix r assume "r \<in> set (kb @ rows2)"
      then consider "r \<in> set kb" | "r \<in> set rows2" by auto
      then show "\<exists>tx' \<in> set (tx # txs). \<exists>i.
          \<not> cabinet_date_invalid (rt_createDate tx')
          \<and> same_but_status ((cabinet_row tx' cid now)\<lparr>ct_id := i\<rparr>) r"
      proof cases
        case 1
        then obtain j where j: "j < length kb" "r = kb ! j" by (auto simp add: in_set_conv_nth)
        with kb have "same_but_status (new ! j) r" and "j < length new"
          by (auto simp add: list_all2_conv_all_nth)
        moreover from this n obtain i where
          "\<not> cabinet_date_invalid (rt_createDate tx)"
          "new ! j = (cabinet_row tx cid now)\<lparr>ct_id := i\<rparr>"
          using nth_mem by blast
        ultimately show ?thesis by auto
      next
        case 2
        with n2 show ?thesis by auto
      qed
    qed
    have e3: "bybitTransactionFromCabinet (store_after (save_cabinet_transactions dbe now cid (tx # txs) d))
                = ka @ (kb @ rows2)"
      using e2 split by (simp add: s)
    show ?thesis
      by (intro exI [of _ ka] exI [of _ "kb @ rows2"])
         (use e3 k3 n3 cab cab2 sw sw2 in \<open>simp add: s T_def\<close>)
  qed
qed

lemma findUnique_cabinet_transaction_None:
  "findUnique_cabinet_transaction orderNo d = None
     \<longleftrightarrow> orderNo \<notin> set (map ct_orderNo (bybitTransactionFromCabinet d))"
  by (auto simp add: findUnique_cabinet_transaction_def find_None_iff)

lemma ct_orderNo_update:
  "map ct_orderNo (map (\<lambda>r. if ct_id r = i then r\<lparr>ct_status := s, ct_updatedAt := t\<rparr> else r) rows)
     = map ct_orderNo rows"
  by (induction rows) auto

lemma cabinet_tx_key_update:
  "map cabinet_tx_key (map (\<lambda>r. if ct_id r = i then r\<lparr>ct_status := s, ct_updatedAt := t\<rparr> else r) rows)
     = map cabinet_tx_key rows"
  by (induction rows) (auto simp add: cabinet_tx_key_def)

text \<open>
  The order numbers of the table after the loop are those before it, in place, followed
  by order numbers that differ from one another and from those before.
\<close>

lemma save_cabinet_transaction_orderNos:
  assumes "save_cabinet_transaction dbe now cid tx d = Inr d'"
  shows "map ct_orderNo (bybitTransactionFromCabinet d') = map ct_orderNo (bybitTransactionFromCabinet d)
    \<or> (rt_id tx \<notin> set (map ct_orderNo (bybitTransactionFromCabinet d))
       \<and> map ct_orderNo (bybitTransactionFromCabinet d')
           = map ct_orderNo (bybitTransactionFromCabinet d) @ [rt_id tx])"
  using save_cabinet_transaction_cases [of dbe now cid tx d] assms
proof (elim disjE exE conjE)
  assume none: "findUnique_cabinet_transaction (rt_id tx) d = None"
    and a: "save_cabinet_transaction dbe now cid tx d
           = Inr (d\<lparr>bybitTransactionFromCabinet :=
                      bybitTransactionFromCabinet d
                        @ [(cabinet_row tx cid now)
                             \<lparr>ct_id := fresh_id (map ct_id (bybitTransactionFromCabinet d))\<rparr>]\<rparr>)"
  have "rt_id tx \<notin> set (map ct_orderNo (bybitTransactionFromCabinet d))"
    using none by (simp add: findUnique_cabinet_transaction_None)
  with a assms show ?thesis by auto
next
  fix ex
  assume a: "save_cabinet_transaction dbe now cid tx d
           = Inr (d\<lparr>bybitTransactionFromCabinet :=
                      map (\<lambda>r. if ct_id r = ct_id ex
                                then r\<lparr>ct_status := cabinet_status (rt_status tx), ct_updatedAt := now\<rparr>
                                else r) (bybitTransactionFromCabinet d)\<rparr>)"
  with assms have "bybitTransactionFromCabinet d'
      = map (\<lambda>r. if ct_id r = ct_id ex
                   then r\<lparr>ct_status := cabinet_status (rt_status tx), ct_updatedAt := now\<rparr>
                   else r) (bybitTransactionFromCabinet d)"
    by auto
  then show ?thesis by (simp add: ct_orderNo_update)
qed auto

lemma save_cabinet_transaction_Inl:
  "save_cabinet_transaction dbe now cid tx d = Inl e \<Longrightarrow> snd e = d"
  using save_cabinet_transaction_cases [of dbe now cid tx d] by auto

lemma save_cabinet_transactions_orderNos:
  "\<exists>new. map ct_orderNo (bybitTransactionFromCabinet
                  (store_after (save_cabinet_transactions dbe now cid txs d)))
            = map ct_orderNo (bybitTransactionFromCabinet d) @ new
      \<and> distinct new
      \<and> set new \<inter> set (map ct_orderNo (bybitTransactionFromCabinet d)) = {}"
proof (induction txs arbitrary: d)
  case Nil
  show ?case by (intro exI [of _ "[]"]) (simp add: store_after_def)
next
  case (Cons tx txs)
  show ?case
  proof (cases "save_cabinet_transaction dbe now cid tx d")
    case (Inl e)
    with save_cabinet_transaction_Inl [OF Inl] show ?thesis
      by (intro exI [of _ "[]"]) (simp add: store_after_def)
  next
    case (Inr d')
    from Cons.IH [of d'] obtain new where
      e: "map ct_orderNo (bybitTransactionFromCabinet
                  (store_after (save_cabinet_transactions dbe now cid txs d')))
            = map ct_orderNo (bybitTransactionFromCabinet d') @ new"
      and dn: "distinct new"
      and dj: "set new \<inter> set (map ct_orderNo (bybitTransactionFromCabinet d')) = {}"
      by blast
    from save_cabinet_transaction_orderNos [OF Inr] show ?thesis
    proof
      assume same: "map ct_orderNo (bybitTransactionFromCabinet d')
                      = map ct_orderNo (bybitTransactionFromCabinet d)"
      show ?thesis
        by (intro exI [of _ new]) (use e dn dj same Inr in simp)
    next
      assume app: "rt_id tx \<notin> set (map ct_orderNo (bybitTransactionFromCabinet d))
       \<and> map ct_orderNo (bybitTransactionFromCabinet d')
           = map ct_orderNo (bybitTransactionFromCabinet d) @ [rt_id tx]"
      have a: "map ct_orderNo (bybitTransactionFromCabinet
                  (store_after (save_cabinet_transactions dbe now cid (tx # txs) d)))
            = map ct_orderNo (bybitTransactionFromCabinet d) @ (rt_id tx # new)"
        using e app Inr by simp
      have b: "distinct (rt_id tx # new)" using dn dj app by auto
      have c: "set (rt_id tx # new) \<inter> set (map ct_orderNo (bybitTransactionFromCabinet d)) = {}"
        using dj app by auto
      show ?thesis by (intro exI [of _ "rt_id tx # new"]) (use a b c in blast)
    qed
  qed
qed

lemma save_cabinet_transaction_distinct:
  assumes "distinct (map cabinet_tx_key (bybitTransactionFromCabinet d))"
    and "save_cabinet_transaction dbe now cid tx d = Inr d'"
  shows "distinct (map cabinet_tx_key (bybitTransactionFromCabinet d'))"
  using save_cabinet_transaction_cases [of dbe now cid tx d] assms
proof (elim disjE exE conjE)
  assume none: "findUnique_cabinet_transaction (rt_id tx) d = None"
    and a: "save_cabinet_transaction dbe now cid tx d
           = Inr (d\<lparr>bybitTransactionFromCabinet :=
                      bybitTransactionFromCabinet d
                        @ [(cabinet_row tx cid now)
                             \<lparr>ct_id := fresh_id (map ct_id (bybitTransactionFromCabinet d))\<rparr>]\<rparr>)"
  have "(rt_id tx, cid) \<notin> set (map cabinet_tx_key (bybitTransactionFromCabinet d))"
    using none by (auto simp add: findUnique_cabinet_transaction_None cabinet_tx_key_def)
  with a assms show ?thesis
    by (auto simp add: cabinet_tx_key_def)
next
  fix ex
  assume a: "save_cabinet_transaction dbe now cid tx d
           = Inr (d\<lparr>bybitTransactionFromCabinet :=
                      map (\<lambda>r. if ct_id r = ct_id ex
                                then r\<lparr>ct_status := cabinet_status (rt_status tx), ct_updatedAt := now\<rparr>
                                else r) (bybitTransactionFromCabinet d)\<rparr>)"
  with assms(2) have "bybitTransactionFromCabinet d'
      = map (\<lambda>r. if ct_id r = ct_id ex
                   then r\<lparr>ct_status := cabinet_status (rt_status tx), ct_updatedAt := now\<rparr>
                   else r) (bybitTransactionFromCabinet d)"
    by auto
  then show ?thesis by (simp only: cabinet_tx_key_update assms(1))
qed auto

lemma save_cabinet_transactions_distinct:
  "distinct (map cabinet_tx_key (bybitTransactionFromCabinet d))
   \<Longrightarrow> distinct (map cabinet_tx_key
         (bybitTransactionFromCabinet (store_after (save_cabinet_transactions dbe now cid txs d))))"
proof (induction txs arbitrary: d)
  case Nil
  then show ?case by (simp add: store_after_def)
next
  case (Cons tx txs)
  show ?case
  proof (cases "save_cabinet_transaction dbe now cid tx d")
    case (Inl e)
    with save_cabinet_transaction_Inl [OF Inl] Cons.prems show ?thesis by (simp add: store_after_def)
  next
    case (Inr d')
    from Cons.IH [OF save_cabinet_transaction_distinct [OF Cons.prems Inr]] Inr
    show ?thesis by simp
  qed
qed

text \<open>A settled order number stays settled through a turn for a record of status 50.\<close>

lemma find_map_update:
  "List.find (\<lambda>r. ct_orderNo r = ono)
       (map (\<lambda>r. if ct_id r = i then r\<lparr>ct_status := s, ct_updatedAt := t\<rparr> else r) rows)
     = map_option (\<lambda>r. if ct_id r = i then r\<lparr>ct_status := s, ct_updatedAt := t\<rparr> else r)
         (List.find (\<lambda>r. ct_orderNo r = ono) rows)"
  by (induction rows) auto

lemma find_in_append:
  "List.find P (xs @ ys) = (case List.find P xs of None \<Rightarrow> List.find P ys | Some x \<Rightarrow> Some x)"
  by (induction xs) auto

lemma cabinet_status_50 [simp]: "cabinet_status (Some 50) = js ''COMPLETED''"
  by (simp add: cabinet_status_def)

lemma save_cabinet_transaction_settled:
  assumes "rt_status tx = Some 50"
    and "save_cabinet_transaction dbe now cid tx d = Inr d'"
    and "\<forall>i. dbe (UpdateCabinetTransaction i) = None"
  shows "settled (bybitTransactionFromCabinet d') (rt_id tx)"
    and "settled (bybitTransactionFromCabinet d) ono \<Longrightarrow> settled (bybitTransactionFromCabinet d') ono"
proof -
  have "settled (bybitTransactionFromCabinet d') (rt_id tx)
      \<and> (settled (bybitTransactionFromCabinet d) ono \<longrightarrow> settled (bybitTransactionFromCabinet d') ono)"
    using assms
    by (auto simp add: save_cabinet_transaction_def transformCabinetTransactionToDbFormat_def
          settled_def find_map_update findUnique_cabinet_transaction_def find_in_append
          split: option.splits if_splits)
  then show "settled (bybitTransactionFromCabinet d') (rt_id tx)"
    and "settled (bybitTransactionFromCabinet d) ono \<Longrightarrow> settled (bybitTransactionFromCabinet d') ono"
    by blast+
qed

lemma save_cabinet_transactions_settled:
  "\<forall>tx \<in> set txs. rt_status tx = Some 50
   \<Longrightarrow> settled (bybitTransactionFromCabinet d) ono
   \<Longrightarrow> settled (bybitTransactionFromCabinet
         (store_after (save_cabinet_transactions (\<lambda>opn. None) now cid txs d))) ono"
proof (induction txs arbitrary: d)
  case Nil
  then show ?case by (simp add: store_after_def)
next
  case (Cons tx txs)
  show ?case
  proof (cases "save_cabinet_transaction (\<lambda>opn. None) now cid tx d")
    case (Inl e)
    with save_cabinet_transaction_Inl [OF Inl] Cons.prems show ?thesis by (simp add: store_after_def)
  next
    case (Inr d')
    have s50: "rt_status tx = Some 50" using Cons.prems by simp
    have "settled (bybitTransactionFromCabinet d') ono"
      using save_cabinet_transaction_settled(2) [OF s50 Inr] Cons.prems by simp
    moreover have "\<forall>tx \<in> set txs. rt_status tx = Some 50" using Cons.prems by simp
    ultimately show ?thesis using Cons.IH [of d'] Inr by simp
  qed
qed

text \<open>
  A record of status 50 whose order number is settled is passed over, unless the lookup
  rejects or the date is invalid and the turn throws; the table is left as it is.
\<close>

lemma save_cabinet_transaction_noop:
  assumes "rt_status tx = Some 50"
    and "settled (bybitTransactionFromCabinet d) (rt_id tx)"
  shows "(\<exists>m. save_cabinet_transaction dbe now cid tx d = Inl (m, d))
    \<or> save_cabinet_transaction dbe now cid tx d = Inr d"
  using assms
  by (auto simp add: save_cabinet_transaction_def transformCabinetTransactionToDbFormat_def
        settled_def findUnique_cabinet_transaction_def
        split: option.splits)

text \<open>With a store that accepts every call, a turn throws only on an invalid date.\<close>

lemma save_cabinet_transaction_throws:
  "save_cabinet_transaction (\<lambda>opn. None) now cid tx d = Inl e
   \<Longrightarrow> cabinet_date_invalid (rt_createDate tx)"
  by (auto simp add: save_cabinet_transaction_def transformCabinetTransactionToDbFormat_def
        split: option.splits if_splits)

lemma save_cabinet_transaction_invalid:
  "cabinet_date_invalid (rt_createDate tx)
   \<Longrightarrow> save_cabinet_transaction dbe now cid tx d = Inl (invalid_time_value, d)"
  by (simp add: save_cabinet_transaction_def transformCabinetTransactionToDbFormat_def)

text \<open>
  With a store that accepts every call and records of status 50 with valid dates, the
  loop ends without a throw and leaves every record settled.
\<close>

lemma save_cabinet_transactions_covers:
  "\<forall>tx \<in> set txs. rt_status tx = Some 50 \<and> \<not> cabinet_date_invalid (rt_createDate tx)
   \<Longrightarrow> \<exists>d'. save_cabinet_transactions (\<lambda>opn. None) now cid txs d = Inr d'
          \<and> (\<forall>tx \<in> set txs. settled (bybitTransactionFromCabinet d') (rt_id tx))"
proof (induction txs arbitrary: d)
  case Nil
  show ?case by simp
next
  case (Cons tx txs)
  have s50: "rt_status tx = Some 50" and valid: "\<not> cabinet_date_invalid (rt_createDate tx)"
    and rest: "\<forall>tx \<in> set txs. rt_status tx = Some 50 \<and> \<not> cabinet_date_invalid (rt_createDate tx)"
    using Cons.prems by simp_all
  have rest50: "\<forall>tx \<in> set txs. rt_status tx = Some 50" using rest by simp
  obtain d1 where d1: "save_cabinet_transaction (\<lambda>opn. None) now cid tx d = Inr d1"
    using save_cabinet_transaction_throws [of now cid tx d] valid
    by (cases "save_cabinet_transaction (\<lambda>opn. None) now cid tx d") auto
  have st1: "settled (bybitTransactionFromCabinet d1) (rt_id tx)"
    by (rule save_cabinet_transaction_settled(1) [OF s50 d1]) simp
  from Cons.IH [OF rest, of d1] obtain d' where
    e: "save_cabinet_transactions (\<lambda>opn. None) now cid txs d1 = Inr d'"
    and a: "\<forall>tx \<in> set txs. settled (bybitTransactionFromCabinet d') (rt_id tx)"
    by blast
  have "settled (bybitTransactionFromCabinet d') (rt_id tx)"
    using save_cabinet_transactions_settled [OF rest50 st1, of now cid] e
    by (simp add: store_after_def)
  with a d1 e show ?case by simp
qed

text \<open>
  The loop run again, by a store that may answer otherwise, on the table that a run in
  which the store accepted every call left: it changes nothing.
\<close>

lemma save_cabinet_transactions_twice:
  "\<forall>tx \<in> set txs. rt_status tx = Some 50
   \<Longrightarrow> bybitTransactionFromCabinet d2
        = bybitTransactionFromCabinet (store_after (save_cabinet_transactions (\<lambda>opn. None) now cid txs d))
   \<Longrightarrow> bybitTransactionFromCabinet (store_after (save_cabinet_transactions dbe2 now2 cid2 txs d2))
        = bybitTransactionFromCabinet d2"
proof (induction txs arbitrary: d d2)
  case Nil
  then show ?case by (simp add: store_after_def)
next
  case (Cons tx txs)
  have s50: "rt_status tx = Some 50" and rest: "\<forall>tx \<in> set txs. rt_status tx = Some 50"
    using Cons.prems by simp_all
  show ?case
  proof (cases "save_cabinet_transaction (\<lambda>opn. None) now cid tx d")
    case (Inl e)
    from save_cabinet_transaction_invalid [OF save_cabinet_transaction_throws [OF Inl]]
    have "save_cabinet_transaction dbe2 now2 cid2 tx d2 = Inl (invalid_time_value, d2)" .
    then show ?thesis by (simp add: store_after_def)
  next
    case (Inr d')
    have t: "bybitTransactionFromCabinet d2
        = bybitTransactionFromCabinet (store_after (save_cabinet_transactions (\<lambda>opn. None) now cid txs d'))"
      using Cons.prems(2) Inr by simp
    have "settled (bybitTransactionFromCabinet d') (rt_id tx)"
      by (rule save_cabinet_transaction_settled(1) [OF s50 Inr]) simp
    then have st2: "settled (bybitTransactionFromCabinet d2) (rt_id tx)"
      using save_cabinet_transactions_settled [OF rest, of d' "rt_id tx" now cid] t by simp
    from save_cabinet_transaction_noop [OF s50 st2, of dbe2 now2 cid2] show ?thesis
    proof (elim disjE exE)
      fix m assume "save_cabinet_transaction dbe2 now2 cid2 tx d2 = Inl (m, d2)"
      then show ?thesis by (simp add: store_after_def)
    next
      assume "save_cabinet_transaction dbe2 now2 cid2 tx d2 = Inr d2"
      then show ?thesis using Cons.IH [OF rest t] by simp
    qed
  qed
qed

section \<open>The two syncs and the tables\<close>

lemma updateCabinetSyncStatus_table [simp]:
  "bybitTransactionFromCabinet (updateCabinetSyncStatus dbe now cid st d) = bybitTransactionFromCabinet d"
  by (simp add: updateCabinetSyncStatus_def)

text \<open>
  The cabinet sync either leaves the table as it is or leaves it as the loop over the
  fetched records of status 50 and side 1 leaves it; which of the two depends on the
  cabinet, the time bounds and the outcomes only.
\<close>

lemma syncCabinetTransactions_loop:
  assumes "cabinet_loop_runs env apiBeginTime apiEndTime c"
  shows "syncCabinetTransactions env now apiBeginTime apiEndTime c d
     = (case save_cabinet_transactions (ce_db_error env) now (cab_id c)
               (filter (\<lambda>tx. rt_side tx = Some 1)
                  (filter (\<lambda>tx. rt_status tx = Some 50) (fetched_transactions (ce_fetch env)))) d of
          Inl e \<Rightarrow> updateCabinetSyncStatus (ce_db_error env) now (cab_id c) (cabinet_error (fst e)) (snd e)
        | Inr d' \<Rightarrow> updateCabinetSyncStatus (ce_db_error env) now (cab_id c)
                      (cabinet_saved (length (fetched_transactions (ce_fetch env)))) d')"
proof -
  from assms obtain pr pd where
    f: "ce_fetch env = Resolves pr" "success pr" "data pr = Some pd" "transactions pd \<noteq> []"
    by (auto simp add: cabinet_loop_runs_def fetched_transactions_def
          split: outcome.splits option.splits if_splits)
  have ft: "fetched_transactions (ce_fetch env) = transactions pd"
    using f by (simp add: fetched_transactions_def)
  show ?thesis
    using assms f unfolding ft
    by (simp add: syncCabinetTransactions_def syncCabinet_body_def cabinet_loop_runs_def Let_def
          split: sum.splits)
qed

lemma syncCabinetTransactions_no_loop:
  assumes "\<not> cabinet_loop_runs env apiBeginTime apiEndTime c"
  shows "bybitTransactionFromCabinet (syncCabinetTransactions env now apiBeginTime apiEndTime c d)
           = bybitTransactionFromCabinet d"
proof (cases "ce_syncTime env")
  case (Rejects m)
  then show ?thesis
    by (simp add: syncCabinetTransactions_def syncCabinet_body_def)
next
  case (Resolves x)
  show ?thesis
  proof (cases "ce_fetch env")
    case (Rejects m)
    with Resolves show ?thesis
      by (simp add: syncCabinetTransactions_def syncCabinet_body_def)
  next
    case fr: (Resolves pr)
    show ?thesis
    proof (cases "data pr")
      case None
      with Resolves fr show ?thesis
        by (simp add: syncCabinetTransactions_def syncCabinet_body_def)
    next
      case (Some pd)
      with Resolves fr assms show ?thesis
        by (auto simp add: syncCabinetTransactions_def syncCabinet_body_def cabinet_loop_runs_def
              fetched_transactions_def Let_def split: if_splits)
    qed
  qed
qed

lemma syncCabinetTransactions_table:
  "bybitTransactionFromCabinet (syncCabinetTransactions env now apiBeginTime apiEndTime c d)
     = (if cabinet_loop_runs env apiBeginTime apiEndTime c
        then bybitTransactionFromCabinet (store_after
               (save_cabinet_transactions (ce_db_error env) now (cab_id c)
                  (filter (\<lambda>tx. rt_side tx = Some 1)
                     (filter (\<lambda>tx. rt_status tx = Some 50) (fetched_transactions (ce_fetch env)))) d))
        else bybitTransactionFromCabinet d)"
proof (cases "cabinet_loop_runs env apiBeginTime apiEndTime c")
  case True
  show ?thesis
    unfolding syncCabinetTransactions_loop [OF True]
    using True by (simp add: store_after_def split: sum.splits)
next
  case False
  then show ?thesis by (simp add: syncCabinetTransactions_no_loop)
qed

lemma syncUserTransactions_table:
  "bybitTransaction (fst (syncUserTransactions env now u d))
     = (if user_loop_runs env u
        then bybitTransaction (fst (save_transactions (se_db_error env) now (u_id u)
               (allCompletedTransactions (fetch_strategies (se_fetch env))) (d, 0)))
        else bybitTransaction d)"
proof (cases "truthy (bybitApiToken u) \<and> truthy (bybitApiSecret u)")
  case False
  then show ?thesis by (auto simp add: syncUserTransactions_def user_loop_runs_def)
next
  case True
  then have c: "truthy (bybitApiToken u)" "truthy (bybitApiSecret u)" by simp_all
  show ?thesis
    unfolding syncUserTransactions_cases [OF c]
    using c by (cases "se_syncTime env") (simp_all add: user_loop_runs_def)
qed

text \<open>What a run of each sync does to its table.\<close>

lemma syncUserTransactions_appends:
  "\<exists>rows. bybitTransaction (fst (syncUserTransactions env now u d)) = bybitTransaction d @ rows
     \<and> distinct (map tx_key rows)
     \<and> set (map tx_key rows) \<inter> set (map tx_key (bybitTransaction d)) = {}"
proof (cases "user_loop_runs env u")
  case False
  then have "bybitTransaction (fst (syncUserTransactions env now u d)) = bybitTransaction d @ []"
    by (simp add: syncUserTransactions_table)
  then show ?thesis by (intro exI [of _ "[]"]) simp
next
  case True
  define ts where "ts = allCompletedTransactions (fetch_strategies (se_fetch env))"
  from save_transactions_shape [of "se_db_error env" now "u_id u" ts d 0] obtain rows where
    e: "save_transactions (se_db_error env) now (u_id u) ts (d, 0)
          = (d\<lparr>bybitTransaction := bybitTransaction d @ rows\<rparr>, 0 + length rows)"
    and k: "distinct (map tx_key rows)"
      "set (map tx_key rows) \<inter> set (map tx_key (bybitTransaction d)) = {}"
    by blast
  have "bybitTransaction (fst (syncUserTransactions env now u d)) = bybitTransaction d @ rows"
    using True e by (simp add: syncUserTransactions_table ts_def)
  with k show ?thesis by blast
qed

lemma syncCabinetTransactions_appends:
  "\<exists>kept rows.
     bybitTransactionFromCabinet (syncCabinetTransactions env now apiBeginTime apiEndTime c d)
       = kept @ rows
     \<and> list_all2 same_but_status (bybitTransactionFromCabinet d) kept
     \<and> distinct (map ct_orderNo rows)
     \<and> set (map ct_orderNo rows) \<inter> set (map ct_orderNo (bybitTransactionFromCabinet d)) = {}"
proof (cases "cabinet_loop_runs env apiBeginTime apiEndTime c")
  case False
  then have "bybitTransactionFromCabinet (syncCabinetTransactions env now apiBeginTime apiEndTime c d)
      = bybitTransactionFromCabinet d @ []"
    by (simp add: syncCabinetTransactions_table)
  then show ?thesis
    by (intro exI [of _ "bybitTransactionFromCabinet d"] exI [of _ "[]"]) simp
next
  case True
  define cs where "cs = filter (\<lambda>tx. rt_side tx = Some 1)
                     (filter (\<lambda>tx. rt_status tx = Some 50) (fetched_transactions (ce_fetch env)))"
  define T where "T = bybitTransactionFromCabinet d"
  define T' where "T' = bybitTransactionFromCabinet
                          (store_after (save_cabinet_transactions (ce_db_error env) now (cab_id c) cs d))"
  have t: "bybitTransactionFromCabinet (syncCabinetTransactions env now apiBeginTime apiEndTime c d) = T'"
    using True by (simp add: syncCabinetTransactions_table cs_def T'_def)
  from save_cabinet_transactions_shape [of "ce_db_error env" now "cab_id c" cs d]
  obtain kept rows where e: "T' = kept @ rows" and k: "list_all2 same_but_status T kept"
    unfolding T_def T'_def by blast
  from save_cabinet_transactions_orderNos [of "ce_db_error env" now "cab_id c" cs d]
  obtain new where n: "map ct_orderNo T' = map ct_orderNo T @ new"
    and dn: "distinct new" and dj: "set new \<inter> set (map ct_orderNo T) = {}"
    unfolding T_def T'_def by blast
  have same: "map ct_orderNo kept = map ct_orderNo T"
    using k by (induction rule: list_all2_induct) (auto dest: same_but_status_fields)
  have "map ct_orderNo kept @ map ct_orderNo rows = map ct_orderNo T @ new"
    using n e by simp
  then have "map ct_orderNo rows = new" unfolding same by simp
  with dn dj have "distinct (map ct_orderNo rows)"
    and "set (map ct_orderNo rows) \<inter> set (map ct_orderNo T) = {}" by simp_all
  with e k show ?thesis unfolding t T_def by blast
qed

lemma sync_second_run_user:
  assumes "se_fetch env' = se_fetch env" and "se_db_error env = (\<lambda>opn. None)"
    and "user_loop_runs env u \<or> \<not> user_loop_runs env' u"
  shows "bybitTransaction (fst (syncUserTransactions env' now' u (fst (syncUserTransactions env now u d))))
           = bybitTransaction (fst (syncUserTransactions env now u d))"
proof (cases "user_loop_runs env' u")
  case False
  then show ?thesis by (simp add: syncUserTransactions_table)
next
  case True
  with assms(3) have r: "user_loop_runs env u" by blast
  define ts where "ts = allCompletedTransactions (fetch_strategies (se_fetch env))"
  define d1 where "d1 = fst (syncUserTransactions env now u d)"
  have "bybitTransaction d1
       = bybitTransaction (fst (save_transactions (\<lambda>opn. None) now (u_id u) ts (d, 0)))"
    using r assms(2) by (simp add: d1_def ts_def syncUserTransactions_table)
  from save_transactions_twice [OF this, of "se_db_error env'" now' 0]
  show ?thesis using True assms(1) by (simp add: syncUserTransactions_table ts_def d1_def)
qed

lemma sync_second_run_cabinet:
  assumes "ce_fetch env' = ce_fetch env" and "ce_db_error env = (\<lambda>opn. None)"
    and "cabinet_loop_runs env apiBeginTime apiEndTime c
         \<or> \<not> cabinet_loop_runs env' apiBeginTime' apiEndTime' c"
  shows "bybitTransactionFromCabinet
           (syncCabinetTransactions env' now' apiBeginTime' apiEndTime' c
              (syncCabinetTransactions env now apiBeginTime apiEndTime c d))
         = bybitTransactionFromCabinet (syncCabinetTransactions env now apiBeginTime apiEndTime c d)"
proof (cases "cabinet_loop_runs env' apiBeginTime' apiEndTime' c")
  case False
  then show ?thesis by (simp add: syncCabinetTransactions_table)
next
  case True
  with assms(3) have r: "cabinet_loop_runs env apiBeginTime apiEndTime c" by blast
  define cs where "cs = filter (\<lambda>tx. rt_side tx = Some 1)
                     (filter (\<lambda>tx. rt_status tx = Some 50) (fetched_transactions (ce_fetch env)))"
  define c1 where "c1 = syncCabinetTransactions env now apiBeginTime apiEndTime c d"
  have s50: "\<forall>tx \<in> set cs. rt_status tx = Some 50" by (simp add: cs_def)
  have "bybitTransactionFromCabinet c1
      = bybitTransactionFromCabinet (store_after
               (save_cabinet_transactions (\<lambda>opn. None) now (cab_id c) cs d))"
    using r assms(2) by (simp add: c1_def cs_def syncCabinetTransactions_table)
  from save_cabinet_transactions_twice [OF s50 this, of "ce_db_error env'" now' "cab_id c"]
  show ?thesis using True assms(1) by (simp add: syncCabinetTransactions_table cs_def c1_def)
qed

lemma sync_stores_user:
  assumes "se_db_error env = (\<lambda>opn. None)" and "user_loop_runs env u"
  shows "\<forall>t \<in> set (allCompletedTransactions (fetch_strategies (se_fetch env))).
           rt_side t = Some 1 \<and> rt_status t = Some 50 \<and> trade_orderNo t \<noteq> []
           \<and> \<not> user_date_invalid (rt_createDate t)
           \<longrightarrow> (trade_orderNo t, u_id u)
                 \<in> set (map tx_key (bybitTransaction (fst (syncUserTransactions env now u d))))"
proof (intro ballI impI)
  fix t
  assume t: "t \<in> set (allCompletedTransactions (fetch_strategies (se_fetch env)))"
    and f: "rt_side t = Some 1 \<and> rt_status t = Some 50 \<and> trade_orderNo t \<noteq> []
           \<and> \<not> user_date_invalid (rt_createDate t)"
  have "(trade_orderNo t, u_id u)
          \<in> set (map tx_key (bybitTransaction (fst (save_transactions (\<lambda>opn. None) now (u_id u)
                 (allCompletedTransactions (fetch_strategies (se_fetch env))) (d, 0)))))"
    using f by (intro save_transactions_covers [OF t]) simp_all
  then show "(trade_orderNo t, u_id u)
          \<in> set (map tx_key (bybitTransaction (fst (syncUserTransactions env now u d))))"
    using assms by (simp add: syncUserTransactions_table)
qed

lemma sync_stores_cabinet:
  assumes "ce_db_error env = (\<lambda>opn. None)"
    and "cabinet_loop_runs env apiBeginTime apiEndTime c"
    and "\<forall>tx \<in> set (fetched_transactions (ce_fetch env)).
           rt_status tx = Some 50 \<and> rt_side tx = Some 1 \<longrightarrow> \<not> cabinet_date_invalid (rt_createDate tx)"
  shows "\<forall>tx \<in> set (fetched_transactions (ce_fetch env)).
           rt_status tx = Some 50 \<and> rt_side tx = Some 1
           \<longrightarrow> settled (bybitTransactionFromCabinet
                          (syncCabinetTransactions env now apiBeginTime apiEndTime c d)) (rt_id tx)"
proof -
  define cs where "cs = filter (\<lambda>tx. rt_side tx = Some 1)
                     (filter (\<lambda>tx. rt_status tx = Some 50) (fetched_transactions (ce_fetch env)))"
  have "\<forall>tx \<in> set cs. rt_status tx = Some 50 \<and> \<not> cabinet_date_invalid (rt_createDate tx)"
    using assms(3) by (simp add: cs_def)
  from save_cabinet_transactions_covers [OF this, of now "cab_id c" d] obtain d' where
    e: "save_cabinet_transactions (\<lambda>opn. None) now (cab_id c) cs d = Inr d'"
    and a: "\<forall>tx \<in> set cs. settled (bybitTransactionFromCabinet d') (rt_id tx)"
    by blast
  have "bybitTransactionFromCabinet (syncCabinetTransactions env now apiBeginTime apiEndTime c d)
          = bybitTransactionFromCabinet d'"
    using assms(1,2) e by (simp add: syncCabinetTransactions_table cs_def store_after_def)
  with a show ?thesis by (simp add: cs_def)
qed

text \<open>
  Claim C1, as the code has it. The per-user sync looks a record up by the pair
  (orderNo, userId) and creates a row only when it finds none: the table after a run is
  the table before it, unchanged, followed by new rows whose pairs differ from one
  another and from the pairs before; so pairs that were distinct stay distinct. The
  cabinet sync looks a record up by orderNo alone: the table after a run is the rows
  before it, changed at most in status and \<open>updatedAt\<close>, followed by new rows whose
  order numbers differ from one another and from the order numbers before; so order
  numbers, and pairs (orderNo, cabinetId), that were distinct stay distinct. A second
  run over the same upstream leaves the table as the first run left it, whatever the
  store answers in it, when the store accepted every call of the first run and the
  first run reached its save loop (or the second does not). And a run that reaches its
  save loop with a store that accepts every call leaves every fetched record that
  passes the filter stored: the per-user sync when the record has an order number and
  a valid date, the cabinet sync, as a completed row, when no record that passes the
  filter has an invalid date.
\<close>

theorem sync_twice_inserts_once:
  "(\<exists>rows. bybitTransaction (fst (syncUserTransactions env now u d)) = bybitTransaction d @ rows
       \<and> distinct (map tx_key rows)
       \<and> set (map tx_key rows) \<inter> set (map tx_key (bybitTransaction d)) = {})
   \<and> (distinct (map tx_key (bybitTransaction d))
        \<longrightarrow> distinct (map tx_key (bybitTransaction (fst (syncUserTransactions env now u d)))))
   \<and> (se_fetch env' = se_fetch env \<and> se_db_error env = (\<lambda>opn. None)
        \<and> (user_loop_runs env u \<or> \<not> user_loop_runs env' u)
        \<longrightarrow> bybitTransaction
              (fst (syncUserTransactions env' now' u (fst (syncUserTransactions env now u d))))
            = bybitTransaction (fst (syncUserTransactions env now u d)))
   \<and> (\<exists>kept rows.
         bybitTransactionFromCabinet (syncCabinetTransactions cenv now apiBeginTime apiEndTime c d)
           = kept @ rows
         \<and> list_all2 same_but_status (bybitTransactionFromCabinet d) kept
         \<and> distinct (map ct_orderNo rows)
         \<and> set (map ct_orderNo rows) \<inter> set (map ct_orderNo (bybitTransactionFromCabinet d)) = {})
   \<and> (distinct (map ct_orderNo (bybitTransactionFromCabinet d))
        \<longrightarrow> distinct (map ct_orderNo
              (bybitTransactionFromCabinet (syncCabinetTransactions cenv now apiBeginTime apiEndTime c d))))
   \<and> (distinct (map cabinet_tx_key (bybitTransactionFromCabinet d))
        \<longrightarrow> distinct (map cabinet_tx_key
              (bybitTransactionFromCabinet (syncCabinetTransactions cenv now apiBeginTime apiEndTime c d))))
   \<and> (ce_fetch cenv' = ce_fetch cenv \<and> ce_db_error cenv = (\<lambda>opn. None)
        \<and> (cabinet_loop_runs cenv apiBeginTime apiEndTime c
            \<or> \<not> cabinet_loop_runs cenv' apiBeginTime' apiEndTime' c)
        \<longrightarrow> bybitTransactionFromCabinet
              (syncCabinetTransactions cenv' now' apiBeginTime' apiEndTime' c
                 (syncCabinetTransactions cenv now apiBeginTime apiEndTime c d))
            = bybitTransactionFromCabinet (syncCabinetTransactions cenv now apiBeginTime apiEndTime c d))
   \<and> (se_db_error env = (\<lambda>opn. None) \<and> user_loop_runs env u
        \<longrightarrow> (\<forall>t \<in> set (allCompletedTransactions (fetch_strategies (se_fetch env))).
               rt_side t = Some 1 \<and> rt_status t = Some 50 \<and> trade_orderNo t \<noteq> []
               \<and> \<not> user_date_invalid (rt_createDate t)
               \<longrightarrow> (trade_orderNo t, u_id u)
                     \<in> set (map tx_key (bybitTransaction (fst (syncUserTransactions env now u d))))))
   \<and> (ce_db_error cenv = (\<lambda>opn. None) \<and> cabinet_loop_runs cenv apiBeginTime apiEndTime c
        \<and> (\<forall>tx \<in> set (fetched_transactions (ce_fetch cenv)).
              rt_status tx = Some 50 \<and> rt_side tx = Some 1
              \<longrightarrow> \<not> cabinet_date_invalid (rt_createDate tx))
        \<longrightarrow> (\<forall>tx \<in> set (fetched_transactions (ce_fetch cenv)).
               rt_status tx = Some 50 \<and> rt_side tx = Some 1
               \<longrightarrow> settled (bybitTransactionFromCabinet
                              (syncCabinetTransactions cenv now apiBeginTime apiEndTime c d))
                     (rt_id tx)))"
proof -
  define d1 where "d1 = fst (syncUserTransactions env now u d)"
  define c1 where "c1 = syncCabinetTransactions cenv now apiBeginTime apiEndTime c d"
  have u1: "\<exists>rows. bybitTransaction d1 = bybitTransaction d @ rows
       \<and> distinct (map tx_key rows)
       \<and> set (map tx_key rows) \<inter> set (map tx_key (bybitTransaction d)) = {}"
    unfolding d1_def by (rule syncUserTransactions_appends)
  have u2: "distinct (map tx_key (bybitTransaction d)) \<longrightarrow> distinct (map tx_key (bybitTransaction d1))"
  proof
    assume dd: "distinct (map tx_key (bybitTransaction d))"
    from u1 obtain rows where e: "bybitTransaction d1 = bybitTransaction d @ rows"
      and dr: "distinct (map tx_key rows)"
      and dj: "set (map tx_key rows) \<inter> set (map tx_key (bybitTransaction d)) = {}"
      by blast
    have "distinct (map tx_key (bybitTransaction d) @ map tx_key rows)"
      using dd dr dj by (simp only: distinct_append Int_commute)
    then show "distinct (map tx_key (bybitTransaction d1))" unfolding e by simp
  qed
  have u3: "se_fetch env' = se_fetch env \<and> se_db_error env = (\<lambda>opn. None)
        \<and> (user_loop_runs env u \<or> \<not> user_loop_runs env' u)
        \<longrightarrow> bybitTransaction (fst (syncUserTransactions env' now' u d1)) = bybitTransaction d1"
    unfolding d1_def using sync_second_run_user [of env' env u now' now d] by blast
  have k1: "\<exists>kept rows. bybitTransactionFromCabinet c1 = kept @ rows
         \<and> list_all2 same_but_status (bybitTransactionFromCabinet d) kept
         \<and> distinct (map ct_orderNo rows)
         \<and> set (map ct_orderNo rows) \<inter> set (map ct_orderNo (bybitTransactionFromCabinet d)) = {}"
    unfolding c1_def by (rule syncCabinetTransactions_appends)
  have k2: "distinct (map ct_orderNo (bybitTransactionFromCabinet d))
        \<longrightarrow> distinct (map ct_orderNo (bybitTransactionFromCabinet c1))"
  proof
    assume dd: "distinct (map ct_orderNo (bybitTransactionFromCabinet d))"
    from k1 obtain kept rows where e: "bybitTransactionFromCabinet c1 = kept @ rows"
      and k: "list_all2 same_but_status (bybitTransactionFromCabinet d) kept"
      and dr: "distinct (map ct_orderNo rows)"
      and dj: "set (map ct_orderNo rows) \<inter> set (map ct_orderNo (bybitTransactionFromCabinet d)) = {}"
      by blast
    have same: "map ct_orderNo kept = map ct_orderNo (bybitTransactionFromCabinet d)"
      using k by (induction rule: list_all2_induct) (auto dest: same_but_status_fields)
    have "distinct (map ct_orderNo (bybitTransactionFromCabinet d) @ map ct_orderNo rows)"
      using dd dr dj by (simp only: distinct_append Int_commute)
    then show "distinct (map ct_orderNo (bybitTransactionFromCabinet c1))"
      unfolding e using same by simp
  qed
  have k3: "distinct (map cabinet_tx_key (bybitTransactionFromCabinet d))
        \<longrightarrow> distinct (map cabinet_tx_key (bybitTransactionFromCabinet c1))"
    unfolding c1_def syncCabinetTransactions_table
    using save_cabinet_transactions_distinct [of d "ce_db_error cenv" now "cab_id c"] by simp
  have k4: "ce_fetch cenv' = ce_fetch cenv \<and> ce_db_error cenv = (\<lambda>opn. None)
        \<and> (cabinet_loop_runs cenv apiBeginTime apiEndTime c
            \<or> \<not> cabinet_loop_runs cenv' apiBeginTime' apiEndTime' c)
        \<longrightarrow> bybitTransactionFromCabinet
              (syncCabinetTransactions cenv' now' apiBeginTime' apiEndTime' c c1)
            = bybitTransactionFromCabinet c1"
    unfolding c1_def
    using sync_second_run_cabinet [of cenv' cenv apiBeginTime apiEndTime c apiBeginTime' apiEndTime' now' now d]
    by blast
  have u5: "se_db_error env = (\<lambda>opn. None) \<and> user_loop_runs env u
        \<longrightarrow> (\<forall>t \<in> set (allCompletedTransactions (fetch_strategies (se_fetch env))).
               rt_side t = Some 1 \<and> rt_status t = Some 50 \<and> trade_orderNo t \<noteq> []
               \<and> \<not> user_date_invalid (rt_createDate t)
               \<longrightarrow> (trade_orderNo t, u_id u) \<in> set (map tx_key (bybitTransaction d1)))"
    unfolding d1_def using sync_stores_user [of env u now d] by blast
  have k5: "ce_db_error cenv = (\<lambda>opn. None) \<and> cabinet_loop_runs cenv apiBeginTime apiEndTime c
        \<and> (\<forall>tx \<in> set (fetched_transactions (ce_fetch cenv)).
              rt_status tx = Some 50 \<and> rt_side tx = Some 1
              \<longrightarrow> \<not> cabinet_date_invalid (rt_createDate tx))
        \<longrightarrow> (\<forall>tx \<in> set (fetched_transactions (ce_fetch cenv)).
               rt_status tx = Some 50 \<and> rt_side tx = Some 1
               \<longrightarrow> settled (bybitTransactionFromCabinet c1) (rt_id tx))"
    unfolding c1_def using sync_stores_cabinet [of cenv apiBeginTime apiEndTime c now d] by blast
  show ?thesis
    using u1 u2 u3 k1 k2 k3 k4 u5 k5 unfolding d1_def c1_def by (intro conjI)
qed

text \<open>The rows a sync appends, in each of the two tables.\<close>

lemma syncUserTransactions_new_rows:
  "\<forall>r \<in> set (drop (length (bybitTransaction d)) (bybitTransaction (fst (syncUserTransactions env now u d)))).
     \<exists>t i. rt_side t = Some 1 \<and> rt_status t = Some 50 \<and> trade_orderNo t \<noteq> []
           \<and> r = user_row t (trade_orderNo t) (u_id u) now i"
proof (cases "user_loop_runs env u")
  case False
  then show ?thesis by (simp add: syncUserTransactions_table)
next
  case True
  define ts where "ts = allCompletedTransactions (fetch_strategies (se_fetch env))"
  from save_transactions_shape [of "se_db_error env" now "u_id u" ts d 0] obtain rows where
    e: "save_transactions (se_db_error env) now (u_id u) ts (d, 0)
            = (d\<lparr>bybitTransaction := bybitTransaction d @ rows\<rparr>, 0 + length rows)"
    and p: "\<forall>r \<in> set rows. \<exists>t \<in> set ts. \<exists>i.
             rt_side t = Some 1 \<and> rt_status t = Some 50 \<and> trade_orderNo t \<noteq> []
             \<and> \<not> user_date_invalid (rt_createDate t)
             \<and> r = user_row t (trade_orderNo t) (u_id u) now i"
    by blast
  have eq: "drop (length (bybitTransaction d)) (bybitTransaction (fst (syncUserTransactions env now u d))) = rows"
    using True e by (simp add: syncUserTransactions_table ts_def)
  show ?thesis unfolding eq using p by blast
qed

lemma syncCabinetTransactions_new_rows:
  "\<forall>r \<in> set (drop (length (bybitTransactionFromCabinet d))
               (bybitTransactionFromCabinet (syncCabinetTransactions env now apiBeginTime apiEndTime c d))).
     \<exists>tx i. rt_side tx = Some 1 \<and> rt_status tx = Some 50
       \<and> same_but_status ((cabinet_row tx (cab_id c) now)\<lparr>ct_id := i\<rparr>) r"
proof (cases "cabinet_loop_runs env apiBeginTime apiEndTime c")
  case False
  then show ?thesis by (simp add: syncCabinetTransactions_table)
next
  case True
  define cs where "cs = filter (\<lambda>tx. rt_side tx = Some 1)
                     (filter (\<lambda>tx. rt_status tx = Some 50) (fetched_transactions (ce_fetch env)))"
  from save_cabinet_transactions_shape [of "ce_db_error env" now "cab_id c" cs d]
  obtain kept rows where
    e: "bybitTransactionFromCabinet (store_after
          (save_cabinet_transactions (ce_db_error env) now (cab_id c) cs d)) = kept @ rows"
    and k: "list_all2 same_but_status (bybitTransactionFromCabinet d) kept"
    and p: "\<forall>r \<in> set rows. \<exists>tx \<in> set cs. \<exists>i.
          \<not> cabinet_date_invalid (rt_createDate tx)
          \<and> same_but_status ((cabinet_row tx (cab_id c) now)\<lparr>ct_id := i\<rparr>) r"
    by blast
  have "length kept = length (bybitTransactionFromCabinet d)"
    using k by (simp add: list_all2_lengthD)
  then have eq: "drop (length (bybitTransactionFromCabinet d))
               (bybitTransactionFromCabinet (syncCabinetTransactions env now apiBeginTime apiEndTime c d))
             = rows"
    using True e by (simp add: syncCabinetTransactions_table cs_def)
  have f: "\<forall>tx \<in> set cs. rt_side tx = Some 1 \<and> rt_status tx = Some 50"
    by (simp add: cs_def)
  show ?thesis unfolding eq using p f by blast
qed

lemmas sample_defs =
  sample_env_def sample_cabinet_env_def sample_db_def sample_user_def sample_cabinet_def
  sample_trade_def sample_buy_def page_of_def processTransactions_def js_def

lemmas user_sync_defs =
  syncUserTransactions_def syncUser_body_def fetch_strategies_def fetch_pages.simps Let_def
  save_transactions_def save_transaction_def updateUserSyncStatus_def findFirst_transaction_def
  trade_orderNo_def user_row_def fresh_id_def date_out_of_range_def

lemmas cabinet_sync_defs =
  syncCabinetTransactions_def syncCabinet_body_def Let_def save_cabinet_transaction_def
  updateCabinetSyncStatus_def findUnique_cabinet_transaction_def
  transformCabinetTransactionToDbFormat_def cabinet_row_def fresh_id_def minTimestamp_def
  maxTimestamp_def cabinet_status_def date_out_of_range_def

text \<open>The sample sale, fetched twice in one page, is stored once by the per-user sync.\<close>

lemma sample_user_sync_rows:
  "bybitTransaction (fst (syncUserTransactions (sample_env [sample_trade, sample_trade])
       1700000005000 sample_user sample_db))
     = [user_row sample_trade (js ''1001'') 1 1700000005000 1]"
  by (simp add: sample_defs user_sync_defs)

lemma sample_cabinet_sync_rows:
  "bybitTransactionFromCabinet (syncCabinetTransactions (sample_cabinet_env [sample_trade])
       1700000005000 1699920000000 1700265600000 sample_cabinet sample_db)
     = [(cabinet_row sample_trade 7 1700000005000)\<lparr>ct_id := 1\<rparr>]"
  by (simp add: sample_defs cabinet_sync_defs)

lemma sample_user_loop_runs:
  "user_loop_runs (sample_env [sample_trade, sample_trade]) sample_user"
  by (simp add: user_loop_runs_def sample_defs fetch_strategies_def fetch_pages.simps Let_def)

theorem sync_twice_inserts_once_witness:
  "distinct (map tx_key (bybitTransaction sample_db))
   \<and> distinct (map tx_key (bybitTransaction (fst (syncUserTransactions
         (sample_env [sample_trade, sample_trade]) 1700000005000 sample_user sample_db))))
   \<and> length (bybitTransaction (fst (syncUserTransactions
         (sample_env [sample_trade, sample_trade]) 1700000005000 sample_user sample_db))) = 1
   \<and> se_db_error (sample_env [sample_trade, sample_trade]) = (\<lambda>opn. None)
   \<and> user_loop_runs (sample_env [sample_trade, sample_trade]) sample_user
   \<and> bybitTransaction (fst (syncUserTransactions (sample_env [sample_trade, sample_trade]) 1700000305000
         sample_user
         (fst (syncUserTransactions (sample_env [sample_trade, sample_trade]) 1700000005000
                 sample_user sample_db))))
       = bybitTransaction (fst (syncUserTransactions (sample_env [sample_trade, sample_trade])
           1700000005000 sample_user sample_db))"
proof -
  have h: "distinct (map tx_key (bybitTransaction sample_db))" by (simp add: sample_db_def)
  have n: "length (bybitTransaction (fst (syncUserTransactions
         (sample_env [sample_trade, sample_trade]) 1700000005000 sample_user sample_db))) = 1"
    by (simp add: sample_user_sync_rows)
  have a: "se_db_error (sample_env [sample_trade, sample_trade]) = (\<lambda>opn. None)"
    by (simp add: sample_env_def)
  note r = sample_user_loop_runs
  from sync_twice_inserts_once [where env = "sample_env [sample_trade, sample_trade]"
         and env' = "sample_env [sample_trade, sample_trade]" and u = sample_user
         and now = 1700000005000 and now' = 1700000305000 and d = sample_db] h n a r
  show ?thesis by blast
qed

text \<open>
  Claim C1 as stated fails in two ways. The second run does insert a row when the store
  rejected its creation in the first run: with the sample sale upstream both times, the
  first run leaves the table empty and the second run stores the row. And the cabinet
  sync does not look up by (orderNo, cabinetId): when the table holds a pending row of
  cabinet 8 with the order number of the sample sale, the sync of cabinet 7 stores no
  row for cabinet 7 and sets the row of cabinet 8 to completed.
\<close>

theorem sync_twice_counterexample:
  "bybitTransaction (fst (syncUserTransactions (sample_env_rejecting [sample_trade])
        1700000005000 sample_user sample_db)) = []
   \<and> bybitTransaction (fst (syncUserTransactions (sample_env [sample_trade]) 1700000305000
        sample_user
        (fst (syncUserTransactions (sample_env_rejecting [sample_trade])
                1700000005000 sample_user sample_db))))
       = [user_row sample_trade (js ''1001'') 1 1700000305000 1]
   \<and> se_fetch (sample_env_rejecting [sample_trade]) = se_fetch (sample_env [sample_trade])
   \<and> bybitTransactionFromCabinet sample_foreign_db = [sample_foreign_row]
   \<and> ct_orderNo sample_foreign_row = rt_id sample_trade
   \<and> ct_cabinetId sample_foreign_row = 8
   \<and> ct_status sample_foreign_row = js ''PENDING''
   \<and> cab_id sample_cabinet = 7
   \<and> bybitTransactionFromCabinet (syncCabinetTransactions (sample_cabinet_env [sample_trade])
        1700000005000 1699920000000 1700265600000 sample_cabinet sample_foreign_db)
       = [sample_foreign_row\<lparr>ct_status := js ''COMPLETED'', ct_updatedAt := 1700000005000\<rparr>]"
  by (simp add: sample_defs sample_env_rejecting_def sample_foreign_db_def sample_foreign_row_def
        user_sync_defs cabinet_sync_defs)

section \<open>What is stored\<close>

text \<open>
  Claim C5, as the code has it. Every row the per-user sync stores has, as total price,
  the product of its amount and its unit price, which are what is parsed from the
  \<open>amount\<close> and \<open>price\<close> fields of the record; 1.5 and 30000 give 45000. Every row
  the cabinet sync stores has, as total price, what is parsed from the upstream
  \<open>amount\<close> field, as amount what is parsed from \<open>notifyTokenQuantity\<close>, and as unit
  price what is parsed from \<open>price\<close>; no product is computed there.
\<close>

theorem stored_total_price:
  "(\<forall>r \<in> set (drop (length (bybitTransaction d))
                (bybitTransaction (fst (syncUserTransactions env now u d)))).
      bt_totalPrice r = jmul (bt_amount r) (bt_unitPrice r)
      \<and> bt_amount r = parseFloat_or0 (rt_amount (bt_originalData r))
      \<and> bt_unitPrice r = parseFloat_or0 (rt_price (bt_originalData r)))
   \<and> (\<forall>r \<in> set (drop (length (bybitTransactionFromCabinet d))
               (bybitTransactionFromCabinet (syncCabinetTransactions cenv now apiBeginTime apiEndTime c d))).
      ct_totalPrice r = parseFloat_or0 (rt_amount (ct_originalData r))
      \<and> ct_amount r = parseFloat_or0 (rt_notifyTokenQuantity (ct_originalData r))
      \<and> ct_unitPrice r = parseFloat_or0 (rt_price (ct_originalData r)))
   \<and> jmul (Num 1.5) (Num 30000) = Num 45000"
proof (intro conjI ballI)
  fix r
  assume "r \<in> set (drop (length (bybitTransaction d))
                (bybitTransaction (fst (syncUserTransactions env now u d))))"
  with syncUserTransactions_new_rows [of d env now u] obtain t i where
    r: "r = user_row t (trade_orderNo t) (u_id u) now i" by blast
  show "bt_totalPrice r = jmul (bt_amount r) (bt_unitPrice r)"
    and "bt_amount r = parseFloat_or0 (rt_amount (bt_originalData r))"
    and "bt_unitPrice r = parseFloat_or0 (rt_price (bt_originalData r))"
    unfolding r by (simp_all add: user_row_def Let_def)
next
  fix r
  assume "r \<in> set (drop (length (bybitTransactionFromCabinet d))
               (bybitTransactionFromCabinet (syncCabinetTransactions cenv now apiBeginTime apiEndTime c d)))"
  with syncCabinetTransactions_new_rows [of d cenv now apiBeginTime apiEndTime c] obtain tx i where
    "same_but_status ((cabinet_row tx (cab_id c) now)\<lparr>ct_id := i\<rparr>) r"
    by blast
  from same_but_status_fields [OF this]
  show "ct_totalPrice r = parseFloat_or0 (rt_amount (ct_originalData r))"
    and "ct_amount r = parseFloat_or0 (rt_notifyTokenQuantity (ct_originalData r))"
    and "ct_unitPrice r = parseFloat_or0 (rt_price (ct_originalData r))"
    by (simp_all add: cabinet_row_def)
next
  show "jmul (Num 1.5) (Num 30000) = Num 45000" by (rule jmul_sample)
qed

theorem stored_total_price_witness:
  "user_row sample_trade (js ''1001'') 1 1700000005000 1
     \<in> set (drop (length (bybitTransaction sample_db))
          (bybitTransaction (fst (syncUserTransactions (sample_env [sample_trade, sample_trade])
             1700000005000 sample_user sample_db))))
   \<and> bt_totalPrice (user_row sample_trade (js ''1001'') 1 1700000005000 1)
       = jmul (bt_amount (user_row sample_trade (js ''1001'') 1 1700000005000 1))
              (bt_unitPrice (user_row sample_trade (js ''1001'') 1 1700000005000 1))
   \<and> bt_totalPrice (user_row sample_trade (js ''1001'') 1 1700000005000 1) = Num 45000"
proof -
  have m: "user_row sample_trade (js ''1001'') 1 1700000005000 1
     \<in> set (drop (length (bybitTransaction sample_db))
          (bybitTransaction (fst (syncUserTransactions (sample_env [sample_trade, sample_trade])
             1700000005000 sample_user sample_db))))"
    by (simp add: sample_user_sync_rows) (simp add: sample_db_def)
  have "bt_totalPrice (user_row sample_trade (js ''1001'') 1 1700000005000 1)
          = jmul (Num 1.5) (Num 30000)"
    by (simp add: user_row_def sample_trade_def Let_def)
  then have v: "bt_totalPrice (user_row sample_trade (js ''1001'') 1 1700000005000 1) = Num 45000"
    by (simp only: jmul_sample)
  from stored_total_price [where d = sample_db and env = "sample_env [sample_trade, sample_trade]"
         and now = 1700000005000 and u = sample_user] m
  have "bt_totalPrice (user_row sample_trade (js ''1001'') 1 1700000005000 1)
       = jmul (bt_amount (user_row sample_trade (js ''1001'') 1 1700000005000 1))
              (bt_unitPrice (user_row sample_trade (js ''1001'') 1 1700000005000 1))"
    by blast
  with m v show ?thesis by blast
qed

text \<open>
  Claim C5 as stated fails on the cabinet path: for the sample sale the stored amount is
  2 and the stored unit price 30000, and the stored total price is 1.5, the upstream
  \<open>amount\<close> field, not their product 60000.
\<close>

theorem cabinet_total_price_counterexample:
  "map (\<lambda>r. (ct_amount r, ct_unitPrice r, ct_totalPrice r))
     (bybitTransactionFromCabinet (syncCabinetTransactions (sample_cabinet_env [sample_trade])
        1700000005000 1699920000000 1700265600000 sample_cabinet sample_db))
     = [(Num 2, Num 30000, Num 1.5)]
   \<and> jmul (Num 2) (Num 30000) \<noteq> Num 1.5"
proof -
  have "map (\<lambda>r. (ct_amount r, ct_unitPrice r, ct_totalPrice r))
     (bybitTransactionFromCabinet (syncCabinetTransactions (sample_cabinet_env [sample_trade])
        1700000005000 1699920000000 1700265600000 sample_cabinet sample_db))
     = [(Num 2, Num 30000, Num 1.5)]"
    by (simp add: sample_cabinet_sync_rows) (simp add: cabinet_row_def sample_trade_def)
  moreover have "jmul (Num 2) (Num 30000) \<noteq> Num 1.5"
    by (simp only: jmul_sample) simp
  ultimately show ?thesis by blast
qed

text \<open>
  Claim C8, as the code has it. Every row the per-user sync stores comes from a record
  with side 1 and status 50, and is stored as a completed sale. In the cabinet
  normalizer status codes 50 and 30 both give "COMPLETED" and a record is tagged "BUY"
  when its side is 0 and "SELL" otherwise; but the cabinet sync stores only records
  with side 1, so every row it stores is tagged "SELL".
\<close>

theorem stored_records_filter:
  "(\<forall>r \<in> set (drop (length (bybitTransaction d))
                (bybitTransaction (fst (syncUserTransactions env now u d)))).
      rt_side (bt_originalData r) = Some 1 \<and> rt_status (bt_originalData r) = Some 50
      \<and> bt_type r = js ''Sell'' \<and> bt_status r = js ''Completed'')
   \<and> (\<forall>r \<in> set (drop (length (bybitTransactionFromCabinet d))
               (bybitTransactionFromCabinet (syncCabinetTransactions cenv now apiBeginTime apiEndTime c d))).
      rt_side (ct_originalData r) = Some 1 \<and> ct_type r = js ''SELL'')
   \<and> cabinet_status (Some 50) = js ''COMPLETED''
   \<and> cabinet_status (Some 30) = js ''COMPLETED''
   \<and> transformCabinetTransactionToDbFormat t cid now
       = (if cabinet_date_invalid (rt_createDate t) then Inl invalid_time_value
          else Inr (cabinet_row t cid now))
   \<and> ct_type (cabinet_row t cid now)
       = (if rt_side t = Some 0 then js ''BUY'' else js ''SELL'')"
proof (intro conjI ballI)
  fix r
  assume "r \<in> set (drop (length (bybitTransaction d))
                (bybitTransaction (fst (syncUserTransactions env now u d))))"
  with syncUserTransactions_new_rows [of d env now u] obtain t i where
    t: "rt_side t = Some 1" "rt_status t = Some 50"
    and r: "r = user_row t (trade_orderNo t) (u_id u) now i" by blast
  show "rt_side (bt_originalData r) = Some 1" and "rt_status (bt_originalData r) = Some 50"
    and "bt_type r = js ''Sell''" and "bt_status r = js ''Completed''"
    unfolding r using t by (simp_all add: user_row_def Let_def)
next
  fix r
  assume "r \<in> set (drop (length (bybitTransactionFromCabinet d))
               (bybitTransactionFromCabinet (syncCabinetTransactions cenv now apiBeginTime apiEndTime c d)))"
  with syncCabinetTransactions_new_rows [of d cenv now apiBeginTime apiEndTime c] obtain tx i where
    t: "rt_side tx = Some 1"
    and s: "same_but_status ((cabinet_row tx (cab_id c) now)\<lparr>ct_id := i\<rparr>) r"
    by blast
  from same_but_status_fields [OF s] t
  show "rt_side (ct_originalData r) = Some 1" and "ct_type r = js ''SELL''"
    by (simp_all add: cabinet_row_def)
next
  show "cabinet_status (Some 50) = js ''COMPLETED''" and "cabinet_status (Some 30) = js ''COMPLETED''"
    by (simp_all add: cabinet_status_def)
next
  show "transformCabinetTransactionToDbFormat t cid now
       = (if cabinet_date_invalid (rt_createDate t) then Inl invalid_time_value
          else Inr (cabinet_row t cid now))"
    by (simp add: transformCabinetTransactionToDbFormat_def)
next
  show "ct_type (cabinet_row t cid now)
       = (if rt_side t = Some 0 then js ''BUY'' else js ''SELL'')"
    by (simp add: cabinet_row_def)
qed

theorem stored_records_filter_witness:
  "(cabinet_row sample_trade 7 1700000005000)\<lparr>ct_id := 1\<rparr>
     \<in> set (drop (length (bybitTransactionFromCabinet sample_db))
          (bybitTransactionFromCabinet (syncCabinetTransactions (sample_cabinet_env [sample_trade])
             1700000005000 1699920000000 1700265600000 sample_cabinet sample_db)))
   \<and> rt_side (ct_originalData ((cabinet_row sample_trade 7 1700000005000)\<lparr>ct_id := 1\<rparr>))
       = Some 1
   \<and> ct_type ((cabinet_row sample_trade 7 1700000005000)\<lparr>ct_id := 1\<rparr>)
       = js ''SELL''"
proof -
  have m: "(cabinet_row sample_trade 7 1700000005000)\<lparr>ct_id := 1\<rparr>
     \<in> set (drop (length (bybitTransactionFromCabinet sample_db))
          (bybitTransactionFromCabinet (syncCabinetTransactions (sample_cabinet_env [sample_trade])
             1700000005000 1699920000000 1700265600000 sample_cabinet sample_db)))"
    by (simp add: sample_cabinet_sync_rows) (simp add: sample_db_def)
  from stored_records_filter [where d = sample_db and cenv = "sample_cabinet_env [sample_trade]"
         and now = 1700000005000 and apiBeginTime = 1699920000000
         and apiEndTime = 1700265600000 and c = sample_cabinet] m
  show ?thesis by blast
qed

text \<open>
  Claim C8 as stated fails in the cabinet sync for the purchase side: a fetched purchase
  of status 50 is not stored.
\<close>

theorem cabinet_buy_dropped_counterexample:
  "rt_side sample_buy = Some 0 \<and> rt_status sample_buy = Some 50
   \<and> bybitTransactionFromCabinet (syncCabinetTransactions (sample_cabinet_env [sample_buy])
        1700000005000 1699920000000 1700265600000 sample_cabinet sample_db) = []
   \<and> status_writes (syncCabinetTransactions (sample_cabinet_env [sample_buy])
        1700000005000 1699920000000 1700265600000 sample_cabinet sample_db)
       = [(CabinetAccount, 7, cabinet_saved 1, 1700000005000)]"
  by (simp add: sample_defs cabinet_sync_defs)

section \<open>Properties of the phone extractor\<close>









lemmas phone_eval =
  extractPhoneNumbers_def scan_message_def js_def phonePatterns_def scan_pattern_def is_digit_def
  is_space_def add_match_def phone_of_match_def capture_def startsWith_def set_add_def
  sample_call_message_def sample_plus7_message_def

lemma sample_call_numbers:
  "extractPhoneNumbers [sample_call_message] = [js ''+79991234567'']"
  by (simp add: phone_eval)










lemma first_occurrences_set [simp]: "set (first_occurrences xs) = set xs"
  and first_occurrences_distinct [simp]: "distinct (first_occurrences xs)"
  by (simp_all add: first_occurrences_def)




section \<open>Properties of the enrichment passes\<close>

lemma enrich_cabinet_marked:
  assumes "List.find (\<lambda>c. cab_id c = ct_cabinetId tx) (bybitCabinet d) = Some c"
    and "truthy (cab_bybitApiToken c)" and "truthy (cab_bybitApiSecret c)"
    and "ct_id tx \<in> set (map ct_id (bybitTransactionFromCabinet d))"
    and "dbe (UpdateCabinetTransaction (ct_id tx)) = None"
  shows "enrich_cabinet_transaction net dbe now tx d =
     Inr (d\<lparr>bybitTransactionFromCabinet :=
            map (\<lambda>r. if ct_id r = ct_id tx
                      then (if getChatMessages net now (ct_orderNo tx) None (cab_bybitApiSecret c) \<noteq> []
                            then r\<lparr>ct_extractedPhones :=
                                     extractPhoneNumbers
                                       (getChatMessages net now (ct_orderNo tx) None (cab_bybitApiSecret c)),
                                   ct_processed := True, ct_updatedAt := now\<rparr>
                            else r\<lparr>ct_processed := True, ct_updatedAt := now\<rparr>)
                      else r) (bybitTransactionFromCabinet d)\<rparr>)"
  using assms
  by (simp add: enrich_cabinet_transaction_def enrich_cabinet_try_def update_cabinet_transaction_def
        Let_def)

lemma enrich_cabinet_error:
  assumes "List.find (\<lambda>c. cab_id c = ct_cabinetId tx) (bybitCabinet d) = Some c"
    and "truthy (cab_bybitApiToken c)" and "truthy (cab_bybitApiSecret c)"
    and "ct_id tx \<in> set (map ct_id (bybitTransactionFromCabinet d))"
    and "dbe (UpdateCabinetTransaction (ct_id tx)) = Some m"
    and "dbe (RecordCabinetTransactionError (ct_id tx)) = None"
  shows "enrich_cabinet_transaction net dbe now tx d =
     Inr (d\<lparr>bybitTransactionFromCabinet :=
            map (\<lambda>r. if ct_id r = ct_id tx
                      then r\<lparr>ct_lastAttemptError := Some m, ct_updatedAt := now\<rparr>
                      else r) (bybitTransactionFromCabinet d)\<rparr>)"
  using assms
  by (simp add: enrich_cabinet_transaction_def enrich_cabinet_try_def update_cabinet_transaction_def
        Let_def)

lemma enrich_transaction_marked:
  assumes "List.find (\<lambda>v. u_id v = bt_userId tx) (user_table d) = Some u"
    and "truthy (bybitApiKey u)" and "truthy (bybitApiSecret u)"
    and "bt_id tx \<in> set (map bt_id (bybitTransaction d))"
    and "dbe (CreateOrderInfo (bt_orderNo tx) (bt_userId tx)) = None"
    and "dbe (UpdateTransaction (bt_id tx)) = None"
  shows "enrich_transaction net dbe now tx d =
     Inr (d\<lparr>bybitOrderInfo :=
              bybitOrderInfo d
                @ [\<lparr>oi_orderNo = bt_orderNo tx, oi_userId = bt_userId tx,
                    oi_phoneNumbers =
                      (if getChatMessages net now (Some (bt_orderNo tx)) None (bybitApiSecret u) \<noteq> []
                       then extractPhoneNumbers
                              (getChatMessages net now (Some (bt_orderNo tx)) None (bybitApiSecret u))
                       else []),
                    oi_bybitTransactionId = None\<rparr>],
            bybitTransaction :=
              map (\<lambda>r. if bt_id r = bt_id tx then r\<lparr>bt_processed := True, bt_updatedAt := now\<rparr> else r)
                (bybitTransaction d)\<rparr>)"
  using assms
  by (simp add: enrich_transaction_def enrich_transaction_try_def update_transaction_def
        create_order_info_def Let_def)

lemma enrich_transaction_error:
  assumes "List.find (\<lambda>v. u_id v = bt_userId tx) (user_table d) = Some u"
    and "truthy (bybitApiKey u)" and "truthy (bybitApiSecret u)"
    and "bt_id tx \<in> set (map bt_id (bybitTransaction d))"
    and "dbe (CreateOrderInfo (bt_orderNo tx) (bt_userId tx)) = Some m"
    and "dbe (RecordTransactionError (bt_id tx)) = None"
  shows "enrich_transaction net dbe now tx d =
     Inr (d\<lparr>bybitTransaction :=
              map (\<lambda>r. if bt_id r = bt_id tx
                        then r\<lparr>bt_lastAttemptError := Some m, bt_updatedAt := now\<rparr> else r)
                (bybitTransaction d)\<rparr>)"
  using assms
  by (simp add: enrich_transaction_def enrich_transaction_try_def update_transaction_def
        create_order_info_def Let_def)

lemma enrich_cabinet_error_lost:
  assumes "List.find (\<lambda>c. cab_id c = ct_cabinetId tx) (bybitCabinet d) = Some c"
    and "truthy (cab_bybitApiToken c)" and "truthy (cab_bybitApiSecret c)"
    and "ct_id tx \<in> set (map ct_id (bybitTransactionFromCabinet d))"
    and "dbe (UpdateCabinetTransaction (ct_id tx)) = Some m"
    and "dbe (RecordCabinetTransactionError (ct_id tx)) = Some m'"
  shows "enrich_cabinet_transaction net dbe now tx d = Inl m'"
  using assms
  by (simp add: enrich_cabinet_transaction_def enrich_cabinet_try_def update_cabinet_transaction_def
        Let_def)

lemma enrich_transaction_marking_error:
  assumes "List.find (\<lambda>v. u_id v = bt_userId tx) (user_table d) = Some u"
    and "truthy (bybitApiKey u)" and "truthy (bybitApiSecret u)"
    and "bt_id tx \<in> set (map bt_id (bybitTransaction d))"
    and "dbe (CreateOrderInfo (bt_orderNo tx) (bt_userId tx)) = None"
    and "dbe (UpdateTransaction (bt_id tx)) = Some m"
    and "dbe (RecordTransactionError (bt_id tx)) = None"
  shows "enrich_transaction net dbe now tx d =
     Inr (d\<lparr>bybitOrderInfo :=
              bybitOrderInfo d
                @ [\<lparr>oi_orderNo = bt_orderNo tx, oi_userId = bt_userId tx,
                    oi_phoneNumbers =
                      (if getChatMessages net now (Some (bt_orderNo tx)) None (bybitApiSecret u) \<noteq> []
                       then extractPhoneNumbers
                              (getChatMessages net now (Some (bt_orderNo tx)) None (bybitApiSecret u))
                       else []),
                    oi_bybitTransactionId = None\<rparr>],
            bybitTransaction :=
              map (\<lambda>r. if bt_id r = bt_id tx
                        then r\<lparr>bt_lastAttemptError := Some m, bt_updatedAt := now\<rparr> else r)
                (bybitTransaction d)\<rparr>)"
  using assms
  by (simp add: enrich_transaction_def enrich_transaction_try_def update_transaction_def
        create_order_info_def Let_def)

lemma enrich_transaction_error_lost:
  assumes "List.find (\<lambda>v. u_id v = bt_userId tx) (user_table d) = Some u"
    and "truthy (bybitApiKey u)" and "truthy (bybitApiSecret u)"
    and "bt_id tx \<in> set (map bt_id (bybitTransaction d))"
    and "dbe (RecordTransactionError (bt_id tx)) = Some m'"
  shows "dbe (CreateOrderInfo (bt_orderNo tx) (bt_userId tx)) = Some m
           \<Longrightarrow> enrich_transaction net dbe now tx d = Inl (m', d)"
    and "dbe (CreateOrderInfo (bt_orderNo tx) (bt_userId tx)) = None
           \<Longrightarrow> dbe (UpdateTransaction (bt_id tx)) = Some m
           \<Longrightarrow> enrich_transaction net dbe now tx d =
                 Inl (m', d\<lparr>bybitOrderInfo :=
                       bybitOrderInfo d
                         @ [\<lparr>oi_orderNo = bt_orderNo tx, oi_userId = bt_userId tx,
                             oi_phoneNumbers =
                               (if getChatMessages net now (Some (bt_orderNo tx)) None (bybitApiSecret u) \<noteq> []
                                then extractPhoneNumbers
                                       (getChatMessages net now (Some (bt_orderNo tx)) None
                                          (bybitApiSecret u))
                                else []),
                             oi_bybitTransactionId = None\<rparr>]\<rparr>)"
  using assms
  by (simp_all add: enrich_transaction_def enrich_transaction_try_def update_transaction_def
        create_order_info_def Let_def)

text \<open>The turns that do not come to the chat: no account, or no credentials.\<close>

lemma enrich_cabinet_no_cabinet:
  assumes "List.find (\<lambda>c. cab_id c = ct_cabinetId tx) (bybitCabinet d) = None"
  shows "ct_id tx \<in> set (map ct_id (bybitTransactionFromCabinet d))
         \<Longrightarrow> dbe (RecordCabinetTransactionError (ct_id tx)) = None
         \<Longrightarrow> enrich_cabinet_transaction net dbe now tx d =
               Inr (d\<lparr>bybitTransactionFromCabinet :=
                      map (\<lambda>r. if ct_id r = ct_id tx
                                then r\<lparr>ct_lastAttemptError := Some (type_error_message (js ''bybitApiToken'')),
                                       ct_updatedAt := now\<rparr>
                                else r) (bybitTransactionFromCabinet d)\<rparr>)"
    and "dbe (RecordCabinetTransactionError (ct_id tx)) = Some m'
         \<Longrightarrow> enrich_cabinet_transaction net dbe now tx d = Inl m'"
  using assms
  by (simp_all add: enrich_cabinet_transaction_def enrich_cabinet_try_def
        update_cabinet_transaction_def)

lemma enrich_cabinet_skipped:
  assumes "List.find (\<lambda>c. cab_id c = ct_cabinetId tx) (bybitCabinet d) = Some c"
    and "\<not> truthy (cab_bybitApiToken c) \<or> \<not> truthy (cab_bybitApiSecret c)"
  shows "enrich_cabinet_transaction net dbe now tx d = Inr d"
  using assms
  by (auto simp add: enrich_cabinet_transaction_def enrich_cabinet_try_def)

lemma enrich_transaction_no_user:
  assumes "List.find (\<lambda>v. u_id v = bt_userId tx) (user_table d) = None"
  shows "bt_id tx \<in> set (map bt_id (bybitTransaction d))
         \<Longrightarrow> dbe (RecordTransactionError (bt_id tx)) = None
         \<Longrightarrow> enrich_transaction net dbe now tx d =
               Inr (d\<lparr>bybitTransaction :=
                      map (\<lambda>r. if bt_id r = bt_id tx
                                then r\<lparr>bt_lastAttemptError := Some (type_error_message (js ''bybitApiKey'')),
                                       bt_updatedAt := now\<rparr>
                                else r) (bybitTransaction d)\<rparr>)"
    and "dbe (RecordTransactionError (bt_id tx)) = Some m'
         \<Longrightarrow> enrich_transaction net dbe now tx d = Inl (m', d)"
  using assms
  by (simp_all add: enrich_transaction_def enrich_transaction_try_def update_transaction_def)

lemma enrich_transaction_skipped:
  assumes "List.find (\<lambda>v. u_id v = bt_userId tx) (user_table d) = Some u"
    and "\<not> truthy (bybitApiKey u) \<or> \<not> truthy (bybitApiSecret u)"
  shows "enrich_transaction net dbe now tx d = Inr d"
  using assms
  by (auto simp add: enrich_transaction_def enrich_transaction_try_def)

lemma link_order_info_no_user:
  "List.find (\<lambda>v. u_id v = bt_userId tx) (user_table d) = None
   \<Longrightarrow> link_order_info net dbe now tx d = d"
  by (simp add: link_order_info_def)

lemma link_order_info_skipped:
  assumes "List.find (\<lambda>v. u_id v = bt_userId tx) (user_table d) = Some u"
    and "\<not> truthy (bybitApiToken u) \<or> \<not> truthy (bybitApiSecret u)"
  shows "link_order_info net dbe now tx d = d"
  using assms by (auto simp add: link_order_info_def)

lemma link_order_info_created:
  assumes "List.find (\<lambda>v. u_id v = bt_userId tx) (user_table d) = Some u"
    and "truthy (bybitApiToken u)" and "truthy (bybitApiSecret u)"
    and "extractPhoneNumbers
           (getChatMessages net now (Some (bt_orderNo tx)) (bybitApiToken u) (bybitApiSecret u)) \<noteq> []"
    and "dbe (CreateOrderInfo (bt_orderNo tx) (bt_userId tx)) = None"
  shows "link_order_info net dbe now tx d =
     d\<lparr>bybitOrderInfo :=
         bybitOrderInfo d
           @ [\<lparr>oi_orderNo = bt_orderNo tx, oi_userId = bt_userId tx,
               oi_phoneNumbers =
                 extractPhoneNumbers
                   (getChatMessages net now (Some (bt_orderNo tx)) (bybitApiToken u) (bybitApiSecret u)),
               oi_bybitTransactionId = Some (bt_id tx)\<rparr>]\<rparr>"
proof -
  have "getChatMessages net now (Some (bt_orderNo tx)) (bybitApiToken u) (bybitApiSecret u) \<noteq> []"
    using assms(4) by (auto simp add: extractPhoneNumbers_def)
  with assms show ?thesis
    by (simp add: link_order_info_def create_order_info_def Let_def)
qed

lemma link_order_info_passes:
  assumes "List.find (\<lambda>v. u_id v = bt_userId tx) (user_table d) = Some u"
    and "getChatMessages net now (Some (bt_orderNo tx)) (bybitApiToken u) (bybitApiSecret u) = []
         \<or> extractPhoneNumbers
              (getChatMessages net now (Some (bt_orderNo tx)) (bybitApiToken u) (bybitApiSecret u)) = []
         \<or> dbe (CreateOrderInfo (bt_orderNo tx) (bt_userId tx)) \<noteq> None"
  shows "link_order_info net dbe now tx d = d"
  using assms
  by (auto simp add: link_order_info_def create_order_info_def Let_def)

lemma getChatMessages_rejected:
  "respond net = (\<lambda>r. Rejects m) \<Longrightarrow> getChatMessages net now orderId token secret = []"
  by (cases "server_time net")
     (simp_all add: getChatMessages_def p2pRequest_def syncTime_def syncTime_body_def
        BybitP2PParser_def Let_def)

text \<open>
  Claim C6, as the code has it. In the cabinet pass, for a stored row whose cabinet has
  its credentials: when the store accepts the update, the row is marked processed, with
  the extracted numbers (none, when the messages have no number) when there are chat
  messages and with its phone list untouched when there are none; when the update
  throws and the store accepts the error update, the message is stored on the row and
  the row is not marked; when the error update throws too, the turn throws and nothing
  is stored. In the user pass of the same service the same holds, with the numbers in a
  new order info (the empty list without messages); the error is stored on the row, and
  the row is not marked, when the order info cannot be created, and also when it was
  created and the update that marks the row throws, in which case the order info stays
  in the store; when the error update throws too, the turn throws and no error is
  stored. In the user pass of the service without cabinets a row without messages,
  without a number in them, or whose order info cannot be created is left as it is:
  nothing is stored, the error neither; a row with a number in its chat gets an order
  info with the numbers. A chat fetch that the network rejects gives no messages and
  throws nothing. In the three passes a row whose cabinet or user has no credentials
  is passed over and left as it is. A row whose cabinet or user is not in the store
  makes the turn throw on the first property read: the two passes with the flag store
  that error like any other, the third only logs it.
\<close>

theorem enrichment_outcomes:
  "(List.find (\<lambda>c. cab_id c = ct_cabinetId ctx) (bybitCabinet d) = Some c
      \<and> truthy (cab_bybitApiToken c) \<and> truthy (cab_bybitApiSecret c)
      \<and> ct_id ctx \<in> set (map ct_id (bybitTransactionFromCabinet d))
    \<longrightarrow>
      (dbe (UpdateCabinetTransaction (ct_id ctx)) = None
        \<longrightarrow> enrich_cabinet_transaction net dbe now ctx d =
             Inr (d\<lparr>bybitTransactionFromCabinet :=
                    map (\<lambda>r. if ct_id r = ct_id ctx
                              then (if getChatMessages net now (ct_orderNo ctx) None (cab_bybitApiSecret c) \<noteq> []
                                    then r\<lparr>ct_extractedPhones :=
                                             extractPhoneNumbers
                                               (getChatMessages net now (ct_orderNo ctx) None
                                                  (cab_bybitApiSecret c)),
                                           ct_processed := True, ct_updatedAt := now\<rparr>
                                    else r\<lparr>ct_processed := True, ct_updatedAt := now\<rparr>)
                              else r) (bybitTransactionFromCabinet d)\<rparr>))
      \<and> (dbe (UpdateCabinetTransaction (ct_id ctx)) = Some m
           \<and> dbe (RecordCabinetTransactionError (ct_id ctx)) = None
        \<longrightarrow> enrich_cabinet_transaction net dbe now ctx d =
             Inr (d\<lparr>bybitTransactionFromCabinet :=
                    map (\<lambda>r. if ct_id r = ct_id ctx
                              then r\<lparr>ct_lastAttemptError := Some m, ct_updatedAt := now\<rparr>
                              else r) (bybitTransactionFromCabinet d)\<rparr>))
      \<and> (dbe (UpdateCabinetTransaction (ct_id ctx)) = Some m
           \<and> dbe (RecordCabinetTransactionError (ct_id ctx)) = Some m'
        \<longrightarrow> enrich_cabinet_transaction net dbe now ctx d = Inl m'))
   \<and> (List.find (\<lambda>v. u_id v = bt_userId utx) (user_table d) = Some u
      \<and> truthy (bybitApiKey u) \<and> truthy (bybitApiSecret u)
      \<and> bt_id utx \<in> set (map bt_id (bybitTransaction d))
    \<longrightarrow>
      (dbe (CreateOrderInfo (bt_orderNo utx) (bt_userId utx)) = None
           \<and> dbe (UpdateTransaction (bt_id utx)) = None
        \<longrightarrow> enrich_transaction net dbe now utx d =
             Inr (d\<lparr>bybitOrderInfo :=
                      bybitOrderInfo d
                        @ [\<lparr>oi_orderNo = bt_orderNo utx, oi_userId = bt_userId utx,
                            oi_phoneNumbers =
                              (if getChatMessages net now (Some (bt_orderNo utx)) None (bybitApiSecret u) \<noteq> []
                               then extractPhoneNumbers
                                      (getChatMessages net now (Some (bt_orderNo utx)) None (bybitApiSecret u))
                               else []),
                            oi_bybitTransactionId = None\<rparr>],
                    bybitTransaction :=
                      map (\<lambda>r. if bt_id r = bt_id utx
                                then r\<lparr>bt_processed := True, bt_updatedAt := now\<rparr> else r)
                        (bybitTransaction d)\<rparr>))
      \<and> (dbe (CreateOrderInfo (bt_orderNo utx) (bt_userId utx)) = Some m
           \<and> dbe (RecordTransactionError (bt_id utx)) = None
        \<longrightarrow> enrich_transaction net dbe now utx d =
             Inr (d\<lparr>bybitTransaction :=
                      map (\<lambda>r. if bt_id r = bt_id utx
                                then r\<lparr>bt_lastAttemptError := Some m, bt_updatedAt := now\<rparr> else r)
                        (bybitTransaction d)\<rparr>))
      \<and> (dbe (CreateOrderInfo (bt_orderNo utx) (bt_userId utx)) = None
           \<and> dbe (UpdateTransaction (bt_id utx)) = Some m
           \<and> dbe (RecordTransactionError (bt_id utx)) = None
        \<longrightarrow> enrich_transaction net dbe now utx d =
             Inr (d\<lparr>bybitOrderInfo :=
                      bybitOrderInfo d
                        @ [\<lparr>oi_orderNo = bt_orderNo utx, oi_userId = bt_userId utx,
                            oi_phoneNumbers =
                              (if getChatMessages net now (Some (bt_orderNo utx)) None (bybitApiSecret u) \<noteq> []
                               then extractPhoneNumbers
                                      (getChatMessages net now (Some (bt_orderNo utx)) None (bybitApiSecret u))
                               else []),
                            oi_bybitTransactionId = None\<rparr>],
                    bybitTransaction :=
                      map (\<lambda>r. if bt_id r = bt_id utx
                                then r\<lparr>bt_lastAttemptError := Some m, bt_updatedAt := now\<rparr> else r)
                        (bybitTransaction d)\<rparr>))
      \<and> (dbe (CreateOrderInfo (bt_orderNo utx) (bt_userId utx)) = Some m
           \<and> dbe (RecordTransactionError (bt_id utx)) = Some m'
        \<longrightarrow> enrich_transaction net dbe now utx d = Inl (m', d))
      \<and> (dbe (CreateOrderInfo (bt_orderNo utx) (bt_userId utx)) = None
           \<and> dbe (UpdateTransaction (bt_id utx)) = Some m
           \<and> dbe (RecordTransactionError (bt_id utx)) = Some m'
        \<longrightarrow> enrich_transaction net dbe now utx d =
             Inl (m', d\<lparr>bybitOrderInfo :=
                      bybitOrderInfo d
                        @ [\<lparr>oi_orderNo = bt_orderNo utx, oi_userId = bt_userId utx,
                            oi_phoneNumbers =
                              (if getChatMessages net now (Some (bt_orderNo utx)) None (bybitApiSecret u) \<noteq> []
                               then extractPhoneNumbers
                                      (getChatMessages net now (Some (bt_orderNo utx)) None (bybitApiSecret u))
                               else []),
                            oi_bybitTransactionId = None\<rparr>]\<rparr>)))
   \<and> (List.find (\<lambda>v. u_id v = bt_userId utx) (user_table d) = Some u
      \<and> (getChatMessages net now (Some (bt_orderNo utx)) (bybitApiToken u) (bybitApiSecret u) = []
          \<or> extractPhoneNumbers
               (getChatMessages net now (Some (bt_orderNo utx)) (bybitApiToken u) (bybitApiSecret u)) = []
          \<or> dbe (CreateOrderInfo (bt_orderNo utx) (bt_userId utx)) \<noteq> None)
    \<longrightarrow> link_order_info net dbe now utx d = d)
   \<and> (respond net = (\<lambda>r. Rejects m) \<longrightarrow> getChatMessages net now orderId token secret = [])
   \<and> (List.find (\<lambda>c. cab_id c = ct_cabinetId ctx) (bybitCabinet d) = Some c
        \<and> (\<not> truthy (cab_bybitApiToken c) \<or> \<not> truthy (cab_bybitApiSecret c))
      \<longrightarrow> enrich_cabinet_transaction net dbe now ctx d = Inr d)
   \<and> (List.find (\<lambda>c. cab_id c = ct_cabinetId ctx) (bybitCabinet d) = None
        \<and> ct_id ctx \<in> set (map ct_id (bybitTransactionFromCabinet d))
        \<and> dbe (RecordCabinetTransactionError (ct_id ctx)) = None
      \<longrightarrow> enrich_cabinet_transaction net dbe now ctx d =
            Inr (d\<lparr>bybitTransactionFromCabinet :=
                   map (\<lambda>r. if ct_id r = ct_id ctx
                             then r\<lparr>ct_lastAttemptError := Some (type_error_message (js ''bybitApiToken'')),
                                    ct_updatedAt := now\<rparr>
                             else r) (bybitTransactionFromCabinet d)\<rparr>))
   \<and> (List.find (\<lambda>c. cab_id c = ct_cabinetId ctx) (bybitCabinet d) = None
        \<and> dbe (RecordCabinetTransactionError (ct_id ctx)) = Some m'
      \<longrightarrow> enrich_cabinet_transaction net dbe now ctx d = Inl m')
   \<and> (List.find (\<lambda>v. u_id v = bt_userId utx) (user_table d) = Some u
        \<and> (\<not> truthy (bybitApiKey u) \<or> \<not> truthy (bybitApiSecret u))
      \<longrightarrow> enrich_transaction net dbe now utx d = Inr d)
   \<and> (List.find (\<lambda>v. u_id v = bt_userId utx) (user_table d) = None
        \<and> bt_id utx \<in> set (map bt_id (bybitTransaction d))
        \<and> dbe (RecordTransactionError (bt_id utx)) = None
      \<longrightarrow> enrich_transaction net dbe now utx d =
            Inr (d\<lparr>bybitTransaction :=
                   map (\<lambda>r. if bt_id r = bt_id utx
                             then r\<lparr>bt_lastAttemptError := Some (type_error_message (js ''bybitApiKey'')),
                                    bt_updatedAt := now\<rparr>
                             else r) (bybitTransaction d)\<rparr>))
   \<and> (List.find (\<lambda>v. u_id v = bt_userId utx) (user_table d) = None
        \<and> dbe (RecordTransactionError (bt_id utx)) = Some m'
      \<longrightarrow> enrich_transaction net dbe now utx d = Inl (m', d))
   \<and> (List.find (\<lambda>v. u_id v = bt_userId utx) (user_table d) = None
      \<longrightarrow> link_order_info net dbe now utx d = d)
   \<and> (List.find (\<lambda>v. u_id v = bt_userId utx) (user_table d) = Some u
        \<and> (\<not> truthy (bybitApiToken u) \<or> \<not> truthy (bybitApiSecret u))
      \<longrightarrow> link_order_info net dbe now utx d = d)
   \<and> (List.find (\<lambda>v. u_id v = bt_userId utx) (user_table d) = Some u
        \<and> truthy (bybitApiToken u) \<and> truthy (bybitApiSecret u)
        \<and> extractPhoneNumbers
             (getChatMessages net now (Some (bt_orderNo utx)) (bybitApiToken u) (bybitApiSecret u)) \<noteq> []
        \<and> dbe (CreateOrderInfo (bt_orderNo utx) (bt_userId utx)) = None
      \<longrightarrow> link_order_info net dbe now utx d =
            d\<lparr>bybitOrderInfo :=
                bybitOrderInfo d
                  @ [\<lparr>oi_orderNo = bt_orderNo utx, oi_userId = bt_userId utx,
                      oi_phoneNumbers =
                        extractPhoneNumbers
                          (getChatMessages net now (Some (bt_orderNo utx)) (bybitApiToken u)
                             (bybitApiSecret u)),
                      oi_bybitTransactionId = Some (bt_id utx)\<rparr>]\<rparr>)"
proof (intro conjI impI; (elim conjE)?)
  assume "List.find (\<lambda>c. cab_id c = ct_cabinetId ctx) (bybitCabinet d) = Some c"
    "\<not> truthy (cab_bybitApiToken c) \<or> \<not> truthy (cab_bybitApiSecret c)"
  then show "enrich_cabinet_transaction net dbe now ctx d = Inr d"
    by (rule enrich_cabinet_skipped)
next
  assume "List.find (\<lambda>c. cab_id c = ct_cabinetId ctx) (bybitCabinet d) = None"
    "ct_id ctx \<in> set (map ct_id (bybitTransactionFromCabinet d))"
    "dbe (RecordCabinetTransactionError (ct_id ctx)) = None"
  then show "enrich_cabinet_transaction net dbe now ctx d =
            Inr (d\<lparr>bybitTransactionFromCabinet :=
                   map (\<lambda>r. if ct_id r = ct_id ctx
                             then r\<lparr>ct_lastAttemptError := Some (type_error_message (js ''bybitApiToken'')),
                                    ct_updatedAt := now\<rparr>
                             else r) (bybitTransactionFromCabinet d)\<rparr>)"
    by (rule enrich_cabinet_no_cabinet(1))
next
  assume "List.find (\<lambda>c. cab_id c = ct_cabinetId ctx) (bybitCabinet d) = None"
    "dbe (RecordCabinetTransactionError (ct_id ctx)) = Some m'"
  then show "enrich_cabinet_transaction net dbe now ctx d = Inl m'"
    by (rule enrich_cabinet_no_cabinet(2))
next
  assume "List.find (\<lambda>v. u_id v = bt_userId utx) (user_table d) = Some u"
    "\<not> truthy (bybitApiKey u) \<or> \<not> truthy (bybitApiSecret u)"
  then show "enrich_transaction net dbe now utx d = Inr d"
    by (rule enrich_transaction_skipped)
next
  assume "List.find (\<lambda>v. u_id v = bt_userId utx) (user_table d) = None"
    "bt_id utx \<in> set (map bt_id (bybitTransaction d))"
    "dbe (RecordTransactionError (bt_id utx)) = None"
  then show "enrich_transaction net dbe now utx d =
            Inr (d\<lparr>bybitTransaction :=
                   map (\<lambda>r. if bt_id r = bt_id utx
                             then r\<lparr>bt_lastAttemptError := Some (type_error_message (js ''bybitApiKey'')),
                                    bt_updatedAt := now\<rparr>
                             else r) (bybitTransaction d)\<rparr>)"
    by (rule enrich_transaction_no_user(1))
next
  assume "List.find (\<lambda>v. u_id v = bt_userId utx) (user_table d) = None"
    "dbe (RecordTransactionError (bt_id utx)) = Some m'"
  then show "enrich_transaction net dbe now utx d = Inl (m', d)"
    by (rule enrich_transaction_no_user(2))
next
  assume "List.find (\<lambda>v. u_id v = bt_userId utx) (user_table d) = None"
  then show "link_order_info net dbe now utx d = d"
    by (rule link_order_info_no_user)
next
  assume "List.find (\<lambda>v. u_id v = bt_userId utx) (user_table d) = Some u"
    "\<not> truthy (bybitApiToken u) \<or> \<not> truthy (bybitApiSecret u)"
  then show "link_order_info net dbe now utx d = d"
    by (rule link_order_info_skipped)
next
  assume "List.find (\<lambda>v. u_id v = bt_userId utx) (user_table d) = Some u"
    "truthy (bybitApiToken u)" "truthy (bybitApiSecret u)"
    "extractPhoneNumbers
       (getChatMessages net now (Some (bt_orderNo utx)) (bybitApiToken u) (bybitApiSecret u)) \<noteq> []"
    "dbe (CreateOrderInfo (bt_orderNo utx) (bt_userId utx)) = None"
  then show "link_order_info net dbe now utx d =
            d\<lparr>bybitOrderInfo :=
                bybitOrderInfo d
                  @ [\<lparr>oi_orderNo = bt_orderNo utx, oi_userId = bt_userId utx,
                      oi_phoneNumbers =
                        extractPhoneNumbers
                          (getChatMessages net now (Some (bt_orderNo utx)) (bybitApiToken u)
                             (bybitApiSecret u)),
                      oi_bybitTransactionId = Some (bt_id utx)\<rparr>]\<rparr>"
    by (rule link_order_info_created)
next
  assume "List.find (\<lambda>c. cab_id c = ct_cabinetId ctx) (bybitCabinet d) = Some c"
    "truthy (cab_bybitApiToken c)" "truthy (cab_bybitApiSecret c)"
    "ct_id ctx \<in> set (map ct_id (bybitTransactionFromCabinet d))"
    "dbe (UpdateCabinetTransaction (ct_id ctx)) = None"
  then show "enrich_cabinet_transaction net dbe now ctx d =
             Inr (d\<lparr>bybitTransactionFromCabinet :=
                    map (\<lambda>r. if ct_id r = ct_id ctx
                              then (if getChatMessages net now (ct_orderNo ctx) None (cab_bybitApiSecret c) \<noteq> []
                                    then r\<lparr>ct_extractedPhones :=
                                             extractPhoneNumbers
                                               (getChatMessages net now (ct_orderNo ctx) None
                                                  (cab_bybitApiSecret c)),
                                           ct_processed := True, ct_updatedAt := now\<rparr>
                                    else r\<lparr>ct_processed := True, ct_updatedAt := now\<rparr>)
                              else r) (bybitTransactionFromCabinet d)\<rparr>)"
    by (rule enrich_cabinet_marked)
next
  assume "List.find (\<lambda>c. cab_id c = ct_cabinetId ctx) (bybitCabinet d) = Some c"
    "truthy (cab_bybitApiToken c)" "truthy (cab_bybitApiSecret c)"
    "ct_id ctx \<in> set (map ct_id (bybitTransactionFromCabinet d))"
    "dbe (UpdateCabinetTransaction (ct_id ctx)) = Some m"
    "dbe (RecordCabinetTransactionError (ct_id ctx)) = None"
  then show "enrich_cabinet_transaction net dbe now ctx d =
             Inr (d\<lparr>bybitTransactionFromCabinet :=
                    map (\<lambda>r. if ct_id r = ct_id ctx
                              then r\<lparr>ct_lastAttemptError := Some m, ct_updatedAt := now\<rparr>
                              else r) (bybitTransactionFromCabinet d)\<rparr>)"
    by (rule enrich_cabinet_error)
next
  assume "List.find (\<lambda>c. cab_id c = ct_cabinetId ctx) (bybitCabinet d) = Some c"
    "truthy (cab_bybitApiToken c)" "truthy (cab_bybitApiSecret c)"
    "ct_id ctx \<in> set (map ct_id (bybitTransactionFromCabinet d))"
    "dbe (UpdateCabinetTransaction (ct_id ctx)) = Some m"
    "dbe (RecordCabinetTransactionError (ct_id ctx)) = Some m'"
  then show "enrich_cabinet_transaction net dbe now ctx d = Inl m'"
    by (rule enrich_cabinet_error_lost)
next
  assume "List.find (\<lambda>v. u_id v = bt_userId utx) (user_table d) = Some u"
    "truthy (bybitApiKey u)" "truthy (bybitApiSecret u)"
    "bt_id utx \<in> set (map bt_id (bybitTransaction d))"
    "dbe (CreateOrderInfo (bt_orderNo utx) (bt_userId utx)) = None"
    "dbe (UpdateTransaction (bt_id utx)) = None"
  then show "enrich_transaction net dbe now utx d =
             Inr (d\<lparr>bybitOrderInfo :=
                      bybitOrderInfo d
                        @ [\<lparr>oi_orderNo = bt_orderNo utx, oi_userId = bt_userId utx,
                            oi_phoneNumbers =
                              (if getChatMessages net now (Some (bt_orderNo utx)) None (bybitApiSecret u) \<noteq> []
                               then extractPhoneNumbers
                                      (getChatMessages net now (Some (bt_orderNo utx)) None (bybitApiSecret u))
                               else []),
                            oi_bybitTransactionId = None\<rparr>],
                    bybitTransaction :=
                      map (\<lambda>r. if bt_id r = bt_id utx
                                then r\<lparr>bt_processed := True, bt_updatedAt := now\<rparr> else r)
                        (bybitTransaction d)\<rparr>)"
    by (rule enrich_transaction_marked)
next
  assume "List.find (\<lambda>v. u_id v = bt_userId utx) (user_table d) = Some u"
    "truthy (bybitApiKey u)" "truthy (bybitApiSecret u)"
    "bt_id utx \<in> set (map bt_id (bybitTransaction d))"
    "dbe (CreateOrderInfo (bt_orderNo utx) (bt_userId utx)) = Some m"
    "dbe (RecordTransactionError (bt_id utx)) = None"
  then show "enrich_transaction net dbe now utx d =
             Inr (d\<lparr>bybitTransaction :=
                      map (\<lambda>r. if bt_id r = bt_id utx
                                then r\<lparr>bt_lastAttemptError := Some m, bt_updatedAt := now\<rparr> else r)
                        (bybitTransaction d)\<rparr>)"
    by (rule enrich_transaction_error)
next
  assume "List.find (\<lambda>v. u_id v = bt_userId utx) (user_table d) = Some u"
    "truthy (bybitApiKey u)" "truthy (bybitApiSecret u)"
    "bt_id utx \<in> set (map bt_id (bybitTransaction d))"
    "dbe (CreateOrderInfo (bt_orderNo utx) (bt_userId utx)) = None"
    "dbe (UpdateTransaction (bt_id utx)) = Some m"
    "dbe (RecordTransactionError (bt_id utx)) = None"
  then show "enrich_transaction net dbe now utx d =
             Inr (d\<lparr>bybitOrderInfo :=
                      bybitOrderInfo d
                        @ [\<lparr>oi_orderNo = bt_orderNo utx, oi_userId = bt_userId utx,
                            oi_phoneNumbers =
                              (if getChatMessages net now (Some (bt_orderNo utx)) None (bybitApiSecret u) \<noteq> []
                               then extractPhoneNumbers
                                      (getChatMessages net now (Some (bt_orderNo utx)) None (bybitApiSecret u))
                               else []),
                            oi_bybitTransactionId = None\<rparr>],
                    bybitTransaction :=
                      map (\<lambda>r. if bt_id r = bt_id utx
                                then r\<lparr>bt_lastAttemptError := Some m, bt_updatedAt := now\<rparr> else r)
                        (bybitTransaction d)\<rparr>)"
    by (rule enrich_transaction_marking_error)
next
  assume "List.find (\<lambda>v. u_id v = bt_userId utx) (user_table d) = Some u"
    "truthy (bybitApiKey u)" "truthy (bybitApiSecret u)"
    "bt_id utx \<in> set (map bt_id (bybitTransaction d))"
    "dbe (CreateOrderInfo (bt_orderNo utx) (bt_userId utx)) = Some m"
    "dbe (RecordTransactionError (bt_id utx)) = Some m'"
  then show "enrich_transaction net dbe now utx d = Inl (m', d)"
    by (intro enrich_transaction_error_lost(1))
next
  assume "List.find (\<lambda>v. u_id v = bt_userId utx) (user_table d) = Some u"
    "truthy (bybitApiKey u)" "truthy (bybitApiSecret u)"
    "bt_id utx \<in> set (map bt_id (bybitTransaction d))"
    "dbe (CreateOrderInfo (bt_orderNo utx) (bt_userId utx)) = None"
    "dbe (UpdateTransaction (bt_id utx)) = Some m"
    "dbe (RecordTransactionError (bt_id utx)) = Some m'"
  then show "enrich_transaction net dbe now utx d =
             Inl (m', d\<lparr>bybitOrderInfo :=
                      bybitOrderInfo d
                        @ [\<lparr>oi_orderNo = bt_orderNo utx, oi_userId = bt_userId utx,
                            oi_phoneNumbers =
                              (if getChatMessages net now (Some (bt_orderNo utx)) None (bybitApiSecret u) \<noteq> []
                               then extractPhoneNumbers
                                      (getChatMessages net now (Some (bt_orderNo utx)) None (bybitApiSecret u))
                               else []),
                            oi_bybitTransactionId = None\<rparr>]\<rparr>)"
    by (intro enrich_transaction_error_lost(2))
next
  assume "List.find (\<lambda>v. u_id v = bt_userId utx) (user_table d) = Some u"
    "getChatMessages net now (Some (bt_orderNo utx)) (bybitApiToken u) (bybitApiSecret u) = []
          \<or> extractPhoneNumbers
               (getChatMessages net now (Some (bt_orderNo utx)) (bybitApiToken u) (bybitApiSecret u)) = []
          \<or> dbe (CreateOrderInfo (bt_orderNo utx) (bt_userId utx)) \<noteq> None"
  then show "link_order_info net dbe now utx d = d"
    by (rule link_order_info_passes)
next
  assume "respond net = (\<lambda>r. Rejects m)"
  then show "getChatMessages net now orderId token secret = []"
    by (rule getChatMessages_rejected)
qed

lemma sample_net_chat:
  "getChatMessages (sample_net msgs) now orderId token (Some secret) = msgs"
  by (simp add: getChatMessages_def p2pRequest_def syncTime_def syncTime_body_def
        BybitP2PParser_def sample_net_def Let_def)

theorem enrichment_outcomes_witness:
  "List.find (\<lambda>c. cab_id c = ct_cabinetId sample_cabinet_row) (bybitCabinet sample_cabinet_db)
     = Some sample_cabinet
   \<and> truthy (cab_bybitApiToken sample_cabinet) \<and> truthy (cab_bybitApiSecret sample_cabinet)
   \<and> ct_id sample_cabinet_row \<in> set (map ct_id (bybitTransactionFromCabinet sample_cabinet_db))
   \<and> enrich_cabinet_transaction (sample_net []) (\<lambda>opn. None) 1700000600000 sample_cabinet_row
        sample_cabinet_db
       = Inr (sample_cabinet_db\<lparr>bybitTransactionFromCabinet :=
                [sample_cabinet_row\<lparr>ct_processed := True, ct_updatedAt := 1700000600000\<rparr>]\<rparr>)
   \<and> ct_extractedPhones sample_cabinet_row = []
   \<and> \<not> ct_processed sample_cabinet_row"
proof -
  have h1: "List.find (\<lambda>c. cab_id c = ct_cabinetId sample_cabinet_row) (bybitCabinet sample_cabinet_db)
     = Some sample_cabinet"
    by (simp add: sample_cabinet_db_def sample_db_def sample_cabinet_row_def sample_cabinet_def
          cabinet_row_def)
  have h2: "truthy (cab_bybitApiToken sample_cabinet)" by (simp add: sample_cabinet_def js_def)
  have h3: "truthy (cab_bybitApiSecret sample_cabinet)" by (simp add: sample_cabinet_def js_def)
  have h4: "ct_id sample_cabinet_row \<in> set (map ct_id (bybitTransactionFromCabinet sample_cabinet_db))"
    by (simp add: sample_cabinet_db_def)
  have h5: "(\<lambda>opn::db_op. None::jstring option) (UpdateCabinetTransaction (ct_id sample_cabinet_row)) = None"
    by simp
  from enrichment_outcomes [where d = sample_cabinet_db and ctx = sample_cabinet_row
      and c = sample_cabinet and dbe = "\<lambda>opn. None" and net = "sample_net []"
      and now = 1700000600000] h1 h2 h3 h4 h5
  have "enrich_cabinet_transaction (sample_net []) (\<lambda>opn. None) 1700000600000 sample_cabinet_row
        sample_cabinet_db
     = Inr (sample_cabinet_db\<lparr>bybitTransactionFromCabinet :=
            map (\<lambda>r. if ct_id r = ct_id sample_cabinet_row
                      then (if getChatMessages (sample_net []) 1700000600000 (ct_orderNo sample_cabinet_row)
                                 None (cab_bybitApiSecret sample_cabinet) \<noteq> []
                            then r\<lparr>ct_extractedPhones :=
                                     extractPhoneNumbers
                                       (getChatMessages (sample_net []) 1700000600000
                                          (ct_orderNo sample_cabinet_row) None
                                          (cab_bybitApiSecret sample_cabinet)),
                                   ct_processed := True, ct_updatedAt := 1700000600000\<rparr>
                            else r\<lparr>ct_processed := True, ct_updatedAt := 1700000600000\<rparr>)
                      else r) (bybitTransactionFromCabinet sample_cabinet_db)\<rparr>)"
    by blast
  moreover have "cab_bybitApiSecret sample_cabinet = Some (js ''secret'')"
    by (simp add: sample_cabinet_def)
  ultimately have e: "enrich_cabinet_transaction (sample_net []) (\<lambda>opn. None) 1700000600000 sample_cabinet_row
        sample_cabinet_db
       = Inr (sample_cabinet_db\<lparr>bybitTransactionFromCabinet :=
                [sample_cabinet_row\<lparr>ct_processed := True, ct_updatedAt := 1700000600000\<rparr>]\<rparr>)"
    by (simp add: sample_net_chat sample_cabinet_db_def)
  have p: "ct_extractedPhones sample_cabinet_row = []" "\<not> ct_processed sample_cabinet_row"
    by (simp_all add: sample_cabinet_row_def cabinet_row_def)
  from h1 h2 h3 h4 e p show ?thesis by blast
qed

text \<open>
  Claim C6 as stated fails in the user pass of the service without cabinets. With no chat
  messages the stored row is left pending: the pass changes nothing and no order info
  refers to the row. With a number in the chat and a store that rejects the order info,
  the pass changes nothing either: the error is not stored on the row.
\<close>

theorem pending_without_messages_counterexample:
  "processUnprocessedTransactions_orderInfo (sample_net []) (\<lambda>opn. None) 1700000600000 sample_user_db
     = sample_user_db
   \<and> bybitTransaction sample_user_db = [sample_user_row]
   \<and> \<not> has_order_info sample_user_db sample_user_row
   \<and> processUnprocessedTransactions_orderInfo (sample_net [sample_call_message])
        (\<lambda>opn. if opn = CreateOrderInfo (js ''1001'') 1 then Some (js ''rejected'') else None)
        1700000600000 sample_user_db
     = sample_user_db
   \<and> bt_lastAttemptError sample_user_row = None"
  by (simp add: processUnprocessedTransactions_orderInfo_def link_order_info_def has_order_info_def
        create_order_info_def sample_net_chat sample_call_numbers sample_user_db_def sample_db_def
        sample_user_row_def sample_user_def user_row_def Let_def js_def)

end
